theory Spec2Isabelle
  imports Complex_Main "HOL-Library.Word" "HOL-Library.Log_Nat" "HOL-Library.Monad_Syntax"
begin

unbundle bit_operations_syntax

chapter \<open>node-sendspin: binary header, time filter, client and server session\<close>

text \<open>
  A shallow embedding of the parts of the Sendspin implementation that its specification
  makes claims about: the 9-byte binary header codec (\<^verbatim>\<open>binary.ts\<close>), the two-dimensional
  Kalman time filter (\<^verbatim>\<open>time-filter.ts\<close>), the client's source upload and stream handling
  (\<^verbatim>\<open>client.ts\<close>), the server session (\<^verbatim>\<open>server/session.ts\<close>) and the registry lookup
  (\<^verbatim>\<open>server/core.ts\<close>).

  Conventions.
  \<^item> A JavaScript \<^verbatim>\<open>number\<close> that carries a quantity (offsets, variances, timestamps)
    is a \<^typ>\<open>real\<close>, and the one non-finite value the code itself creates
    (\<^verbatim>\<open>Number.POSITIVE_INFINITY\<close>) is written out. The Kalman update of the filter is
    computed in exact arithmetic. The two time projections \<^verbatim>\<open>computeServerTime\<close> and
    \<^verbatim>\<open>computeClientTime\<close> are computed as the code computes them, in IEEE doubles: every
    operation rounds its exact result to the nearest double. Where a step leaves the finite
    numbers (a division by zero, an overflow) the model says so with \<^term>\<open>None\<close> instead of
    inventing a value.
  \<^item> A \<^verbatim>\<open>Buffer\<close> is a list of bytes; a \<^verbatim>\<open>BigInt\<close> is an \<^typ>\<open>int\<close>. Where a 64-bit
    integer becomes a \<^verbatim>\<open>number\<close> again (\<^verbatim>\<open>Number(bigint)\<close> in the header codec) the rounding to
    a double is modelled.
  \<^item> The server session is a record of its fields with the trace of what it has done
    (socket calls, hook calls, timers); what it reads from the socket and the clocks comes
    with each operation as an environment, and so does the behaviour of the hooks it calls:
    a hook returns or throws. A hook that throws ends the method that called it.
  \<^item> An exception is a value of type \<open>error\<close>.
\<close>

section \<open>Definitions\<close>

subsection \<open>Errors\<close>

datatype error =
    Error string          \<comment> \<open>\<^verbatim>\<open>throw new Error(msg)\<close>\<close>
  | ERR_OUT_OF_RANGE      \<comment> \<open>Node's range check in \<^verbatim>\<open>writeUInt8\<close> / \<^verbatim>\<open>writeBigInt64BE\<close>\<close>
  | RangeError            \<comment> \<open>\<^verbatim>\<open>BigInt(x)\<close> for a number that is not an integer\<close>
  | TypeError             \<comment> \<open>a property read on \<^verbatim>\<open>undefined\<close>, a call of a non-function\<close>

subsection \<open>binary.ts\<close>

type_synonym byte = "8 word"

record BinaryHeader =
  messageType :: int
  timestampUs :: real

definition BINARY_HEADER_SIZE :: nat where
  "BINARY_HEADER_SIZE = 9"

text \<open>\<^verbatim>\<open>Number(b)\<close> for a BigInt \<open>b\<close>: the nearest IEEE double, ties to even. A double has
  53 significant bits, so the low \<open>k\<close> bits of a longer magnitude are rounded away.\<close>

definition Number_of_BigInt :: "int \<Rightarrow> int" where
  "Number_of_BigInt b =
     (let m = nat \<bar>b\<bar>;
          k = floorlog 2 m - 53;
          q = m div 2 ^ k;
          r = m mod 2 ^ k;
          up = (2 * r > 2 ^ k \<or> (2 * r = 2 ^ k \<and> odd q))
      in sgn b * int ((if up then q + 1 else q) * 2 ^ k))"

text \<open>The integers a \<^verbatim>\<open>number\<close> can hold: those the rounding leaves alone.\<close>

definition isNumber :: "int \<Rightarrow> bool" where
  "isNumber n \<longleftrightarrow> Number_of_BigInt n = n"

text \<open>\<^verbatim>\<open>buf.writeBigInt64BE(v, off)\<close> stores the two's complement of \<open>v\<close>, most significant
  byte first; \<^verbatim>\<open>buf.readBigInt64BE(off)\<close> reads it back.\<close>

definition writeBigInt64BE :: "64 word \<Rightarrow> byte list" where
  "writeBigInt64BE w =
     [ucast (drop_bit 56 w), ucast (drop_bit 48 w), ucast (drop_bit 40 w), ucast (drop_bit 32 w),
      ucast (drop_bit 24 w), ucast (drop_bit 16 w), ucast (drop_bit 8 w), ucast w]"

definition readBigInt64BE :: "byte list \<Rightarrow> nat \<Rightarrow> 64 word" where
  "readBigInt64BE buf off =
     push_bit 56 (ucast (buf ! off)) OR push_bit 48 (ucast (buf ! (off + 1))) OR
     push_bit 40 (ucast (buf ! (off + 2))) OR push_bit 32 (ucast (buf ! (off + 3))) OR
     push_bit 24 (ucast (buf ! (off + 4))) OR push_bit 16 (ucast (buf ! (off + 5))) OR
     push_bit 8 (ucast (buf ! (off + 6))) OR ucast (buf ! (off + 7))"

text \<open>\<^verbatim>\<open>unpackBinaryHeader\<close>: the length is checked first, so every index read is in range.\<close>

definition unpackBinaryHeader :: "byte list \<Rightarrow> error + BinaryHeader" where
  "unpackBinaryHeader data =
     (if length data < BINARY_HEADER_SIZE
      then Inl (Error ''Expected at least 9 bytes'')
      else Inr \<lparr> messageType = uint (data ! 0),
                 timestampUs = of_int (Number_of_BigInt (sint (readBigInt64BE data 1))) \<rparr>)"

text \<open>\<^verbatim>\<open>packBinaryHeader\<close>: \<^verbatim>\<open>writeUInt8\<close> rejects a tag outside 0..255, \<^verbatim>\<open>BigInt(ts)\<close> rejects a
  number that is not an integer, \<^verbatim>\<open>writeBigInt64BE\<close> rejects a value outside the signed 64-bit
  range. Message tags are integers (\<^verbatim>\<open>BinaryMessageType | number\<close>).\<close>

definition packBinaryHeader :: "BinaryHeader \<Rightarrow> error + byte list" where
  "packBinaryHeader header =
     (if messageType header < 0 \<or> messageType header > 255 then Inl ERR_OUT_OF_RANGE
      else if of_int \<lfloor>timestampUs header\<rfloor> \<noteq> timestampUs header then Inl RangeError
      else if \<lfloor>timestampUs header\<rfloor> < - (2 ^ 63) \<or> \<lfloor>timestampUs header\<rfloor> \<ge> 2 ^ 63
        then Inl ERR_OUT_OF_RANGE
      else Inr (word_of_int (messageType header)
                 # writeBigInt64BE (word_of_int \<lfloor>timestampUs header\<rfloor>)))"

definition packBinaryHeaderRaw :: "int \<Rightarrow> real \<Rightarrow> error + byte list" where
  "packBinaryHeaderRaw mt ts = packBinaryHeader \<lparr> messageType = mt, timestampUs = ts \<rparr>"

text \<open>\<^verbatim>\<open>enum BinaryMessageType\<close>\<close>

definition AUDIO_CHUNK :: int where "AUDIO_CHUNK = 4"
definition ARTWORK_CHANNEL_0 :: int where "ARTWORK_CHANNEL_0 = 8"
definition SOURCE_AUDIO_CHUNK :: int where "SOURCE_AUDIO_CHUNK = 12"
definition VISUALIZATION_DATA :: int where "VISUALIZATION_DATA = 16"

subsection \<open>time-filter.ts\<close>

definition ADAPTIVE_FORGETTING_CUTOFF :: real where
  "ADAPTIVE_FORGETTING_CUTOFF = 0.75"

record TimeElement =
  te_lastUpdate :: real
  te_offset :: real
  te_drift :: real

definition TimeElement_new :: TimeElement where
  "TimeElement_new = \<lparr> te_lastUpdate = 0, te_offset = 0, te_drift = 0 \<rparr>"

text \<open>The filter's fields. \<open>offsetCovariance\<close> starts as \<^verbatim>\<open>Number.POSITIVE_INFINITY\<close>, which is
  \<^term>\<open>None\<close> here; \<^term>\<open>Some p\<close> is the finite number \<open>p\<close>.\<close>

record SendspinTimeFilter =
  lastUpdate :: real
  count :: int
  offset :: real
  drift :: real
  offsetCovariance :: "real option"
  offsetDriftCovariance :: real
  driftCovariance :: real
  processVariance :: real
  forgetVarianceFactor :: real
  current :: TimeElement

definition SendspinTimeFilter_constructor :: "real \<Rightarrow> real \<Rightarrow> SendspinTimeFilter" where
  "SendspinTimeFilter_constructor processStdDev forgetFactor =
     \<lparr> lastUpdate = 0, count = 0, offset = 0, drift = 0,
       offsetCovariance = None, offsetDriftCovariance = 0, driftCovariance = 0,
       processVariance = processStdDev * processStdDev,
       forgetVarianceFactor = forgetFactor * forgetFactor,
       current = TimeElement_new \<rparr>"

text \<open>\<^verbatim>\<open>new SendspinTimeFilter()\<close> with the default arguments 0.01 and 1.001.\<close>

definition SendspinTimeFilter_new :: SendspinTimeFilter where
  "SendspinTimeFilter_new = SendspinTimeFilter_constructor 0.01 1.001"

definition snapshot :: "SendspinTimeFilter \<Rightarrow> TimeElement" where
  "snapshot f = \<lparr> te_lastUpdate = lastUpdate f, te_offset = offset f, te_drift = drift f \<rparr>"

text \<open>The Kalman step of \<^verbatim>\<open>update\<close> (the code after the two bootstrap branches), for a
  filter whose \<open>lastUpdate\<close> is already the new time and whose offset covariance is the finite
  \<open>poo\<close>. It is \<^term>\<open>None\<close> when \<^verbatim>\<open>1.0 / (newOffsetCovariance + measurementVariance)\<close> divides by
  zero.\<close>

definition kalman_step ::
  "real \<Rightarrow> real \<Rightarrow> real \<Rightarrow> real \<Rightarrow> SendspinTimeFilter \<Rightarrow> SendspinTimeFilter option" where
  "kalman_step measurement maxError dt poo f =
     (let measurementVariance = maxError * maxError;
          offsetPrediction = offset f + drift f * dt;
          dtSquared = dt * dt;
          driftProcessVariance = 0;
          newDriftCovariance0 = driftCovariance f + driftProcessVariance;
          newOffsetDriftCovariance0 = offsetDriftCovariance f + driftCovariance f * dt;
          offsetProcessVariance = dt * processVariance f;
          newOffsetCovariance0 =
            poo + 2 * offsetDriftCovariance f * dt + driftCovariance f * dtSquared
              + offsetProcessVariance;
          residual = measurement - offsetPrediction;
          maxResidualCutoff = maxError * ADAPTIVE_FORGETTING_CUTOFF;
          forget = (\<not> count f < 100 \<and> residual > maxResidualCutoff);
          count' = (if count f < 100 then count f + 1 else count f);
          newDriftCovariance =
            (if forget then newDriftCovariance0 * forgetVarianceFactor f else newDriftCovariance0);
          newOffsetDriftCovariance =
            (if forget then newOffsetDriftCovariance0 * forgetVarianceFactor f
             else newOffsetDriftCovariance0);
          newOffsetCovariance =
            (if forget then newOffsetCovariance0 * forgetVarianceFactor f else newOffsetCovariance0)
      in if newOffsetCovariance + measurementVariance = 0 then None
         else
           let uncertainty = 1 / (newOffsetCovariance + measurementVariance);
               offsetGain = newOffsetCovariance * uncertainty;
               driftGain = newOffsetDriftCovariance * uncertainty;
               f1 = f \<lparr> count := count',
                        offset := offsetPrediction + offsetGain * residual,
                        drift := drift f + driftGain * residual,
                        driftCovariance := newDriftCovariance - driftGain * newOffsetDriftCovariance,
                        offsetDriftCovariance :=
                          newOffsetDriftCovariance - driftGain * newOffsetCovariance,
                        offsetCovariance :=
                          Some (newOffsetCovariance - offsetGain * newOffsetCovariance) \<rparr>
           in Some (f1 \<lparr> current := snapshot f1 \<rparr>))"

text \<open>\<^verbatim>\<open>update(measurement, maxError, timeAdded)\<close>. The first line returns when the time
  equals \<open>lastUpdate\<close>; \<open>dt\<close> is therefore never zero below. With \<open>count \<ge> 1\<close> and an infinite
  offset covariance the arithmetic would leave the finite numbers: \<^term>\<open>None\<close>.\<close>

definition update ::
  "real \<Rightarrow> real \<Rightarrow> real \<Rightarrow> SendspinTimeFilter \<Rightarrow> SendspinTimeFilter option" where
  "update measurement maxError timeAdded f0 =
     (if timeAdded = lastUpdate f0 then Some f0
      else
        let dt = timeAdded - lastUpdate f0;
            f = f0 \<lparr> lastUpdate := timeAdded \<rparr>;
            measurementVariance = maxError * maxError
        in if count f \<le> 0 then
             (let f1 = f \<lparr> count := count f + 1, offset := measurement,
                            offsetCovariance := Some measurementVariance, drift := 0 \<rparr>
              in Some (f1 \<lparr> current := snapshot f1 \<rparr>))
           else
             (case offsetCovariance f of
                None \<Rightarrow> None
              | Some poo \<Rightarrow>
                  if count f = 1 then
                    (let f1 = f \<lparr> count := count f + 1,
                                  drift := (measurement - offset f) / dt,
                                  offset := measurement,
                                  driftCovariance := (poo + measurementVariance) / dt,
                                  offsetCovariance := Some measurementVariance \<rparr>
                     in Some (f1 \<lparr> current := snapshot f1 \<rparr>))
                  else kalman_step measurement maxError dt poo f))"

text \<open>A sequence of \<^verbatim>\<open>update\<close> calls, each given as (measurement, maxError, timeAdded).\<close>

fun updates :: "(real \<times> real \<times> real) list \<Rightarrow> SendspinTimeFilter \<Rightarrow> SendspinTimeFilter option" where
  "updates [] f = Some f"
| "updates ((m, e, t) # rest) f =
     (case update m e t f of None \<Rightarrow> None | Some f' \<Rightarrow> updates rest f')"

text \<open>Arithmetic on doubles. A finite double is a real \<open>m * 2\<^sup>e\<close> with an integer
  significand \<open>\<bar>m\<bar> < 2\<^sup>5\<^sup>3\<close> and an exponent \<open>- 1074 \<le> e \<le> 971\<close>. \<open>ulpExponent x\<close> is the
  exponent of the doubles around \<open>x\<close> (the smallest one, \<open>- 1074\<close>, in the subnormal range),
  and \<open>toDouble x\<close> is the double an operation returns when its exact result is \<open>x\<close>: the
  nearest multiple of \<open>2\<close> to the power \<open>ulpExponent x\<close>, a tie going to the even significand.
  It is \<^term>\<open>None\<close> when that multiple has magnitude \<open>2\<^sup>1\<^sup>0\<^sup>2\<^sup>4\<close> or more: the operation
  returns an infinity.\<close>

definition roundTiesToEven :: "real \<Rightarrow> int" where
  "roundTiesToEven z =
     (let n = \<lfloor>z\<rfloor>
      in if z - of_int n < 1 / 2 then n
         else if z - of_int n > 1 / 2 then n + 1
         else if even n then n else n + 1)"

definition ulpExponent :: "real \<Rightarrow> int" where
  "ulpExponent x = max (\<lfloor>log 2 \<bar>x\<bar>\<rfloor> - 52) (- 1074)"

definition toDouble :: "real \<Rightarrow> real option" where
  "toDouble x =
     (if x = 0 then Some 0
      else
        let e = ulpExponent x;
            r = of_int (roundTiesToEven (x / 2 powi e)) * 2 powi e
        in if \<bar>r\<bar> \<ge> 2 ^ 1024 then None else Some r)"

text \<open>The reals that are doubles: those the rounding leaves alone.\<close>

definition isDouble :: "real \<Rightarrow> bool" where
  "isDouble x \<longleftrightarrow> toDouble x = Some x"

text \<open>The operators \<^verbatim>\<open>+\<close>, \<^verbatim>\<open>-\<close>, \<^verbatim>\<open>*\<close> and \<^verbatim>\<open>/\<close> on two finite doubles. \<^term>\<open>None\<close> is a
  result that is not a finite number: an infinity, or \<^verbatim>\<open>NaN\<close> from \<^verbatim>\<open>0 / 0\<close>.\<close>

definition fadd :: "real \<Rightarrow> real \<Rightarrow> real option" where
  "fadd a b = toDouble (a + b)"

definition fsub :: "real \<Rightarrow> real \<Rightarrow> real option" where
  "fsub a b = toDouble (a - b)"

definition fmul :: "real \<Rightarrow> real \<Rightarrow> real option" where
  "fmul a b = toDouble (a * b)"

definition fdiv :: "real \<Rightarrow> real \<Rightarrow> real option" where
  "fdiv a b = (if b = 0 then None else toDouble (a / b))"

text \<open>\<^verbatim>\<open>computeServerTime\<close> and \<^verbatim>\<open>computeClientTime\<close> read the snapshot \<open>current\<close>; their
  argument is a double. Each operator rounds; an operand that is not finite makes every
  later result not finite, so the whole is \<^term>\<open>None\<close> then. \<^verbatim>\<open>Math.round\<close> is exact on a
  double and rounds halves up, as \<^term>\<open>round\<close> does.\<close>

definition computeServerTime :: "SendspinTimeFilter \<Rightarrow> real \<Rightarrow> real option" where
  "computeServerTime f clientTime =
     do {
       dt \<leftarrow> fsub clientTime (te_lastUpdate (current f));
       p \<leftarrow> fmul (te_drift (current f)) dt;
       q \<leftarrow> fadd (te_offset (current f)) p;
       fadd clientTime (of_int (round q))
     }"

definition computeClientTime :: "SendspinTimeFilter \<Rightarrow> real \<Rightarrow> int option" where
  "computeClientTime f serverTime =
     do {
       a \<leftarrow> fsub serverTime (te_offset (current f));
       b \<leftarrow> fmul (te_drift (current f)) (te_lastUpdate (current f));
       n \<leftarrow> fadd a b;
       d \<leftarrow> fadd 1 (te_drift (current f));
       q \<leftarrow> fdiv n d;
       Some (round q)
     }"

definition reset :: "SendspinTimeFilter \<Rightarrow> SendspinTimeFilter" where
  "reset f = f \<lparr> count := 0, offset := 0, drift := 0, offsetCovariance := None,
                 offsetDriftCovariance := 0, driftCovariance := 0, current := TimeElement_new \<rparr>"

definition isSynchronized :: "SendspinTimeFilter \<Rightarrow> bool" where
  "isSynchronized f \<longleftrightarrow> count f \<ge> 2 \<and> offsetCovariance f \<noteq> None"

text \<open>\<^verbatim>\<open>get error\<close>: \<^verbatim>\<open>Math.round(Math.sqrt(offsetCovariance))\<close>. \<^term>\<open>None\<close> is a result that is
  not a finite number: \<^verbatim>\<open>Infinity\<close> from an infinite covariance, \<^verbatim>\<open>NaN\<close> from a negative one.\<close>

definition error :: "SendspinTimeFilter \<Rightarrow> int option" where
  "error f =
     (case offsetCovariance f of
        None \<Rightarrow> None
      | Some p \<Rightarrow> if p < 0 then None else Some (round (sqrt p)))"


subsection \<open>JSON values and strings\<close>

text \<open>The result of \<^verbatim>\<open>JSON.parse\<close>. An object is its list of properties; a property that is
  missing reads as \<^verbatim>\<open>undefined\<close>, which is \<^term>\<open>None\<close> below.\<close>

datatype json =
    JNull
  | JBool bool
  | JNum real
  | JStr string
  | JArr "json list"
  | JObj "(string \<times> json) list"

text \<open>\<^verbatim>\<open>v?.key\<close>: a property read that yields \<^verbatim>\<open>undefined\<close> on anything but an object holding
  the key.\<close>

fun get_prop :: "json \<Rightarrow> string \<Rightarrow> json option" where
  "get_prop (JObj kvs) k = map_of kvs k"
| "get_prop _ k = None"

text \<open>\<^verbatim>\<open>a ?? b\<close>: \<open>b\<close> when \<open>a\<close> is \<^verbatim>\<open>null\<close> or \<^verbatim>\<open>undefined\<close>.\<close>

fun nullish :: "json option \<Rightarrow> json option \<Rightarrow> json option" where
  "nullish None b = b"
| "nullish (Some JNull) b = b"
| "nullish (Some v) b = Some v"

text \<open>Truthiness of a value, as \<^verbatim>\<open>!v\<close> and \<^verbatim>\<open>v || w\<close> test it.\<close>

fun truthy :: "json \<Rightarrow> bool" where
  "truthy JNull = False"
| "truthy (JBool b) = b"
| "truthy (JNum n) = (n \<noteq> 0)"
| "truthy (JStr s) = (s \<noteq> [])"
| "truthy (JArr _) = True"
| "truthy (JObj _) = True"

text \<open>\<^verbatim>\<open>payload?.key\<close> on a payload that may be \<^verbatim>\<open>undefined\<close>.\<close>

fun opt_prop :: "json option \<Rightarrow> string \<Rightarrow> json option" where
  "opt_prop None k = None"
| "opt_prop (Some v) k = get_prop v k"

text \<open>A value on which a plain property read \<^verbatim>\<open>payload.key\<close> throws.\<close>

fun isNullish :: "json option \<Rightarrow> bool" where
  "isNullish None = True"
| "isNullish (Some JNull) = True"
| "isNullish (Some _) = False"

text \<open>Truthiness of a value that may be \<^verbatim>\<open>undefined\<close>.\<close>

fun truthy_opt :: "json option \<Rightarrow> bool" where
  "truthy_opt None = False"
| "truthy_opt (Some v) = truthy v"

text \<open>\<^verbatim>\<open>String.prototype.trim\<close> on strings of code units below 256: the white space there is
  tab, line feed, vertical tab, form feed, carriage return, space and no-break space.\<close>

definition isWhiteSpace :: "char \<Rightarrow> bool" where
  "isWhiteSpace c \<longleftrightarrow> of_char c \<in> {9, 10, 11, 12, 13, 32, 160 :: nat}"

definition trim :: "string \<Rightarrow> string" where
  "trim s = rev (dropWhile isWhiteSpace (rev (dropWhile isWhiteSpace s)))"

text \<open>\<^verbatim>\<open>role.split('@')[0]\<close> and \<^verbatim>\<open>role.startsWith('_')\<close>.\<close>

definition family :: "string \<Rightarrow> string" where
  "family role = takeWhile (\<lambda>c. c \<noteq> CHR ''@'') role"

fun startsWith_underscore :: "string \<Rightarrow> bool" where
  "startsWith_underscore [] = False"
| "startsWith_underscore (c # _) = (c = CHR ''_'')"

subsection \<open>types.ts: roles\<close>

definition PLAYER :: string where "PLAYER = ''player@v1''"
definition CONTROLLER :: string where "CONTROLLER = ''controller@v1''"
definition METADATA :: string where "METADATA = ''metadata@v1''"
definition ARTWORK :: string where "ARTWORK = ''artwork@v1''"
definition VISUALIZER :: string where "VISUALIZER = ''visualizer@v1''"
definition SOURCE :: string where "SOURCE = ''source@v1''"

subsection \<open>server/session.ts: role resolution\<close>

definition serverSupported :: "string set" where
  "serverSupported = {PLAYER, CONTROLLER, METADATA, ARTWORK, VISUALIZER, SOURCE}"

text \<open>One pass of the loop body of \<^verbatim>\<open>resolveActiveRoles\<close> over the three accumulators
  \<open>activeRoles\<close>, \<open>unsupportedRoles\<close> and \<open>seenFamilies\<close>.\<close>

fun resolve_step ::
  "string list \<times> string list \<times> string set \<Rightarrow> json \<Rightarrow> string list \<times> string list \<times> string set" where
  "resolve_step (activeRoles, unsupportedRoles, seenFamilies) (JStr role) =
     (if role \<in> serverSupported then
        (if family role \<notin> seenFamilies
         then (activeRoles @ [role], unsupportedRoles, insert (family role) seenFamilies)
         else (activeRoles, unsupportedRoles, seenFamilies))
      else if \<not> startsWith_underscore role
        then (activeRoles, unsupportedRoles @ [role], seenFamilies)
      else (activeRoles, unsupportedRoles, seenFamilies))"
| "resolve_step acc _ = acc"

definition resolveActiveRoles :: "json list \<Rightarrow> string list \<times> string list" where
  "resolveActiveRoles supportedRoles =
     (case foldl resolve_step ([], [], {}) supportedRoles of
        (activeRoles, unsupportedRoles, seenFamilies) \<Rightarrow> (activeRoles, unsupportedRoles))"

text \<open>The resolver as the specification words it, for comparison: the family check comes
  first and applies to every entry.\<close>

fun resolve_step_spec ::
  "string list \<times> string list \<times> string set \<Rightarrow> json \<Rightarrow> string list \<times> string list \<times> string set" where
  "resolve_step_spec (activeRoles, unsupportedRoles, seenFamilies) (JStr role) =
     (if family role \<in> seenFamilies then (activeRoles, unsupportedRoles, seenFamilies)
      else if role \<in> serverSupported
        then (activeRoles @ [role], unsupportedRoles, insert (family role) seenFamilies)
      else if \<not> startsWith_underscore role
        then (activeRoles, unsupportedRoles @ [role], seenFamilies)
      else (activeRoles, unsupportedRoles, seenFamilies))"
| "resolve_step_spec acc _ = acc"

definition resolveActiveRoles_spec :: "json list \<Rightarrow> string list \<times> string list" where
  "resolveActiveRoles_spec supportedRoles =
     (case foldl resolve_step_spec ([], [], {}) supportedRoles of
        (activeRoles, unsupportedRoles, seenFamilies) \<Rightarrow> (activeRoles, unsupportedRoles))"

text \<open>The string entries of a JSON array, in order.\<close>

fun strings :: "json list \<Rightarrow> string list" where
  "strings [] = []"
| "strings (JStr s # rest) = s # strings rest"
| "strings (_ # rest) = strings rest"


subsection \<open>client.ts\<close>

datatype ReadyState = CONNECTING | OPEN | CLOSING | CLOSED

record PCMFormat =
  pcm_sampleRate :: real
  pcm_channels :: real
  pcm_bitDepth :: real

text \<open>\<^verbatim>\<open>new PCMFormat(sampleRate, channels, bitDepth)\<close>: the constructor throws on values out
  of range.\<close>

definition PCMFormat_constructor :: "real \<Rightarrow> real \<Rightarrow> real \<Rightarrow> error + PCMFormat" where
  "PCMFormat_constructor sampleRate channels bitDepth =
     (if sampleRate \<le> 0 then Inl (Error ''sampleRate must be positive'')
      else if channels < 1 \<or> channels > 2 then Inl (Error ''channels must be 1 or 2'')
      else if bitDepth \<notin> {16, 24, 32} then Inl (Error ''bitDepth must be 16, 24, or 32'')
      else Inr \<lparr> pcm_sampleRate = sampleRate, pcm_channels = channels, pcm_bitDepth = bitDepth \<rparr>)"

text \<open>The codec header is kept as the base64 text it arrives as; \<^verbatim>\<open>Buffer.from(_, 'base64')\<close>
  is not modelled.\<close>

record AudioFormat =
  af_codec :: string
  af_pcm :: PCMFormat
  af_codecHeader :: "string option"

record StreamStartPlayer =
  ssp_codec :: string
  ssp_sample_rate :: real
  ssp_channels :: real
  ssp_bit_depth :: real
  ssp_codec_header :: "string option"

text \<open>A \<^verbatim>\<open>stream/start\<close> message: the client reads \<^verbatim>\<open>payload.player\<close> only.\<close>

record StreamStartMessage =
  ssm_player :: "StreamStartPlayer option"

text \<open>What the client hands to \<^verbatim>\<open>ws.send\<close>, and what it notifies its listeners of.\<close>

datatype client_frame =
    ClientTime real          \<comment> \<open>\<^verbatim>\<open>client/time\<close> with \<open>client_transmitted\<close>\<close>
  | Binary "byte list"

datatype client_event =
    StreamStartEvent StreamStartMessage
  | AudioChunkEvent real "byte list" AudioFormat

text \<open>The fields of \<^verbatim>\<open>SendspinClient\<close> that the methods below read or write. \<open>cl_ws\<close> is the
  socket's \<open>readyState\<close>, \<^term>\<open>None\<close> when \<^verbatim>\<open>this.ws\<close> is undefined. \<open>cl_sent\<close> and
  \<open>cl_notified\<close> record, in order, the frames sent and the listener notifications made.\<close>

record SendspinClient =
  cl_ws :: "ReadyState option"
  connected :: bool
  timeFilter :: SendspinTimeFilter
  streamActive :: bool
  currentAudioFormat :: "AudioFormat option"
  currentPlayer :: "StreamStartPlayer option"
  staticDelayUs :: real
  cl_sent :: "client_frame list"
  cl_notified :: "client_event list"

text \<open>The field initialisers of the class, with the default static delay.\<close>

definition SendspinClient_new :: SendspinClient where
  "SendspinClient_new =
     \<lparr> cl_ws = None, connected = False, timeFilter = SendspinTimeFilter_new,
       streamActive = False, currentAudioFormat = None, currentPlayer = None,
       staticDelayUs = 0, cl_sent = [], cl_notified = [] \<rparr>"

definition isConnected :: "SendspinClient \<Rightarrow> bool" where
  "isConnected c \<longleftrightarrow> connected c \<and> cl_ws c = Some OPEN"

definition client_computeServerTime :: "SendspinClient \<Rightarrow> real \<Rightarrow> real option" where
  "client_computeServerTime c clientTimestampUs =
     do {
       adjusted \<leftarrow> fsub clientTimestampUs (staticDelayUs c);
       computeServerTime (timeFilter c) adjusted
     }"

definition computeSourceTimestamp :: "SendspinClient \<Rightarrow> real \<Rightarrow> real option" where
  "computeSourceTimestamp c captureTimestampUs = computeServerTime (timeFilter c) captureTimestampUs"

definition client_sendBinary :: "byte list \<Rightarrow> SendspinClient \<Rightarrow> error + SendspinClient" where
  "client_sendBinary payload c =
     (if cl_ws c \<noteq> Some OPEN then Inl (Error ''WebSocket is not connected'')
      else Inr (c \<lparr> cl_sent := cl_sent c @ [Binary payload] \<rparr>))"

text \<open>\<^verbatim>\<open>sendTimeMessage\<close>, at client time \<open>nowUs\<close>: nothing when not connected.\<close>

definition sendTimeMessage :: "real \<Rightarrow> SendspinClient \<Rightarrow> SendspinClient" where
  "sendTimeMessage nowUs c =
     (if \<not> isConnected c then c else c \<lparr> cl_sent := cl_sent c @ [ClientTime nowUs] \<rparr>)"

text \<open>\<^verbatim>\<open>sendSourceAudioChunk(audioData, {captureTimestampUs, serverTimestampUs})\<close>; an option
  that is \<^verbatim>\<open>null\<close> or left out is \<^term>\<open>None\<close>. A computed timestamp that is not finite makes
  \<^verbatim>\<open>BigInt(ts)\<close> in the header packing throw its \<^verbatim>\<open>RangeError\<close>.\<close>

definition sendSourceAudioChunk ::
  "byte list \<Rightarrow> real option \<Rightarrow> real option \<Rightarrow> SendspinClient \<Rightarrow> error + SendspinClient" where
  "sendSourceAudioChunk audioData captureTimestampUs serverTimestampUs c =
     (if \<not> isConnected c then Inl (Error ''Client is not connected'')
      else
        case (case serverTimestampUs of
                Some ts \<Rightarrow> Inr ts
              | None \<Rightarrow>
                  (case captureTimestampUs of
                     None \<Rightarrow> Inl (Error ''captureTimestampUs or serverTimestampUs must be provided'')
                   | Some cap \<Rightarrow>
                       if \<not> isSynchronized (timeFilter c)
                       then Inl (Error ''time sync not ready; provide serverTimestampUs explicitly'')
                       else (case computeSourceTimestamp c cap of
                               None \<Rightarrow> Inl RangeError
                             | Some ts \<Rightarrow> Inr ts))) of
          Inl e \<Rightarrow> Inl e
        | Inr ts \<Rightarrow>
            (case packBinaryHeaderRaw SOURCE_AUDIO_CHUNK ts of
               Inl e \<Rightarrow> Inl e
             | Inr header \<Rightarrow> client_sendBinary (header @ audioData) c))"

definition configureAudioOutput :: "AudioFormat \<Rightarrow> SendspinClient \<Rightarrow> SendspinClient" where
  "configureAudioOutput format c = c \<lparr> currentAudioFormat := Some format \<rparr>"

definition notifyStreamStart :: "StreamStartMessage \<Rightarrow> SendspinClient \<Rightarrow> SendspinClient" where
  "notifyStreamStart message c = c \<lparr> cl_notified := cl_notified c @ [StreamStartEvent message] \<rparr>"

text \<open>\<^verbatim>\<open>handleStreamStart\<close>, at client time \<open>nowUs\<close>. The result pairs the exception that left
  the method, if any, with the client as the method left it.\<close>

definition handleStreamStart ::
  "real \<Rightarrow> StreamStartMessage \<Rightarrow> SendspinClient \<Rightarrow> error option \<times> SendspinClient" where
  "handleStreamStart nowUs message c =
     (case ssm_player message of
        None \<Rightarrow> (None, c)
      | Some player \<Rightarrow>
          let isFormatUpdate = (streamActive c \<and> currentPlayer c \<noteq> None);
              c1 = c \<lparr> streamActive := True \<rparr>
          in case PCMFormat_constructor (ssp_sample_rate player) (ssp_channels player)
                    (ssp_bit_depth player) of
               Inl e \<Rightarrow> (Some e, c1)
             | Inr pcmFormat \<Rightarrow>
                 let codecHeader =
                       (case ssp_codec_header player of
                          None \<Rightarrow> None
                        | Some h \<Rightarrow> if h = [] then None else Some h);
                     c2 = configureAudioOutput
                            \<lparr> af_codec = ssp_codec player, af_pcm = pcmFormat,
                              af_codecHeader = codecHeader \<rparr> c1;
                     c3 = c2 \<lparr> currentPlayer := Some player \<rparr>
                 in if \<not> isFormatUpdate
                    then (None, sendTimeMessage nowUs (notifyStreamStart message c3))
                    else (None, c3))"

definition handleAudioChunk :: "real \<Rightarrow> byte list \<Rightarrow> SendspinClient \<Rightarrow> SendspinClient" where
  "handleAudioChunk ts payload c =
     (case currentAudioFormat c of
        None \<Rightarrow> c
      | Some format \<Rightarrow> c \<lparr> cl_notified := cl_notified c @ [AudioChunkEvent ts payload format] \<rparr>)"

definition handleBinaryMessage :: "byte list \<Rightarrow> SendspinClient \<Rightarrow> SendspinClient" where
  "handleBinaryMessage payload c =
     (case unpackBinaryHeader payload of
        Inl e \<Rightarrow> c
      | Inr header \<Rightarrow>
          if \<not> streamActive c then c
          else if messageType header = AUDIO_CHUNK
            then handleAudioChunk (timestampUs header) (drop BINARY_HEADER_SIZE payload) c
          else c)"


subsection \<open>server/session.ts: data\<close>

datatype AudioCodec = Opus | Flac | Pcm

datatype PlaybackStateType = PLAYING | PAUSED | STOPPED

datatype ConnectionReason = DISCOVERY | PLAYBACK

record PlayerFormat =
  pf_codec :: AudioCodec
  pf_sampleRate :: real
  pf_channels :: real
  pf_bitDepth :: real
  pf_codecHeader :: "string option"

text \<open>\<^verbatim>\<open>Partial<PlayerFormat>\<close>: a field that is left out is \<^term>\<open>None\<close>.\<close>

record PartialPlayerFormat =
  ppf_codec :: "AudioCodec option"
  ppf_sampleRate :: "real option"
  ppf_channels :: "real option"
  ppf_bitDepth :: "real option"
  ppf_codecHeader :: "string option"

text \<open>An artwork channel. \<^verbatim>\<open>applyArtworkFormatRequest\<close> stores \<^verbatim>\<open>request.source\<close> and
  \<^verbatim>\<open>request.format\<close> unchecked, so both are JSON values.\<close>

record ArtworkChannel =
  ac_source :: json
  ac_format :: json
  ac_width :: real
  ac_height :: real

record SendspinConnectionMeta =
  zoneId :: "real option"
  playerId :: "string option"
  remote :: "string option"

record SendspinPcmFrame =
  frame_data :: "byte list"
  frame_timestampUs :: "real option"

text \<open>The hooks object is the set of the hooks it defines. What a hook does when it is
  called is not part of the session: it returns or it throws, as the environment of the call
  says. A hook does not call back into the session.\<close>

datatype hook =
    OnPlayerState | OnGroupCommand | OnSourceState | OnSourceCommand | OnSourceAudio
  | OnIdentified | OnDisconnected | OnFormatChanged | OnGoodbye | OnUnsupportedRoles

text \<open>The default group of a session: \<^verbatim>\<open>playerId\<close>, the string \<^verbatim>\<open>zone-<zoneId>\<close>, or a
  fallback name.\<close>

datatype group_name = GroupName string | GroupZone real

text \<open>The JSON messages the session sends, by type and payload.\<close>

datatype server_message =
    ServerHello "string list" ConnectionReason
  | ServerTime "json option" real real
  | StreamStartPlayerMsg PlayerFormat
  | StreamStartArtworkMsg "ArtworkChannel list"
  | StreamStartVisualizerMsg json
  | StreamClearMsg "string list option"
  | StreamEndMsg "string list option"
  | ServerCommandMsg json
  | GroupUpdateMsg PlaybackStateType "group_name option" "group_name option"
  | ServerStateMetadataMsg real json
  | ServerStateControllerMsg json

text \<open>What a session does to the outside, in order: calls of \<^verbatim>\<open>ws.close\<close> and \<^verbatim>\<open>ws.send\<close>,
  calls of hooks, timers set, and an exception that leaves the running method: one the
  method raises itself, or one thrown by the hook it has just called.\<close>

datatype effect =
    WsClose "(nat \<times> string) option"
  | WsSend server_message
  | WsSendBinary "byte list"
  | HookCall hook
  | SetTimeout nat
  | Thrown error
  | HookThrew hook

text \<open>What a method meets outside the session when it runs: the socket's
  \<^verbatim>\<open>readyState\<close> and \<^verbatim>\<open>bufferedAmount\<close>, \<^verbatim>\<open>serverNowUs()\<close> and \<^verbatim>\<open>Date.now()\<close>, and the hooks
  that throw when the method calls them (no method calls a hook twice).\<close>

record env =
  readyState :: ReadyState
  bufferedAmount :: nat
  serverNowUs :: real
  dateNow :: real
  hookThrows :: "hook set"

text \<open>The fields of \<^verbatim>\<open>SendspinSession\<close>. \<open>initialStateTimer\<close> tells whether a timer handle is
  stored. \<open>pendingRetries\<close> holds the frames of the 5 ms timers that \<^verbatim>\<open>sendPcmAudioFrame\<close> has
  set and that have not run yet; \<open>effects\<close> is the trace of what the session has done.\<close>

record SendspinSession =
  ready :: bool
  clientId :: "string option"
  clientName :: "string option"
  roles :: "string list"
  playerSupport :: json
  sourceSupport :: json
  artworkChannels :: "ArtworkChannel list"
  expectVolume :: bool
  expectMute :: bool
  warnedMissingVolume :: bool
  warnedMissingMute :: bool
  initialStateReceived :: bool
  initialStateTimer :: bool
  initialStateRequired :: bool
  identified :: bool
  playbackState :: PlaybackStateType
  sourceState :: json
  sourceSignal :: json
  hooks :: "hook set"
  hooksAttached :: bool
  activeStream :: bool
  streamFormat :: PlayerFormat
  lastGoodbyeReason :: json
  backpressureDrops :: nat
  lastBackpressureBytes :: nat
  lastBackpressureTs :: real
  backpressureEvents :: "real list"
  connectionReason :: ConnectionReason
  connectionMeta :: SendspinConnectionMeta
  pendingRetries :: "SendspinPcmFrame list"
  effects :: "effect list"

definition maxBufferedSend :: nat where
  "maxBufferedSend = 1024 * 512"

text \<open>\<^verbatim>\<open>new SendspinSession(ws, req, connectionReason, connectionMeta, hooks)\<close>\<close>

definition SendspinSession_new ::
  "ConnectionReason \<Rightarrow> SendspinConnectionMeta \<Rightarrow> hook set \<Rightarrow> SendspinSession" where
  "SendspinSession_new reason meta hs =
     \<lparr> ready = False, clientId = None, clientName = None, roles = [],
       playerSupport = JNull, sourceSupport = JNull, artworkChannels = [],
       expectVolume = False, expectMute = False,
       warnedMissingVolume = False, warnedMissingMute = False,
       initialStateReceived = False, initialStateTimer = False, initialStateRequired = False,
       identified = False, playbackState = STOPPED, sourceState = JNull, sourceSignal = JNull,
       hooks = hs, hooksAttached = False, activeStream = False,
       streamFormat = \<lparr> pf_codec = Pcm, pf_sampleRate = 48000, pf_channels = 2,
                        pf_bitDepth = 16, pf_codecHeader = None \<rparr>,
       lastGoodbyeReason = JNull,
       backpressureDrops = 0, lastBackpressureBytes = 0, lastBackpressureTs = 0,
       backpressureEvents = [],
       connectionReason = reason, connectionMeta = meta,
       pendingRetries = [], effects = [] \<rparr>"

subsection \<open>server/session.ts: sending\<close>

definition emit :: "effect \<Rightarrow> SendspinSession \<Rightarrow> SendspinSession" where
  "emit e s = s \<lparr> effects := effects s @ [e] \<rparr>"

text \<open>\<^verbatim>\<open>if (this.hooks.h) { this.hooks.h(...) }\<close> followed by the rest of the method: a hook
  that is not defined is skipped; a hook that throws ends the method, the rest is not run.\<close>

definition afterHook ::
  "env \<Rightarrow> hook \<Rightarrow> (SendspinSession \<Rightarrow> SendspinSession) \<Rightarrow> SendspinSession \<Rightarrow> SendspinSession" where
  "afterHook ev h rest s =
     (if h \<notin> hooks s then rest s
      else if h \<in> hookThrows ev then emit (HookThrew h) (emit (HookCall h) s)
      else rest (emit (HookCall h) s))"

text \<open>A hook call that is the last statement of its method.\<close>

definition callHook :: "env \<Rightarrow> hook \<Rightarrow> SendspinSession \<Rightarrow> SendspinSession" where
  "callHook ev h s = afterHook ev h (\<lambda>t. t) s"

definition sendJson :: "env \<Rightarrow> server_message \<Rightarrow> SendspinSession \<Rightarrow> SendspinSession" where
  "sendJson ev message s = (if readyState ev \<noteq> OPEN then s else emit (WsSend message) s)"

text \<open>\<^verbatim>\<open>sendBinary(buf, options)\<close>; \<open>allowDrop\<close> is \<^verbatim>\<open>options.allowDrop === true\<close>.\<close>

definition sendBinary :: "env \<Rightarrow> byte list \<Rightarrow> bool \<Rightarrow> SendspinSession \<Rightarrow> SendspinSession" where
  "sendBinary ev buf allowDrop s =
     (if readyState ev \<noteq> OPEN then s
      else
        let buffered = bufferedAmount ev
        in if allowDrop \<and> buffered > maxBufferedSend then
             s \<lparr> backpressureDrops := backpressureDrops s + 1,
                 lastBackpressureBytes := buffered,
                 lastBackpressureTs := dateNow ev,
                 backpressureEvents := backpressureEvents s @ [dateNow ev] \<rparr>
           else emit (WsSendBinary buf) s)"

text \<open>\<^verbatim>\<open>maybeNotifyIdentified()\<close> followed by the rest of the calling method. The flag
  \<open>identified\<close> is set after the hook has returned: when the hook throws, the flag stays
  false and the caller is left.\<close>

definition notifyIdentifiedThen ::
  "env \<Rightarrow> (SendspinSession \<Rightarrow> SendspinSession) \<Rightarrow> SendspinSession \<Rightarrow> SendspinSession" where
  "notifyIdentifiedThen ev rest s =
     (if identified s then rest s
      else if \<not> ready s \<or> OnIdentified \<notin> hooks s then rest s
      else if initialStateRequired s \<and> \<not> initialStateReceived s then rest s
      else afterHook ev OnIdentified (\<lambda>t. rest (t \<lparr> identified := True \<rparr>)) s)"

definition maybeNotifyIdentified :: "env \<Rightarrow> SendspinSession \<Rightarrow> SendspinSession" where
  "maybeNotifyIdentified ev s = notifyIdentifiedThen ev (\<lambda>t. t) s"

text \<open>\<^verbatim>\<open>Object.assign(this.connectionMeta, context)\<close>: the keys the context has replace the
  session's.\<close>

definition assignMeta :: "SendspinConnectionMeta \<Rightarrow> SendspinConnectionMeta \<Rightarrow> SendspinConnectionMeta" where
  "assignMeta meta context =
     \<lparr> zoneId = (case zoneId context of None \<Rightarrow> zoneId meta | Some z \<Rightarrow> Some z),
       playerId = (case playerId context of None \<Rightarrow> playerId meta | Some p \<Rightarrow> Some p),
       remote = (case remote context of None \<Rightarrow> remote meta | Some r \<Rightarrow> Some r) \<rparr>"

definition setHooks ::
  "env \<Rightarrow> hook set \<Rightarrow> SendspinConnectionMeta option \<Rightarrow> SendspinSession \<Rightarrow> SendspinSession" where
  "setHooks ev hs context s =
     maybeNotifyIdentified ev
       (s \<lparr> hooks := hs, hooksAttached := True,
            connectionMeta := (case context of
                                 None \<Rightarrow> connectionMeta s
                               | Some c \<Rightarrow> assignMeta (connectionMeta s) c) \<rparr>)"

definition destroy :: "env \<Rightarrow> SendspinSession \<Rightarrow> SendspinSession" where
  "destroy ev s = callHook ev OnDisconnected (s \<lparr> initialStateTimer := False \<rparr>)"

definition sendServerHello :: "env \<Rightarrow> SendspinSession \<Rightarrow> SendspinSession" where
  "sendServerHello ev s =
     (if roles s = [] then s
      else sendJson ev (ServerHello (roles s) (connectionReason s)) s)"

definition mergeFormat :: "PlayerFormat \<Rightarrow> PartialPlayerFormat \<Rightarrow> PlayerFormat" where
  "mergeFormat cur format =
     \<lparr> pf_codec = (case ppf_codec format of None \<Rightarrow> pf_codec cur | Some c \<Rightarrow> c),
       pf_sampleRate = (case ppf_sampleRate format of None \<Rightarrow> pf_sampleRate cur | Some r \<Rightarrow> r),
       pf_channels = (case ppf_channels format of None \<Rightarrow> pf_channels cur | Some c \<Rightarrow> c),
       pf_bitDepth = (case ppf_bitDepth format of None \<Rightarrow> pf_bitDepth cur | Some b \<Rightarrow> b),
       pf_codecHeader = (case ppf_codecHeader format of
                           None \<Rightarrow> pf_codecHeader cur | Some h \<Rightarrow> Some h) \<rparr>"

definition sendStreamStart :: "env \<Rightarrow> PartialPlayerFormat \<Rightarrow> SendspinSession \<Rightarrow> SendspinSession" where
  "sendStreamStart ev format s =
     (if \<not> ready s then s
      else
        let merged = mergeFormat (streamFormat s) format
        in sendJson ev (StreamStartPlayerMsg merged)
             (s \<lparr> streamFormat := merged, activeStream := True \<rparr>))"

definition sendStreamFormat :: "env \<Rightarrow> SendspinSession \<Rightarrow> SendspinSession" where
  "sendStreamFormat ev s =
     (if \<not> ready s then s
      else sendJson ev (StreamStartPlayerMsg (streamFormat s)) (s \<lparr> activeStream := True \<rparr>))"

definition sendStreamClear :: "env \<Rightarrow> string list option \<Rightarrow> SendspinSession \<Rightarrow> SendspinSession" where
  "sendStreamClear ev rs s = (if \<not> ready s then s else sendJson ev (StreamClearMsg rs) s)"

definition sendStreamEnd :: "env \<Rightarrow> string list option \<Rightarrow> SendspinSession \<Rightarrow> SendspinSession" where
  "sendStreamEnd ev rs s =
     (if \<not> ready s then s else sendJson ev (StreamEndMsg rs) (s \<lparr> activeStream := False \<rparr>))"

definition ensureStreamStarted :: "env \<Rightarrow> SendspinSession \<Rightarrow> SendspinSession" where
  "ensureStreamStarted ev s =
     (if activeStream s then s
      else if readyState ev \<noteq> OPEN then s
      else sendStreamFormat ev s)"

text \<open>The frame \<^verbatim>\<open>Buffer.concat([header, data])\<close> handed to \<^verbatim>\<open>sendBinary\<close>; a header that
  cannot be packed is an exception.\<close>

definition sendFrame ::
  "env \<Rightarrow> int \<Rightarrow> real \<Rightarrow> byte list \<Rightarrow> SendspinSession \<Rightarrow> SendspinSession" where
  "sendFrame ev tag ts payload s =
     (case packBinaryHeaderRaw tag ts of
        Inl e \<Rightarrow> emit (Thrown e) s
      | Inr header \<Rightarrow> sendBinary ev (header @ payload) False s)"

text \<open>\<^verbatim>\<open>sendPcmAudioFrame\<close>: above the threshold the frame goes to a timer of 5 ms.\<close>

definition sendPcmAudioFrame :: "env \<Rightarrow> SendspinPcmFrame \<Rightarrow> SendspinSession \<Rightarrow> SendspinSession" where
  "sendPcmAudioFrame ev frame s =
     (if readyState ev \<noteq> OPEN then s
      else
        let s1 = ensureStreamStarted ev s;
            buffered = bufferedAmount ev
        in if buffered > maxBufferedSend then
             emit (SetTimeout 5) (s1 \<lparr> pendingRetries := pendingRetries s1 @ [frame] \<rparr>)
           else
             let ts = (case frame_timestampUs frame of None \<Rightarrow> serverNowUs ev | Some t \<Rightarrow> t)
             in sendFrame ev AUDIO_CHUNK ts (frame_data frame) s1)"

text \<open>The body of the 5 ms timer, run for the oldest pending frame in the environment of
  the time it fires.\<close>

definition pcmRetry :: "env \<Rightarrow> SendspinSession \<Rightarrow> SendspinSession" where
  "pcmRetry ev s =
     (case pendingRetries s of
        [] \<Rightarrow> s
      | frame # rest \<Rightarrow>
          let s1 = s \<lparr> pendingRetries := rest \<rparr>
          in if readyState ev = OPEN then
               (let ts = (case frame_timestampUs frame of None \<Rightarrow> serverNowUs ev | Some t \<Rightarrow> t)
                in sendFrame ev AUDIO_CHUNK ts (frame_data frame) s1)
             else s1)"

definition sendGroupUpdate ::
  "env \<Rightarrow> PlaybackStateType \<Rightarrow> group_name option \<Rightarrow> group_name option \<Rightarrow> SendspinSession
     \<Rightarrow> SendspinSession" where
  "sendGroupUpdate ev st groupId groupName s =
     (if \<not> ready s then s
      else sendJson ev (GroupUpdateMsg st groupId groupName) (s \<lparr> playbackState := st \<rparr>))"

text \<open>\<^verbatim>\<open>sendServerCommand(payloadOrCommand, payload)\<close>, both overloads: a first argument that is
  a string is a player command and is wrapped, with the \<open>volume\<close> and \<open>mute\<close> of the second
  argument, into \<^verbatim>\<open>{ player: { command, volume, mute } }\<close> (a property that is \<^verbatim>\<open>undefined\<close> is
  not part of the JSON text sent); any other first argument is the command payload itself. The
  read of \<^verbatim>\<open>commandPayload.player\<close> throws on \<^verbatim>\<open>null\<close>.\<close>

definition wrapPlayerCommand :: "string \<Rightarrow> json option \<Rightarrow> json" where
  "wrapPlayerCommand command payload =
     JObj [(''player'',
            JObj ([(''command'', JStr command)]
                  @ (case opt_prop payload ''volume'' of None \<Rightarrow> [] | Some v \<Rightarrow> [(''volume'', v)])
                  @ (case opt_prop payload ''mute'' of None \<Rightarrow> [] | Some m \<Rightarrow> [(''mute'', m)])))]"

definition sendServerCommand ::
  "env \<Rightarrow> json \<Rightarrow> json option \<Rightarrow> SendspinSession \<Rightarrow> SendspinSession" where
  "sendServerCommand ev payloadOrCommand payload s =
     (if \<not> ready s then s
      else
        let commandPayload = (case payloadOrCommand of
                                JStr command \<Rightarrow> wrapPlayerCommand command payload
                              | _ \<Rightarrow> payloadOrCommand)
        in if commandPayload = JNull then emit (Thrown TypeError) s
           else
             let wantsPlayer = truthy_opt (get_prop commandPayload ''player'');
                 wantsSource = truthy_opt (get_prop commandPayload ''source'');
                 canSendPlayer = (wantsPlayer \<and> PLAYER \<in> set (roles s));
                 canSendSource = (wantsSource \<and> SOURCE \<in> set (roles s))
             in if \<not> canSendPlayer \<and> \<not> canSendSource then s
                else sendJson ev (ServerCommandMsg commandPayload) s)"

definition sendMetadata :: "env \<Rightarrow> json \<Rightarrow> SendspinSession \<Rightarrow> SendspinSession" where
  "sendMetadata ev metadata s =
     (if \<not> ready s then s
      else if METADATA \<notin> set (roles s) then s
      else sendJson ev (ServerStateMetadataMsg (serverNowUs ev) metadata) s)"

definition sendControllerState :: "env \<Rightarrow> json \<Rightarrow> SendspinSession \<Rightarrow> SendspinSession" where
  "sendControllerState ev controller s =
     (if \<not> ready s then s
      else if CONTROLLER \<notin> set (roles s) then s
      else sendJson ev (ServerStateControllerMsg controller) s)"

definition sendArtworkStreamStart :: "env \<Rightarrow> ArtworkChannel list \<Rightarrow> SendspinSession \<Rightarrow> SendspinSession" where
  "sendArtworkStreamStart ev chans s =
     (if \<not> ready s then s
      else if ARTWORK \<notin> set (roles s) then s
      else sendJson ev (StreamStartArtworkMsg chans) (s \<lparr> artworkChannels := chans \<rparr>))"

text \<open>\<^verbatim>\<open>sendArtwork(channel, imageData)\<close>; \<^verbatim>\<open>imageData\<close> is a buffer or \<^verbatim>\<open>null\<close>.\<close>

definition sendArtwork :: "env \<Rightarrow> int \<Rightarrow> byte list option \<Rightarrow> SendspinSession \<Rightarrow> SendspinSession" where
  "sendArtwork ev channel imageData s =
     (if \<not> ready s then s
      else sendFrame ev (ARTWORK_CHANNEL_0 + channel) (serverNowUs ev)
             (case imageData of None \<Rightarrow> [] | Some d \<Rightarrow> d) s)"

definition sendVisualizerStreamStart :: "env \<Rightarrow> json \<Rightarrow> SendspinSession \<Rightarrow> SendspinSession" where
  "sendVisualizerStreamStart ev config s =
     (if \<not> ready s then s
      else if VISUALIZER \<notin> set (roles s) then s
      else sendJson ev (StreamStartVisualizerMsg config) s)"

definition sendVisualizerFrame ::
  "env \<Rightarrow> byte list \<Rightarrow> real option \<Rightarrow> SendspinSession \<Rightarrow> SendspinSession" where
  "sendVisualizerFrame ev d tsOpt s =
     (if \<not> ready s then s
      else if VISUALIZER \<notin> set (roles s) then s
      else
        let ts = (case tsOpt of None \<Rightarrow> serverNowUs ev | Some t \<Rightarrow> t)
        in sendFrame ev VISUALIZATION_DATA ts d s)"


subsection \<open>server/session.ts: the hello handshake\<close>

text \<open>\<^verbatim>\<open>typeof payload?.version === 'number' ? payload.version : null\<close>\<close>

definition hello_version :: "json option \<Rightarrow> real option" where
  "hello_version payload = (case opt_prop payload ''version'' of Some (JNum v) \<Rightarrow> Some v | _ \<Rightarrow> None)"

text \<open>\<^verbatim>\<open>typeof payload?.client_id === 'string' ? payload.client_id.trim() : ''\<close>\<close>

definition hello_client_id :: "json option \<Rightarrow> string" where
  "hello_client_id payload = (case opt_prop payload ''client_id'' of Some (JStr v) \<Rightarrow> trim v | _ \<Rightarrow> [])"

definition hello_name :: "json option \<Rightarrow> string option" where
  "hello_name payload = (case opt_prop payload ''name'' of Some (JStr v) \<Rightarrow> Some (trim v) | _ \<Rightarrow> None)"

text \<open>\<^verbatim>\<open>Array.isArray(payload.supported_roles) ? payload.supported_roles : []\<close>\<close>

definition hello_supported_roles :: "json option \<Rightarrow> json list" where
  "hello_supported_roles payload =
     (case opt_prop payload ''supported_roles'' of Some (JArr xs) \<Rightarrow> xs | _ \<Rightarrow> [])"

text \<open>\<^verbatim>\<open>payload['player@v1_support'] ?? payload.player_support ?? null\<close>, for the two keys of a
  capability block.\<close>

definition hello_support :: "json option \<Rightarrow> string \<Rightarrow> string \<Rightarrow> json" where
  "hello_support payload key legacy =
     (case nullish (opt_prop payload key) (nullish (opt_prop payload legacy) None) of
        None \<Rightarrow> JNull
      | Some v \<Rightarrow> v)"

fun isSubstring :: "string \<Rightarrow> string \<Rightarrow> bool" where
  "isSubstring n [] = (n = [])"
| "isSubstring n (c # cs) = (take (length n) (c # cs) = n \<or> isSubstring n cs)"

text \<open>\<^verbatim>\<open>(v ?? []).includes(str)\<close>: an array or a string has the method; on any other value the
  call throws a \<^verbatim>\<open>TypeError\<close>, which is \<^term>\<open>None\<close>.\<close>

definition includes_or_empty :: "json option \<Rightarrow> string \<Rightarrow> bool option" where
  "includes_or_empty v str =
     (case nullish v None of
        None \<Rightarrow> Some False
      | Some (JArr xs) \<Rightarrow> Some (JStr str \<in> set xs)
      | Some (JStr t) \<Rightarrow> Some (isSubstring str t)
      | Some _ \<Rightarrow> None)"

text \<open>The mapping of one entry of \<^verbatim>\<open>artworkSupport.channels\<close> in \<^verbatim>\<open>handleHello\<close>.\<close>

definition normChannel :: "json \<Rightarrow> ArtworkChannel" where
  "normChannel c =
     \<lparr> ac_source = (if get_prop c ''source'' = Some (JStr ''artist'') then JStr ''artist''
                    else if get_prop c ''source'' = Some (JStr ''none'') then JStr ''none''
                    else JStr ''album''),
       ac_format = (if get_prop c ''format'' = Some (JStr ''png'') then JStr ''png''
                    else if get_prop c ''format'' = Some (JStr ''bmp'') then JStr ''bmp''
                    else JStr ''jpeg''),
       ac_width = (case get_prop c ''media_width'' of Some (JNum w) \<Rightarrow> w | _ \<Rightarrow> 800),
       ac_height = (case get_prop c ''media_height'' of Some (JNum h) \<Rightarrow> h | _ \<Rightarrow> 800) \<rparr>"

definition isSupportedFmt :: "json \<Rightarrow> bool" where
  "isSupportedFmt fmt \<longleftrightarrow>
     get_prop fmt ''codec'' = Some (JStr ''opus'') \<or> get_prop fmt ''codec'' = Some (JStr ''flac'')
     \<or> get_prop fmt ''codec'' = Some (JStr ''pcm'')"

definition positiveNumber :: "json option \<Rightarrow> bool" where
  "positiveNumber v = (case v of Some (JNum n) \<Rightarrow> n > 0 | _ \<Rightarrow> False)"

definition hasValidNumbers :: "json \<Rightarrow> bool" where
  "hasValidNumbers fmt \<longleftrightarrow>
     positiveNumber (get_prop fmt ''sample_rate'') \<and> positiveNumber (get_prop fmt ''channels'')
     \<and> positiveNumber (get_prop fmt ''bit_depth'')"

definition numberOf :: "json option \<Rightarrow> real" where
  "numberOf v = (case v of Some (JNum n) \<Rightarrow> n | _ \<Rightarrow> 0)"

definition applyPreferredStreamFormat :: "SendspinSession \<Rightarrow> SendspinSession" where
  "applyPreferredStreamFormat s =
     (let supportedFormats =
            (case get_prop (playerSupport s) ''supported_formats'' of Some (JArr xs) \<Rightarrow> xs | _ \<Rightarrow> [])
      in case List.find (\<lambda>fmt. isSupportedFmt fmt \<and> hasValidNumbers fmt) supportedFormats of
           None \<Rightarrow> s
         | Some preferred \<Rightarrow>
             s \<lparr> streamFormat :=
                   \<lparr> pf_codec = (if get_prop preferred ''codec'' = Some (JStr ''opus'') then Opus
                                 else if get_prop preferred ''codec'' = Some (JStr ''flac'') then Flac
                                 else Pcm),
                     pf_sampleRate = numberOf (get_prop preferred ''sample_rate''),
                     pf_channels = numberOf (get_prop preferred ''channels''),
                     pf_bitDepth = numberOf (get_prop preferred ''bit_depth''),
                     pf_codecHeader = None \<rparr> \<rparr>)"

definition startInitialStateTimeout :: "SendspinSession \<Rightarrow> SendspinSession" where
  "startInitialStateTimeout s =
     (if PLAYER \<notin> set (roles s) then s
      else if initialStateReceived s \<or> initialStateTimer s then s
      else emit (SetTimeout 5000) (s \<lparr> initialStateTimer := True \<rparr>))"

text \<open>The body of the timer of 5 s. The model lets it run whenever a handle is stored.\<close>

definition initialStateTimeout :: "SendspinSession \<Rightarrow> SendspinSession" where
  "initialStateTimeout s =
     (if \<not> initialStateTimer s then s
      else if initialStateReceived s then s
      else emit (WsClose (Some (1008, ''initial state timeout''))) s)"

definition getDefaultGroupInfo :: "SendspinSession \<Rightarrow> group_name" where
  "getDefaultGroupInfo s =
     (case playerId (connectionMeta s) of
        Some p \<Rightarrow>
          if p \<noteq> [] then GroupName p
          else (case zoneId (connectionMeta s) of
                  Some z \<Rightarrow> GroupZone z
                | None \<Rightarrow> GroupName (case clientId s of Some c \<Rightarrow> c | None \<Rightarrow> ''sendspin''))
      | None \<Rightarrow>
          (case zoneId (connectionMeta s) of
             Some z \<Rightarrow> GroupZone z
           | None \<Rightarrow> GroupName (case clientId s of Some c \<Rightarrow> c | None \<Rightarrow> ''sendspin'')))"

text \<open>\<^verbatim>\<open>handleHello\<close> from the line \<^verbatim>\<open>const artworkChannels = ...\<close> to its end, given the
  two flags \<open>expectVolume\<close> and \<open>expectMute\<close> just computed.\<close>

definition handleHello_finish ::
  "env \<Rightarrow> string list \<Rightarrow> json \<Rightarrow> bool \<Rightarrow> bool \<Rightarrow> SendspinSession \<Rightarrow> SendspinSession" where
  "handleHello_finish ev unsupportedRoles artworkSupport vol mut s1 =
     (let s2 = s1 \<lparr> expectVolume := vol, expectMute := mut \<rparr>;
          chans = (case get_prop artworkSupport ''channels'' of
                     Some (JArr cs) \<Rightarrow> cs | _ \<Rightarrow> []);
          s3 = (if chans \<noteq> [] then s2 \<lparr> artworkChannels := map normChannel chans \<rparr>
                else s2);
          s4 = applyPreferredStreamFormat
                 (s3 \<lparr> initialStateRequired := (PLAYER \<in> set (roles s3)) \<rparr>);
          s5 = s4 \<lparr> ready := True \<rparr>;
          s6 = startInitialStateTimeout (sendServerHello ev s5);
          g = getDefaultGroupInfo s6;
          s7 = sendGroupUpdate ev STOPPED (Some g) (Some g) s6
      in if unsupportedRoles \<noteq> []
         then afterHook ev OnUnsupportedRoles (maybeNotifyIdentified ev) s7
         else maybeNotifyIdentified ev s7)"

text \<open>\<^verbatim>\<open>handleHello\<close> from the line \<^verbatim>\<open>this.playerSupport = playerSupport || {}\<close> on: the hello has
  passed every check. The two calls of \<^verbatim>\<open>includes\<close> throw on a \<open>supported_commands\<close> that is
  neither an array nor a string.\<close>

definition handleHello_accept ::
  "env \<Rightarrow> string list \<Rightarrow> json \<Rightarrow> json \<Rightarrow> json \<Rightarrow> SendspinSession \<Rightarrow> SendspinSession" where
  "handleHello_accept ev unsupportedRoles playerSupport0 artworkSupport sourceSupport0 s =
     (let s1 = s \<lparr> playerSupport := (if truthy playerSupport0 then playerSupport0 else JObj []),
                   sourceSupport := sourceSupport0 \<rparr>;
          cmds = get_prop (playerSupport s1) ''supported_commands''
      in case includes_or_empty cmds ''volume'' of
           None \<Rightarrow> emit (Thrown TypeError) s1
         | Some vol \<Rightarrow>
             (case includes_or_empty cmds ''mute'' of
                None \<Rightarrow> emit (Thrown TypeError) s1
              | Some mut \<Rightarrow> handleHello_finish ev unsupportedRoles artworkSupport vol mut s1))"

definition closeWith :: "string \<Rightarrow> SendspinSession \<Rightarrow> SendspinSession" where
  "closeWith reason s = emit (WsClose (Some (1008, reason))) s"

text \<open>\<^verbatim>\<open>handleHello(payload)\<close>: the checks, in the order of the source.\<close>

definition handleHello :: "env \<Rightarrow> json option \<Rightarrow> SendspinSession \<Rightarrow> SendspinSession" where
  "handleHello ev payload s =
     (if hello_version payload \<noteq> Some 1 then closeWith ''invalid protocol version'' s
      else
        let rawClientId = hello_client_id payload
        in if rawClientId = [] then closeWith ''missing client_id'' s
           else
             let s1 = s \<lparr> clientId := Some rawClientId, clientName := hello_name payload \<rparr>;
                 supportedRoles = hello_supported_roles payload
             in if supportedRoles = [] then closeWith ''missing supported_roles'' s1
                else
                  let s2 = s1 \<lparr> roles := fst (resolveActiveRoles supportedRoles) \<rparr>;
                      unsupportedRoles = snd (resolveActiveRoles supportedRoles);
                      playerSupport0 = hello_support payload ''player@v1_support'' ''player_support'';
                      artworkSupport = hello_support payload ''artwork@v1_support'' ''artwork_support'';
                      visualizerSupport =
                        hello_support payload ''visualizer@v1_support'' ''visualizer_support'';
                      sourceSupport0 = hello_support payload ''source@v1_support'' ''source_support''
                  in if PLAYER \<in> set (roles s2) \<and> \<not> truthy playerSupport0
                       then closeWith ''missing player support'' s2
                     else if ARTWORK \<in> set (roles s2) \<and> \<not> truthy artworkSupport
                       then closeWith ''missing artwork support'' s2
                     else if VISUALIZER \<in> set (roles s2) \<and> \<not> truthy visualizerSupport
                       then closeWith ''missing visualizer support'' s2
                     else if SOURCE \<in> set (roles s2) \<and> \<not> truthy sourceSupport0
                       then closeWith ''missing source support'' s2
                     else handleHello_accept ev unsupportedRoles playerSupport0 artworkSupport
                            sourceSupport0 s2)"

subsection \<open>server/session.ts: messages after the handshake\<close>

definition handleClientTime :: "env \<Rightarrow> json option \<Rightarrow> SendspinSession \<Rightarrow> SendspinSession" where
  "handleClientTime ev payload s =
     (if isNullish payload then emit (Thrown TypeError) s
      else sendJson ev (ServerTime (opt_prop payload ''client_transmitted'') (serverNowUs ev)
                          (serverNowUs ev)) s)"

text \<open>\<^verbatim>\<open>handleClientState\<close> from the line \<^verbatim>\<open>const roles = [...this.roles]\<close> to its end.\<close>

definition handleClientState_update :: "env \<Rightarrow> json option \<Rightarrow> SendspinSession \<Rightarrow> SendspinSession" where
  "handleClientState_update ev payload s1 =
     (if isNullish payload then emit (Thrown TypeError) s1
      else
        let volume = opt_prop (opt_prop payload ''player'') ''volume'';
            muted = opt_prop (opt_prop payload ''player'') ''muted'';
            s2 = (if expectVolume s1 \<and> volume = None \<and> \<not> warnedMissingVolume s1
                  then s1 \<lparr> warnedMissingVolume := True \<rparr> else s1);
            s3 = (if expectMute s2 \<and> muted = None \<and> \<not> warnedMissingMute s2
                  then s2 \<lparr> warnedMissingMute := True \<rparr> else s2);
            source = opt_prop payload ''source''
        in afterHook ev OnPlayerState
             (\<lambda>s4. if truthy_opt source then
                     callHook ev OnSourceState
                       (s4 \<lparr> sourceState := (case nullish (opt_prop source ''state'') None of
                                               None \<Rightarrow> JNull | Some v \<Rightarrow> v),
                             sourceSignal := (case nullish (opt_prop source ''signal'') None of
                                                None \<Rightarrow> JNull | Some v \<Rightarrow> v) \<rparr>)
                   else s4)
             s3)"

definition handleClientState :: "env \<Rightarrow> json option \<Rightarrow> SendspinSession \<Rightarrow> SendspinSession" where
  "handleClientState ev payload s =
     (if \<not> initialStateReceived s
      then notifyIdentifiedThen ev (handleClientState_update ev payload)
             (s \<lparr> initialStateReceived := True, initialStateTimer := False \<rparr>)
      else handleClientState_update ev payload s)"

definition handleClientCommand :: "env \<Rightarrow> json option \<Rightarrow> SendspinSession \<Rightarrow> SendspinSession" where
  "handleClientCommand ev payload s =
     (if isNullish payload then emit (Thrown TypeError) s
      else
        let rest = (\<lambda>s1. if truthy_opt (opt_prop payload ''source'')
                          then callHook ev OnSourceCommand s1 else s1)
        in if truthy_opt (opt_prop payload ''controller'')
           then afterHook ev OnGroupCommand rest s
           else rest s)"

definition handleClientGoodbye :: "env \<Rightarrow> json option \<Rightarrow> SendspinSession \<Rightarrow> SendspinSession" where
  "handleClientGoodbye ev payload s =
     (case opt_prop payload ''reason'' of
        None \<Rightarrow> emit (WsClose None) s
      | Some reason \<Rightarrow>
          if truthy reason
          then afterHook ev OnGoodbye (emit (WsClose None)) (s \<lparr> lastGoodbyeReason := reason \<rparr>)
          else emit (WsClose None) s)"

definition normalizeCodec :: "json option \<Rightarrow> AudioCodec option" where
  "normalizeCodec codec =
     (if codec = Some (JStr ''opus'') then Some Opus
      else if codec = Some (JStr ''flac'') then Some Flac
      else if codec = Some (JStr ''pcm'') then Some Pcm
      else None)"

definition applyPlayerFormatRequest :: "json \<Rightarrow> SendspinSession \<Rightarrow> SendspinSession" where
  "applyPlayerFormatRequest request s =
     s \<lparr> streamFormat :=
           (streamFormat s)
             \<lparr> pf_codec := (case normalizeCodec (get_prop request ''codec'') of
                              None \<Rightarrow> pf_codec (streamFormat s) | Some c \<Rightarrow> c),
               pf_sampleRate := (case get_prop request ''sample_rate'' of
                                   Some (JNum n) \<Rightarrow> n | _ \<Rightarrow> pf_sampleRate (streamFormat s)),
               pf_channels := (case get_prop request ''channels'' of
                                 Some (JNum n) \<Rightarrow> n | _ \<Rightarrow> pf_channels (streamFormat s)),
               pf_bitDepth := (case get_prop request ''bit_depth'' of
                                 Some (JNum n) \<Rightarrow> n | _ \<Rightarrow> pf_bitDepth (streamFormat s)) \<rparr> \<rparr>"

definition applyArtworkFormatRequest :: "env \<Rightarrow> json \<Rightarrow> SendspinSession \<Rightarrow> SendspinSession" where
  "applyArtworkFormatRequest ev request s =
     (case get_prop request ''channel'' of
        Some (JNum ch) \<Rightarrow>
          let idx = max 0 (min 3 \<lfloor>ch\<rfloor>)
          in if idx < 0 \<or> idx \<ge> int (length (artworkChannels s)) then s
             else
               let current = artworkChannels s ! nat idx;
                   next = \<lparr> ac_source = (case nullish (get_prop request ''source'') None of
                                           None \<Rightarrow> ac_source current | Some v \<Rightarrow> v),
                            ac_format = (case nullish (get_prop request ''format'') None of
                                           None \<Rightarrow> ac_format current | Some v \<Rightarrow> v),
                            ac_width = (case get_prop request ''media_width'' of
                                          Some (JNum w) \<Rightarrow> w | _ \<Rightarrow> ac_width current),
                            ac_height = (case get_prop request ''media_height'' of
                                           Some (JNum h) \<Rightarrow> h | _ \<Rightarrow> ac_height current) \<rparr>;
                   s1 = s \<lparr> artworkChannels := (artworkChannels s) [nat idx := next] \<rparr>
               in sendArtworkStreamStart ev (artworkChannels s1) s1
      | _ \<Rightarrow> s)"

definition handleStreamRequestFormat :: "env \<Rightarrow> json option \<Rightarrow> SendspinSession \<Rightarrow> SendspinSession" where
  "handleStreamRequestFormat ev payload s =
     (if isNullish payload then emit (Thrown TypeError) s
      else if truthy_opt (opt_prop payload ''player'') \<and> PLAYER \<notin> set (roles s) then s
      else
        let s1 = (case opt_prop payload ''player'' of
                    None \<Rightarrow> s
                  | Some request \<Rightarrow> if truthy request then applyPlayerFormatRequest request s else s)
        in if truthy_opt (opt_prop payload ''artwork'') \<and> ARTWORK \<notin> set (roles s1) then s1
           else
             let s2 = (case opt_prop payload ''artwork'' of
                         None \<Rightarrow> s1
                       | Some request \<Rightarrow>
                           if truthy request then applyArtworkFormatRequest ev request s1 else s1)
             in afterHook ev OnFormatChanged (sendStreamFormat ev) s2)"

text \<open>\<^verbatim>\<open>handleText(text)\<close>, given the result of \<^verbatim>\<open>JSON.parse(text)\<close>: \<^term>\<open>None\<close> when the text
  does not parse. \<^verbatim>\<open>msg.type\<close> throws on the value \<^verbatim>\<open>null\<close>.\<close>

definition handleText :: "env \<Rightarrow> json option \<Rightarrow> SendspinSession \<Rightarrow> SendspinSession" where
  "handleText ev parsed s =
     (case parsed of
        None \<Rightarrow> s
      | Some msg \<Rightarrow>
          if msg = JNull then emit (Thrown TypeError) s
          else
            let ty = get_prop msg ''type''; payload = get_prop msg ''payload''
            in if \<not> ready s then
                 (if ty \<noteq> Some (JStr ''client/hello'') then closeWith ''expected client/hello first'' s
                  else handleHello ev payload s)
               else if ty = Some (JStr ''client/hello'') then s
               else if ty = Some (JStr ''client/time'') then handleClientTime ev payload s
               else if ty = Some (JStr ''client/state'') then handleClientState ev payload s
               else if ty = Some (JStr ''client/command'') then handleClientCommand ev payload s
               else if ty = Some (JStr ''client/goodbye'') then handleClientGoodbye ev payload s
               else if ty = Some (JStr ''stream/request-format'')
                 then handleStreamRequestFormat ev payload s
               else s)"

definition handleBinary :: "env \<Rightarrow> byte list \<Rightarrow> SendspinSession \<Rightarrow> SendspinSession" where
  "handleBinary ev buf s =
     (case unpackBinaryHeader buf of
        Inl e \<Rightarrow> s
      | Inr header \<Rightarrow>
          if messageType header = SOURCE_AUDIO_CHUNK then
            (if SOURCE \<notin> set (roles s) then s else callHook ev OnSourceAudio s)
          else s)"

subsection \<open>Sequences of session operations\<close>

datatype op =
    HandleText "json option"
  | HandleBinary "byte list"
  | SetHooks "hook set" "SendspinConnectionMeta option"
  | Destroy
  | InitialStateTimeout
  | PcmRetry
  | SendStreamStart PartialPlayerFormat
  | SendStreamClear "string list option"
  | SendStreamEnd "string list option"
  | SendPcmAudioFrame SendspinPcmFrame
  | SendServerCommand json "json option"
  | SendGroupUpdate PlaybackStateType "group_name option" "group_name option"
  | SendMetadata json
  | SendControllerState json
  | SendArtworkStreamStart "ArtworkChannel list"
  | SendArtwork int "byte list option"
  | SendVisualizerStreamStart json
  | SendVisualizerFrame "byte list" "real option"

fun step :: "env \<Rightarrow> op \<Rightarrow> SendspinSession \<Rightarrow> SendspinSession" where
  "step ev (HandleText parsed) s = handleText ev parsed s"
| "step ev (HandleBinary buf) s = handleBinary ev buf s"
| "step ev (SetHooks hs context) s = setHooks ev hs context s"
| "step ev Destroy s = destroy ev s"
| "step ev InitialStateTimeout s = initialStateTimeout s"
| "step ev PcmRetry s = pcmRetry ev s"
| "step ev (SendStreamStart format) s = sendStreamStart ev format s"
| "step ev (SendStreamClear rs) s = sendStreamClear ev rs s"
| "step ev (SendStreamEnd rs) s = sendStreamEnd ev rs s"
| "step ev (SendPcmAudioFrame frame) s = sendPcmAudioFrame ev frame s"
| "step ev (SendServerCommand payloadOrCommand payload) s =
     sendServerCommand ev payloadOrCommand payload s"
| "step ev (SendGroupUpdate st gid gname) s = sendGroupUpdate ev st gid gname s"
| "step ev (SendMetadata m) s = sendMetadata ev m s"
| "step ev (SendControllerState c) s = sendControllerState ev c s"
| "step ev (SendArtworkStreamStart chans) s = sendArtworkStreamStart ev chans s"
| "step ev (SendArtwork channel imageData) s = sendArtwork ev channel imageData s"
| "step ev (SendVisualizerStreamStart config) s = sendVisualizerStreamStart ev config s"
| "step ev (SendVisualizerFrame d ts) s = sendVisualizerFrame ev d ts s"

text \<open>A run: each operation with the environment it meets.\<close>

fun run :: "(env \<times> op) list \<Rightarrow> SendspinSession \<Rightarrow> SendspinSession" where
  "run [] s = s"
| "run ((ev, a) # rest) s = run rest (step ev a s)"

text \<open>Observations on the trace: the calls of \<^verbatim>\<open>ws.close\<close>, the binary frames written, the
  delays of the timers set, the number of calls of the \<open>onIdentified\<close> hook, and the number of
  those calls that threw.\<close>

fun closes :: "effect list \<Rightarrow> (nat \<times> string) option list" where
  "closes [] = []"
| "closes (WsClose c # es) = c # closes es"
| "closes (_ # es) = closes es"

fun binaryWrites :: "effect list \<Rightarrow> byte list list" where
  "binaryWrites [] = []"
| "binaryWrites (WsSendBinary b # es) = b # binaryWrites es"
| "binaryWrites (_ # es) = binaryWrites es"

fun timers :: "effect list \<Rightarrow> nat list" where
  "timers [] = []"
| "timers (SetTimeout ms # es) = ms # timers es"
| "timers (_ # es) = timers es"

definition identifiedCalls :: "SendspinSession \<Rightarrow> nat" where
  "identifiedCalls s = length (filter (\<lambda>e. e = HookCall OnIdentified) (effects s))"

definition identifiedThrows :: "SendspinSession \<Rightarrow> nat" where
  "identifiedThrows s = length (filter (\<lambda>e. e = HookThrew OnIdentified) (effects s))"

subsection \<open>server/core.ts: lookup by client id\<close>

text \<open>\<^verbatim>\<open>getSession(clientId)\<close> over the sessions of \<open>sessionsBySocket\<close> in insertion order, with
  the loop's two variables \<open>preferred\<close> and \<open>fallback\<close>.\<close>

fun getSession_loop ::
  "SendspinSession list \<Rightarrow> string \<Rightarrow> SendspinSession option \<Rightarrow> SendspinSession option
     \<Rightarrow> SendspinSession option" where
  "getSession_loop [] cid preferred fallback =
     (case preferred of Some p \<Rightarrow> Some p | None \<Rightarrow> fallback)"
| "getSession_loop (session # rest) cid preferred fallback =
     (if clientId session = Some cid then
        (if connectionReason session = PLAYBACK \<and> preferred = None
           then getSession_loop rest cid (Some session) fallback
         else if fallback = None then getSession_loop rest cid preferred (Some session)
         else getSession_loop rest cid preferred fallback)
      else getSession_loop rest cid preferred fallback)"

definition getSession :: "SendspinSession list \<Rightarrow> string \<Rightarrow> SendspinSession option" where
  "getSession sessions cid = getSession_loop sessions cid None None"


subsection \<open>Predicates used in the statements\<close>

text \<open>The call that leads from \<open>s\<close> to \<open>s'\<close> has called \<^verbatim>\<open>ws.close(1008, reason)\<close>, once, and has
  made no other call of \<^verbatim>\<open>ws.close\<close>.\<close>

definition closedWith :: "string \<Rightarrow> SendspinSession \<Rightarrow> SendspinSession \<Rightarrow> bool" where
  "closedWith reason s s' \<longleftrightarrow> closes (effects s') = closes (effects s) @ [Some (1008, reason)]"

text \<open>The conditions of the hello validation, read on the parsed payload itself: the
  version is the number 1; the client id is not a string, or a string of white space only;
  the supported roles are not an array, or an empty one; the array of supported roles holds a
  role literal; the capability block of a role (the value under the canonical key or, when
  that is missing or \<^verbatim>\<open>null\<close>, the value under the legacy key) is missing or falsy.\<close>

definition versionIsOne :: "json option \<Rightarrow> bool" where
  "versionIsOne payload \<longleftrightarrow> opt_prop payload ''version'' = Some (JNum 1)"

definition clientIdBlank :: "json option \<Rightarrow> bool" where
  "clientIdBlank payload \<longleftrightarrow>
     (case opt_prop payload ''client_id'' of
        Some (JStr v) \<Rightarrow> list_all isWhiteSpace v
      | _ \<Rightarrow> True)"

definition noSupportedRoles :: "json option \<Rightarrow> bool" where
  "noSupportedRoles payload \<longleftrightarrow>
     (case opt_prop payload ''supported_roles'' of
        Some (JArr xs) \<Rightarrow> xs = []
      | _ \<Rightarrow> True)"

definition offersRole :: "json option \<Rightarrow> string \<Rightarrow> bool" where
  "offersRole payload role \<longleftrightarrow>
     (case opt_prop payload ''supported_roles'' of
        Some (JArr xs) \<Rightarrow> JStr role \<in> set xs
      | _ \<Rightarrow> False)"

definition lacksBlock :: "json option \<Rightarrow> string \<Rightarrow> string \<Rightarrow> bool" where
  "lacksBlock payload key legacy \<longleftrightarrow>
     (if isNullish (opt_prop payload key) then \<not> truthy_opt (opt_prop payload legacy)
      else \<not> truthy_opt (opt_prop payload key))"

text \<open>The same for one role, in terms of what \<open>handleHello\<close> computes: the role resolved
  from the hello is admitted and the hello has no capability block for it.\<close>

definition missingSupport :: "json option \<Rightarrow> string \<Rightarrow> string \<Rightarrow> string \<Rightarrow> bool" where
  "missingSupport payload role key legacy \<longleftrightarrow>
     role \<in> set (fst (resolveActiveRoles (hello_supported_roles payload)))
     \<and> \<not> truthy (hello_support payload key legacy)"

text \<open>What the identification invariant is about: four flags, the number of calls of the
  \<open>onIdentified\<close> hook, the number of those that threw, and the hooks object. \<open>notify_view\<close>
  is the effect of \<open>maybeNotifyIdentified\<close> on them, given whether the hook throws.\<close>

type_synonym idview = "bool \<times> bool \<times> bool \<times> bool \<times> nat \<times> nat \<times> hook set"

definition idview :: "SendspinSession \<Rightarrow> idview" where
  "idview s =
     (ready s, identified s, initialStateRequired s, initialStateReceived s, identifiedCalls s,
      identifiedThrows s, hooks s)"

fun notify_view :: "bool \<Rightarrow> idview \<Rightarrow> idview" where
  "notify_view thr (rdy, idf, req, rcv, n, t, hs) =
     (if idf then (rdy, idf, req, rcv, n, t, hs)
      else if \<not> rdy \<or> OnIdentified \<notin> hs then (rdy, idf, req, rcv, n, t, hs)
      else if req \<and> \<not> rcv then (rdy, idf, req, rcv, n, t, hs)
      else if thr then (rdy, idf, req, rcv, n + 1, t + 1, hs)
      else (rdy, True, req, rcv, n + 1, t, hs))"



text \<open>The session after \<open>handleHello\<close> has stored the identity and the resolved roles of a
  hello.\<close>

definition helloIdentity :: "json option \<Rightarrow> SendspinSession \<Rightarrow> SendspinSession" where
  "helloIdentity payload s =
     s \<lparr> clientId := Some (hello_client_id payload), clientName := hello_name payload,
         roles := fst (resolveActiveRoles (hello_supported_roles payload)) \<rparr>"

subsection \<open>Example inputs\<close>

text \<open>A \<^verbatim>\<open>stream/start\<close> for six channels.\<close>

definition bad_start :: StreamStartMessage where
  "bad_start = \<lparr> ssm_player = Some \<lparr> ssp_codec = ''pcm'', ssp_sample_rate = 48000,
       ssp_channels = 6, ssp_bit_depth = 16, ssp_codec_header = None \<rparr> \<rparr>"

text \<open>An environment with an open socket and nothing buffered, a fresh
  session whose hooks object defines \<open>onIdentified\<close>, a hello without roles and a hello that
  asks for the player role without a capability block.\<close>

definition ev_open :: env where
  "ev_open = \<lparr> readyState = OPEN, bufferedAmount = 0, serverNowUs = 0, dateNow = 0,
               hookThrows = {} \<rparr>"

definition no_meta :: SendspinConnectionMeta where
  "no_meta = \<lparr> zoneId = None, playerId = None, remote = None \<rparr>"

definition session0 :: SendspinSession where
  "session0 = SendspinSession_new DISCOVERY no_meta {OnIdentified}"

definition hello_no_roles :: json where
  "hello_no_roles =
     JObj [(''version'', JNum 1), (''client_id'', JStr '' c1 ''), (''supported_roles'', JArr [])]"

definition hello_player_no_support :: json where
  "hello_player_no_support =
     JObj [(''version'', JNum 1), (''client_id'', JStr ''c1''),
           (''supported_roles'', JArr [JStr ''player@v1''])]"





text \<open>Hellos that fail one check each, a hello of a player that gives its capability block
  under the legacy key, and the hello of a controller, as a message.\<close>

definition hello_version_2 :: json where
  "hello_version_2 =
     JObj [(''version'', JNum 2), (''client_id'', JStr ''c1''),
           (''supported_roles'', JArr [JStr ''controller@v1''])]"

definition hello_version_text :: json where
  "hello_version_text =
     JObj [(''version'', JStr ''1''), (''client_id'', JStr ''c1''),
           (''supported_roles'', JArr [JStr ''controller@v1''])]"

definition hello_blank_id :: json where
  "hello_blank_id =
     JObj [(''version'', JNum 1), (''client_id'', JStr ''  ''),
           (''supported_roles'', JArr [JStr ''controller@v1''])]"

definition hello_artwork_no_support :: json where
  "hello_artwork_no_support =
     JObj [(''version'', JNum 1), (''client_id'', JStr ''c1''),
           (''supported_roles'', JArr [JStr ''artwork@v1''])]"

definition hello_visualizer_no_support :: json where
  "hello_visualizer_no_support =
     JObj [(''version'', JNum 1), (''client_id'', JStr ''c1''),
           (''supported_roles'', JArr [JStr ''visualizer@v1'']),
           (''visualizer@v1_support'', JBool False), (''visualizer_support'', JObj [])]"

definition hello_source_no_support :: json where
  "hello_source_no_support =
     JObj [(''version'', JNum 1), (''client_id'', JStr ''c1''),
           (''supported_roles'', JArr [JStr ''source@v1'']),
           (''source@v1_support'', JNull)]"

definition hello_player_legacy :: json where
  "hello_player_legacy =
     JObj [(''version'', JNum 1), (''client_id'', JStr ''c1''),
           (''supported_roles'', JArr [JStr ''player@v1'']),
           (''player_support'', JObj [])]"

definition hello_controller :: json where
  "hello_controller =
     JObj [(''version'', JNum 1), (''client_id'', JStr ''c1''),
           (''supported_roles'', JArr [JStr ''controller@v1''])]"

definition msg_hello_controller :: json where
  "msg_hello_controller = JObj [(''type'', JStr ''client/hello''), (''payload'', hello_controller)]"

definition msg_hello_player_no_support :: json where
  "msg_hello_player_no_support =
     JObj [(''type'', JStr ''client/hello''), (''payload'', hello_player_no_support)]"

text \<open>The environment of a socket that is closing, and one in which the \<open>onIdentified\<close>
  hook throws.\<close>

definition ev_closing :: env where
  "ev_closing = \<lparr> readyState = CLOSING, bufferedAmount = 0, serverNowUs = 0, dateNow = 0,
                  hookThrows = {} \<rparr>"


text \<open>A filter snapshot with offset 3 and one with offset 1/2, both without drift.\<close>

definition filter_offset_3 :: SendspinTimeFilter where
  "filter_offset_3 =
     SendspinTimeFilter_new \<lparr> current := \<lparr> te_lastUpdate = 0, te_offset = 3, te_drift = 0 \<rparr> \<rparr>"

definition filter_offset_half :: SendspinTimeFilter where
  "filter_offset_half =
     SendspinTimeFilter_new \<lparr> current := \<lparr> te_lastUpdate = 0, te_offset = 1 / 2, te_drift = 0 \<rparr> \<rparr>"

text \<open>An environment with an open socket and 600 KiB buffered, and a PCM
  frame.\<close>

definition ev_busy :: env where
  "ev_busy = \<lparr> readyState = OPEN, bufferedAmount = 600 * 1024, serverNowUs = 0, dateNow = 0,
               hookThrows = {} \<rparr>"

definition frame_example :: SendspinPcmFrame where
  "frame_example = \<lparr> frame_data = [1, 2, 3], frame_timestampUs = Some 1000000 \<rparr>"

section \<open>Theorems\<close>

subsection \<open>Binary header\<close>

lemma length_writeBigInt64BE: "length (writeBigInt64BE w) = 8"
  by (simp add: writeBigInt64BE_def)

lemma read_write_BigInt64BE: "readBigInt64BE (t # writeBigInt64BE w @ rest) 1 = w"
proof (rule bit_word_eqI)
  fix n :: nat
  assume "n < LENGTH(64)"
  then have "n < 64" by simp
  then consider "n < 8" | "8 \<le> n \<and> n < 16" | "16 \<le> n \<and> n < 24" | "24 \<le> n \<and> n < 32"
    | "32 \<le> n \<and> n < 40" | "40 \<le> n \<and> n < 48" | "48 \<le> n \<and> n < 56" | "56 \<le> n \<and> n < 64"
    by linarith
  then show "bit (readBigInt64BE (t # writeBigInt64BE w @ rest) 1) n = bit w n"
    unfolding writeBigInt64BE_def readBigInt64BE_def
    by cases (auto simp add: bit_simps)
qed

lemma writeBigInt64BE_nth:
  assumes "i < 8"
  shows "uint (writeBigInt64BE (word_of_int ts) ! i) = (ts div 2 ^ (8 * (7 - i))) mod 256"
proof -
  let ?n = "8 * (7 - i)"
  have n: "?n + 8 \<le> 64" using assms by simp
  have "i \<in> {0, 1, 2, 3, 4, 5, 6, 7}" using assms by auto
  then have "writeBigInt64BE (word_of_int ts) ! i = ucast (drop_bit ?n (word_of_int ts :: 64 word))"
    by (auto simp add: writeBigInt64BE_def)
  then have "uint (writeBigInt64BE (word_of_int ts) ! i)
      = take_bit 8 (drop_bit ?n (take_bit 64 ts))"
    by (simp add: unsigned_ucast_eq unsigned_drop_bit_eq uint_word_of_int_eq)
  also have "drop_bit ?n (take_bit 64 ts) = take_bit (64 - ?n) (drop_bit ?n ts)"
    by (simp only: drop_bit_take_bit)
  also have "take_bit 8 (take_bit (64 - ?n) (drop_bit ?n ts)) = take_bit 8 (drop_bit ?n ts)"
  proof -
    have "8 \<le> 64 - ?n" using n by linarith
    then show ?thesis by (simp only: take_bit_take_bit min_absorb1)
  qed
  finally show ?thesis
    by (simp add: take_bit_eq_mod drop_bit_eq_div)
qed

lemma isNumber_small: "\<bar>b\<bar> < 2 ^ 53 \<Longrightarrow> isNumber b"
proof -
  assume a: "\<bar>b\<bar> < 2 ^ 53"
  have "nat \<bar>b\<bar> < 2 ^ 53" using a by (simp add: nat_less_iff)
  then have "floorlog 2 (nat \<bar>b\<bar>) \<le> 53"
    by (intro floorlog_leI) auto
  then show ?thesis by (simp add: isNumber_def Number_of_BigInt_def Let_def mult_sgn_abs)
qed

text \<open>
  Claim C4. For every message type in 0..255 and every timestamp \<open>ts\<close> that a \<^verbatim>\<open>number\<close>
  holds with \<open>-2^63 \<le> ts < 2^63\<close>, packing succeeds with a buffer of 9 bytes: byte 0 is the
  type, bytes 1..8 are the two's complement of \<open>ts\<close>, most significant byte first (byte
  \<open>i + 1\<close> is \<open>ts div 2^(8 (7 - i)) mod 256\<close>, and the bytes read back as a signed 64-bit
  integer give \<open>ts\<close>). Unpacking that buffer, with any payload after it, returns exactly
  \<open>(type, ts)\<close>.
\<close>

theorem header_roundtrip:
  assumes ty: "0 \<le> ty" "ty \<le> 255"
    and ts: "- (2 ^ 63) \<le> ts" "ts < 2 ^ 63"
    and num: "isNumber ts"
  shows "\<exists>bs. packBinaryHeader \<lparr> messageType = ty, timestampUs = of_int ts \<rparr> = Inr bs
           \<and> length bs = 9
           \<and> uint (bs ! 0) = ty
           \<and> (\<forall>i<8. uint (bs ! (i + 1)) = (ts div 2 ^ (8 * (7 - i))) mod 256)
           \<and> sint (readBigInt64BE bs 1) = ts
           \<and> unpackBinaryHeader (bs @ payload) = Inr \<lparr> messageType = ty, timestampUs = of_int ts \<rparr>"
proof -
  let ?bs = "word_of_int ty # writeBigInt64BE (word_of_int ts)"
  have pack: "packBinaryHeader \<lparr> messageType = ty, timestampUs = of_int ts \<rparr> = Inr ?bs"
    using ty ts by (simp add: packBinaryHeader_def)
  have len: "length ?bs = 9" by (simp add: length_writeBigInt64BE)
  have tag: "uint (word_of_int ty :: byte) = ty"
    using ty by (simp add: uint_word_of_int_eq take_bit_int_eq_self)
  have rd: "readBigInt64BE (?bs @ rest) 1 = word_of_int ts" for rest
    using read_write_BigInt64BE [of "word_of_int ty" "word_of_int ts" rest] by simp
  have sg: "sint (word_of_int ts :: 64 word) = ts"
    using ts by (simp add: sint_sbintrunc' signed_take_bit_int_eq_self)
  have bytes: "\<forall>i<8. uint (?bs ! (i + 1)) = (ts div 2 ^ (8 * (7 - i))) mod 256"
    using writeBigInt64BE_nth by simp
  have un: "unpackBinaryHeader (?bs @ payload) = Inr \<lparr> messageType = ty, timestampUs = of_int ts \<rparr>"
    using num rd [of payload] len tag sg
    by (simp add: unpackBinaryHeader_def BINARY_HEADER_SIZE_def isNumber_def)
  show ?thesis
    using pack len tag bytes un rd [of "[]"] sg by simp
qed

lemma floorlog_2_63: "floorlog 2 9223372036854775808 = 64"
  by (simp add: compute_floorlog)

lemma floorlog_2_53_1: "floorlog 2 9007199254740993 = 54"
  by (simp add: compute_floorlog)

lemma isNumber_min: "isNumber (- 9223372036854775808)"
  by (simp add: isNumber_def Number_of_BigInt_def floorlog_2_63 Let_def)

text \<open>An integer of the 64-bit range that no \<^verbatim>\<open>number\<close> holds: \<open>2^53 + 1\<close> reads back as
  \<open>2^53\<close>.\<close>

lemma not_isNumber_example:
  "Number_of_BigInt 9007199254740993 = 9007199254740992" "\<not> isNumber 9007199254740993"
  by (simp_all add: isNumber_def Number_of_BigInt_def floorlog_2_53_1 Let_def)

theorem header_roundtrip_witness:
  "isNumber 1000000 \<and>
   packBinaryHeader \<lparr> messageType = 12, timestampUs = 1000000 \<rparr> = Inr [12, 0, 0, 0, 0, 0, 15, 66, 64] \<and>
   unpackBinaryHeader [12, 0, 0, 0, 0, 0, 15, 66, 64, 7, 7]
     = Inr \<lparr> messageType = 12, timestampUs = 1000000 \<rparr> \<and>
   isNumber (- 9223372036854775808) \<and>
   packBinaryHeader \<lparr> messageType = 255, timestampUs = - 9223372036854775808 \<rparr>
     = Inr [255, 128, 0, 0, 0, 0, 0, 0, 0] \<and>
   unpackBinaryHeader [255, 128, 0, 0, 0, 0, 0, 0, 0]
     = Inr \<lparr> messageType = 255, timestampUs = - 9223372036854775808 \<rparr>"
proof -
  have n: "isNumber 1000000" by (rule isNumber_small) simp
  have p: "packBinaryHeader \<lparr> messageType = 12, timestampUs = 1000000 \<rparr> = Inr [12, 0, 0, 0, 0, 0, 15, 66, 64]"
    by (simp add: packBinaryHeader_def writeBigInt64BE_def)
  from header_roundtrip [of 12 1000000 "[7, 7]", OF _ _ _ _ n] p
  have 1: "unpackBinaryHeader [12, 0, 0, 0, 0, 0, 15, 66, 64, 7, 7]
     = Inr \<lparr> messageType = 12, timestampUs = 1000000 \<rparr>" by simp
  have q: "packBinaryHeader \<lparr> messageType = 255, timestampUs = - 9223372036854775808 \<rparr>
     = Inr [255, 128, 0, 0, 0, 0, 0, 0, 0]"
    by (simp add: packBinaryHeader_def writeBigInt64BE_def)
  from header_roundtrip [of 255 "- 9223372036854775808" "[]", OF _ _ _ _ isNumber_min] q
  have 2: "unpackBinaryHeader [255, 128, 0, 0, 0, 0, 0, 0, 0]
     = Inr \<lparr> messageType = 255, timestampUs = - 9223372036854775808 \<rparr>" by simp
  from n p 1 isNumber_min q 2 show ?thesis by simp
qed

subsection \<open>Time filter\<close>

lemmas filter_defs = update_def kalman_step_def snapshot_def SendspinTimeFilter_new_def
  SendspinTimeFilter_constructor_def TimeElement_new_def ADAPTIVE_FORGETTING_CUTOFF_def Let_def

lemma boot_first: "update 100 10 0 SendspinTimeFilter_new = Some SendspinTimeFilter_new"
  by (simp add: filter_defs)

lemma boot_second:
  "update 120 10 1000000 SendspinTimeFilter_new =
     Some (SendspinTimeFilter_new \<lparr> lastUpdate := 1000000, count := 1, offset := 120,
             offsetCovariance := Some 100,
             current := \<lparr> te_lastUpdate = 1000000, te_offset = 120, te_drift = 0 \<rparr> \<rparr>)"
  by (simp add: filter_defs)

lemma boot_third:
  "update 140 10 2000000
     (SendspinTimeFilter_new \<lparr> lastUpdate := 1000000, count := 1, offset := 120,
             offsetCovariance := Some 100,
             current := \<lparr> te_lastUpdate = 1000000, te_offset = 120, te_drift = 0 \<rparr> \<rparr>) =
     Some (SendspinTimeFilter_new \<lparr> lastUpdate := 2000000, count := 2, offset := 140,
             drift := 1 / 50000, offsetCovariance := Some 100, driftCovariance := 1 / 5000,
             current := \<lparr> te_lastUpdate = 2000000, te_offset = 140, te_drift = 1 / 50000 \<rparr> \<rparr>)"
  by (simp add: filter_defs)

lemma boot_fourth:
  "update 160 10 3000000
     (SendspinTimeFilter_new \<lparr> lastUpdate := 2000000, count := 2, offset := 140,
             drift := 1 / 50000, offsetCovariance := Some 100, driftCovariance := 1 / 5000,
             current := \<lparr> te_lastUpdate = 2000000, te_offset = 140, te_drift = 1 / 50000 \<rparr> \<rparr>) =
     Some (SendspinTimeFilter_new \<lparr> lastUpdate := 3000000, count := 3, offset := 160,
             drift := 1 / 50000, offsetCovariance := Some (200000200 / 2000003),
             offsetDriftCovariance := 200 / 2000003,
             driftCovariance := 3 / 10000015000,
             current := \<lparr> te_lastUpdate = 3000000, te_offset = 160, te_drift = 1 / 50000 \<rparr> \<rparr>)"
  by (simp add: filter_defs)

lemma new_filter_fields:
  "drift SendspinTimeFilter_new = 0" "offset SendspinTimeFilter_new = 0"
  "count SendspinTimeFilter_new = 0" "offsetCovariance SendspinTimeFilter_new = None"
  by (simp_all add: SendspinTimeFilter_new_def SendspinTimeFilter_constructor_def)

lemma round_sqrt_10: "round (sqrt (200000200 / 2000003)) = 10"
proof (rule round_unique)
  have "sqrt (200000200 / 2000003) < 21 / 2"
    by (rule real_less_lsqrt) (simp_all add: power2_eq_square)
  then show "sqrt (200000200 / 2000003) - 1 / 2 < of_int 10" by simp
  have "19 / 2 \<le> sqrt (200000200 / 2000003)"
    by (rule real_le_rsqrt) (simp add: power2_eq_square)
  then show "of_int 10 \<le> sqrt (200000200 / 2000003) + 1 / 2" by simp
qed

text \<open>
  Claim C1, as stated, fails: a fresh filter has \<open>lastUpdate = 0\<close>, so \<^verbatim>\<open>update(100, 10, 0)\<close>
  is taken for a retransmit and dropped. After \<^verbatim>\<open>update(120, 10, 1_000_000)\<close> the filter has
  seen one sample: it is not synchronized and its drift is 0.
\<close>

theorem kalman_bootstrap_counterexample:
  "map_option isSynchronized (updates [(100, 10, 0), (120, 10, 1000000)] SendspinTimeFilter_new)
     = Some False
   \<and> map_option drift (updates [(100, 10, 0), (120, 10, 1000000)] SendspinTimeFilter_new) = Some 0"
  by (simp add: boot_first boot_second isSynchronized_def new_filter_fields)

text \<open>
  Claim C1, amended. On a fresh filter \<^verbatim>\<open>update(100, 10, 0)\<close> changes nothing. After
  \<^verbatim>\<open>update(120, 10, 1_000_000)\<close> the count is 1, the filter is not synchronized, the drift is
  0 and the offset 120. After the third call \<^verbatim>\<open>update(140, 10, 2_000_000)\<close> the count is 2,
  the filter is synchronized, the drift is \<open>20e-6\<close> and the offset 140. After the fourth call
  \<^verbatim>\<open>update(160, 10, 3_000_000)\<close> the error is finite (it is 10).
\<close>

theorem kalman_bootstrap_amended:
  "update 100 10 0 SendspinTimeFilter_new = Some SendspinTimeFilter_new
   \<and> map_option (\<lambda>f. (count f, isSynchronized f, drift f, offset f))
        (updates [(100, 10, 0), (120, 10, 1000000)] SendspinTimeFilter_new)
       = Some (1, False, 0, 120)
   \<and> map_option (\<lambda>f. (count f, isSynchronized f, drift f, offset f))
        (updates [(100, 10, 0), (120, 10, 1000000), (140, 10, 2000000)] SendspinTimeFilter_new)
       = Some (2, True, 20 / 1000000, 140)
   \<and> map_option error
        (updates [(100, 10, 0), (120, 10, 1000000), (140, 10, 2000000), (160, 10, 3000000)]
           SendspinTimeFilter_new)
       = Some (Some 10)"
  by (simp add: boot_first boot_second boot_third boot_fourth isSynchronized_def error_def
      round_sqrt_10 new_filter_fields)

text \<open>Rounding to a double: a value between two doubles of its own binade is rounded to a
  double between them; integers below \<open>2\<^sup>5\<^sup>3\<close> and halves of integers below \<open>2\<^sup>5\<^sup>2\<close> are
  doubles; a value of magnitude at most \<open>2\<^sup>1\<^sup>0\<^sup>2\<^sup>3\<close> is rounded to a finite double.\<close>

lemma roundTiesToEven_of_int: "roundTiesToEven (of_int k) = k"
  by (simp add: roundTiesToEven_def)

lemma roundTiesToEven_between:
  assumes "of_int i \<le> z" "z \<le> of_int j"
  shows "i \<le> roundTiesToEven z \<and> roundTiesToEven z \<le> j"
proof -
  have 1: "i \<le> \<lfloor>z\<rfloor>" using assms(1) by (simp add: le_floor_iff)
  have 2: "\<lfloor>z\<rfloor> \<le> j" using assms(2) by (simp add: floor_le_iff)
  have 3: "\<lfloor>z\<rfloor> + 1 \<le> j" if "z - of_int \<lfloor>z\<rfloor> \<ge> 1 / 2"
  proof -
    from that have "of_int \<lfloor>z\<rfloor> < z" by linarith
    with assms(2) have "(of_int \<lfloor>z\<rfloor> :: real) < of_int j" by linarith
    then show ?thesis by linarith
  qed
  show ?thesis
    using 1 2 3 by (auto simp add: roundTiesToEven_def Let_def not_less)
qed

lemma ulpExponent_le:
  assumes "x \<noteq> 0" "\<bar>x\<bar> < 2 ^ n"
  shows "ulpExponent x \<le> max (int n - 53) (- 1074)"
proof -
  have "log 2 \<bar>x\<bar> < real n"
    using assms by (simp add: log_less_iff powr_realpow)
  then have "\<lfloor>log 2 \<bar>x\<bar>\<rfloor> < int n"
    by (simp add: floor_less_iff)
  then show ?thesis by (simp add: ulpExponent_def)
qed

lemma ulpExponent_eq:
  assumes "2 ^ k \<le> \<bar>x\<bar>" "\<bar>x\<bar> < 2 ^ Suc k"
  shows "ulpExponent x = max (int k - 52) (- 1074)"
proof -
  have "(0 :: real) < 2 ^ k" by simp
  with assms(1) have pos: "0 < \<bar>x\<bar>" by linarith
  have "\<lfloor>log 2 \<bar>x\<bar>\<rfloor> = int k"
    using assms pos
    by (subst floor_log_eq_powr_iff) (simp_all add: powr_realpow powr_add)
  then show ?thesis by (simp add: ulpExponent_def)
qed

lemma toDouble_on_grid:
  assumes nz: "x \<noteq> 0"
    and a: "of_int i * 2 powi ulpExponent x \<le> x"
    and b: "x \<le> of_int j * 2 powi ulpExponent x"
    and la: "\<bar>of_int i * 2 powi ulpExponent x\<bar> < (2 :: real) ^ 1024"
    and lb: "\<bar>of_int j * 2 powi ulpExponent x\<bar> < (2 :: real) ^ 1024"
  shows "\<exists>r. toDouble x = Some r \<and> of_int i * 2 powi ulpExponent x \<le> r
              \<and> r \<le> of_int j * 2 powi ulpExponent x"
proof -
  define e where "e = ulpExponent x"
  define k where "k = roundTiesToEven (x / 2 powi e)"
  have p: "(0 :: real) < 2 powi e" by simp
  have "of_int i \<le> x / 2 powi e" using a p by (simp add: e_def pos_le_divide_eq)
  moreover have "x / 2 powi e \<le> of_int j" using b p by (simp add: e_def pos_divide_le_eq)
  ultimately have ij: "i \<le> k \<and> k \<le> j" unfolding k_def by (rule roundTiesToEven_between)
  then have lo: "of_int i * 2 powi e \<le> of_int k * (2 powi e :: real)"
    and hi: "of_int k * 2 powi e \<le> of_int j * (2 powi e :: real)"
    using p by simp_all
  from lo hi la lb have "\<bar>of_int k * (2 powi e :: real)\<bar> < 2 ^ 1024"
    unfolding e_def by linarith
  then have "toDouble x = Some (of_int k * 2 powi e)"
    using nz by (simp add: toDouble_def Let_def e_def k_def)
  with lo hi show ?thesis by (simp add: e_def)
qed

lemma powi_shift:
  assumes "e \<le> m"
  shows "(2 :: real) powi m = 2 ^ nat (m - e) * 2 powi e"
proof -
  have "(2 :: real) powi m = 2 powi (int (nat (m - e)) + e)" using assms by simp
  also have "\<dots> = 2 powi int (nat (m - e)) * 2 powi e" by (rule power_int_add) simp
  finally show ?thesis unfolding power_int_of_nat .
qed

lemma toDouble_of_int:
  assumes "\<bar>n\<bar> < 2 ^ 53"
  shows "toDouble (of_int n) = Some (of_int n)"
proof (cases "n = 0")
  case True
  then show ?thesis by (simp add: toDouble_def)
next
  case False
  define x :: real where "x = of_int n"
  have nz: "x \<noteq> 0" using False by (simp add: x_def)
  have "\<bar>x\<bar> < 2 ^ 53"
    using assms unfolding x_def by (metis of_int_abs of_int_less_numeral_power_cancel_iff)
  then have e: "ulpExponent x \<le> 0" using ulpExponent_le [OF nz, of 53] by simp
  define i where "i = n * 2 ^ nat (- ulpExponent x)"
  have g: "of_int i * 2 powi ulpExponent x = x"
    using powi_shift [OF e] by (simp add: i_def x_def)
  have "(2 :: real) ^ 53 < 2 ^ 1024" by simp
  with \<open>\<bar>x\<bar> < 2 ^ 53\<close> have l: "\<bar>of_int i * 2 powi ulpExponent x\<bar> < (2 :: real) ^ 1024"
    unfolding g by linarith
  from toDouble_on_grid [OF nz, of i i] g l show ?thesis
    by (auto simp add: x_def)
qed

lemma toDouble_half_interval:
  assumes c: "\<bar>c\<bar> < 2 ^ 52"
    and lo: "of_int c - 1 / 2 \<le> y" and hi: "y \<le> of_int c + 1 / 2"
  shows "\<exists>r. toDouble y = Some r \<and> of_int c - 1 / 2 \<le> r \<and> r \<le> of_int c + 1 / 2"
proof (cases "y = 0")
  case True
  with lo hi show ?thesis by (simp add: toDouble_def)
next
  case nz: False
  have cb: "\<bar>of_int c :: real\<bar> \<le> 2 ^ 52 - 1"
  proof -
    from c have "\<bar>c\<bar> \<le> 2 ^ 52 - 1" by simp
    then have "(of_int \<bar>c\<bar> :: real) \<le> of_int (2 ^ 52 - 1)" by (simp only: of_int_le_iff)
    then show ?thesis by simp
  qed
  then have yb: "\<bar>y\<bar> < 2 ^ 52" using lo hi by linarith
  have e: "ulpExponent y \<le> - 1" using ulpExponent_le [OF nz yb] by simp
  define m where "m = (2 :: int) ^ nat (- 1 - ulpExponent y)"
  have h: "of_int m * 2 powi ulpExponent y = (1 / 2 :: real)"
    using powi_shift [OF e] by (simp add: m_def power_int_minus field_simps)
  have ga: "of_int ((2 * c - 1) * m) * 2 powi ulpExponent y = of_int c - (1 / 2 :: real)"
  proof -
    have "of_int ((2 * c - 1) * m) * 2 powi ulpExponent y
        = of_int (2 * c - 1) * (of_int m * 2 powi ulpExponent y :: real)" by simp
    also have "\<dots> = of_int c - 1 / 2" unfolding h by simp
    finally show ?thesis .
  qed
  have gb: "of_int ((2 * c + 1) * m) * 2 powi ulpExponent y = of_int c + (1 / 2 :: real)"
  proof -
    have "of_int ((2 * c + 1) * m) * 2 powi ulpExponent y
        = of_int (2 * c + 1) * (of_int m * 2 powi ulpExponent y :: real)" by simp
    also have "\<dots> = of_int c + 1 / 2" unfolding h by simp
    finally show ?thesis .
  qed
  have big: "(2 :: real) ^ 52 < 2 ^ 1024" by simp
  have la: "\<bar>of_int ((2 * c - 1) * m) * 2 powi ulpExponent y\<bar> < (2 :: real) ^ 1024"
    unfolding ga using cb big by linarith
  have lb: "\<bar>of_int ((2 * c + 1) * m) * 2 powi ulpExponent y\<bar> < (2 :: real) ^ 1024"
    unfolding gb using cb big by linarith
  from toDouble_on_grid [OF nz _ _ la lb] lo hi show ?thesis
    unfolding ga gb by simp
qed

lemma toDouble_finite:
  assumes "\<bar>y\<bar> \<le> 2 ^ 1023"
  shows "\<exists>r. toDouble y = Some r"
proof (cases "y = 0")
  case True
  then show ?thesis by (simp add: toDouble_def)
next
  case nz: False
  define e where "e = ulpExponent y"
  define z where "z = y / 2 powi e"
  have p: "(0 :: real) < 2 powi e" by simp
  have "(2 :: real) ^ 1023 < 2 ^ 1024" by simp
  with assms have "\<bar>y\<bar> < 2 ^ 1024" by linarith
  from ulpExponent_le [OF nz this] have e: "e \<le> 971" by (simp add: e_def)
  have "(2 :: real) powi e \<le> 2 powi 971" using e by (intro power_int_increasing) simp_all
  then have pe: "(2 :: real) powi e \<le> 2 ^ 971" by simp
  have y: "y = z * 2 powi e" by (simp add: z_def)
  have lo: "of_int \<lfloor>z\<rfloor> * 2 powi e \<le> y"
    unfolding y using p by (simp add: mult_right_mono)
  have hi: "y \<le> of_int (\<lfloor>z\<rfloor> + 1) * 2 powi e"
    unfolding y using p by (intro mult_right_mono) (simp_all add: less_imp_le)
  have d1: "y - of_int \<lfloor>z\<rfloor> * 2 powi e \<le> 2 powi e"
  proof -
    have "y - of_int \<lfloor>z\<rfloor> * 2 powi e = (z - of_int \<lfloor>z\<rfloor>) * 2 powi e"
      by (simp add: y algebra_simps)
    also have "\<dots> \<le> 1 * 2 powi e"
      using p by (intro mult_right_mono) (simp_all, linarith)
    finally show ?thesis by simp
  qed
  have d2: "of_int (\<lfloor>z\<rfloor> + 1) * 2 powi e - y \<le> 2 powi e"
  proof -
    have "of_int (\<lfloor>z\<rfloor> + 1) * 2 powi e - y = (of_int \<lfloor>z\<rfloor> + 1 - z) * 2 powi e"
      by (simp add: y algebra_simps)
    also have "\<dots> \<le> 1 * 2 powi e"
    proof (rule mult_right_mono)
      show "of_int \<lfloor>z\<rfloor> + 1 - z \<le> 1" by linarith
      show "(0 :: real) \<le> 2 powi e" by simp
    qed
    finally show ?thesis by simp
  qed
  have s: "(2 :: real) ^ 1023 + 2 ^ 971 < 2 ^ 1024" by simp
  have la: "\<bar>of_int \<lfloor>z\<rfloor> * 2 powi e\<bar> < (2 :: real) ^ 1024"
    using lo d1 pe assms s by linarith
  have lb: "\<bar>of_int (\<lfloor>z\<rfloor> + 1) * 2 powi e\<bar> < (2 :: real) ^ 1024"
    using hi d2 pe assms s by linarith
  from toDouble_on_grid [OF nz, of "\<lfloor>z\<rfloor>" "\<lfloor>z\<rfloor> + 1"] lo hi la lb
  show ?thesis unfolding e_def by blast
qed

lemma toDouble_0: "toDouble 0 = Some 0"
  by (simp add: toDouble_def)

lemma toDouble_numeral:
  "numeral n < (2 :: int) ^ 53 \<Longrightarrow> toDouble (numeral n) = Some (numeral n)"
  using toDouble_of_int [of "numeral n"] by simp

lemma toDouble_1: "toDouble 1 = Some 1"
  using toDouble_of_int [of 1] by simp

lemma toDouble_large:
  "toDouble 9007199254740994 = Some 9007199254740994"
  "toDouble 9007199254740992 = Some 9007199254740992"
  "toDouble 9007199254740997 = Some 9007199254740996"
  "toDouble 9007199254740993 = Some 9007199254740992"
proof -
  have e: "ulpExponent 9007199254740994 = 1" "ulpExponent 9007199254740992 = 1"
    "ulpExponent 9007199254740997 = 1" "ulpExponent 9007199254740993 = 1"
    by (simp_all add: ulpExponent_eq [where k = 53])
  show "toDouble 9007199254740994 = Some 9007199254740994"
    by (simp add: toDouble_def e roundTiesToEven_def)
  show "toDouble 9007199254740992 = Some 9007199254740992"
    by (simp add: toDouble_def e roundTiesToEven_def)
  have f1: "\<lfloor>9007199254740997 / 2 :: real\<rfloor> = 4503599627370498" by linarith
  show "toDouble 9007199254740997 = Some 9007199254740996"
    by (simp add: toDouble_def e roundTiesToEven_def f1)
  have f2: "\<lfloor>9007199254740993 / 2 :: real\<rfloor> = 4503599627370496" by linarith
  show "toDouble 9007199254740993 = Some 9007199254740992"
    by (simp add: toDouble_def e roundTiesToEven_def f2)
qed


lemma toDouble_half_of_int:
  assumes "\<bar>n\<bar> < 2 ^ 52"
  shows "toDouble (of_int n / 2) = Some (of_int n / 2)"
proof (cases "n = 0")
  case True
  then show ?thesis by (simp add: toDouble_def)
next
  case False
  define x :: real where "x = of_int n / 2"
  have nz: "x \<noteq> 0" using False by (simp add: x_def)
  have "\<bar>of_int n :: real\<bar> < 2 ^ 52"
    using assms by (metis of_int_abs of_int_less_numeral_power_cancel_iff)
  then have xb: "\<bar>x\<bar> < 2 ^ 52" by (simp add: x_def)
  have e: "ulpExponent x \<le> - 1" using ulpExponent_le [OF nz xb] by simp
  define m where "m = (2 :: int) ^ nat (- 1 - ulpExponent x)"
  have h: "of_int m * 2 powi ulpExponent x = (1 / 2 :: real)"
    using powi_shift [OF e] by (simp add: m_def power_int_minus field_simps)
  have g: "of_int (n * m) * 2 powi ulpExponent x = x"
  proof -
    have "of_int (n * m) * 2 powi ulpExponent x
        = of_int n * (of_int m * 2 powi ulpExponent x :: real)" by simp
    also have "\<dots> = x" unfolding h by (simp add: x_def)
    finally show ?thesis .
  qed
  have "(2 :: real) ^ 52 < 2 ^ 1024" by simp
  with xb have l: "\<bar>of_int (n * m) * 2 powi ulpExponent x\<bar> < (2 :: real) ^ 1024"
    unfolding g by linarith
  have a: "of_int (n * m) * 2 powi ulpExponent x \<le> x"
    and b: "x \<le> of_int (n * m) * 2 powi ulpExponent x"
    unfolding g by simp_all
  from toDouble_on_grid [OF nz a b l l] obtain r
    where "toDouble x = Some r" and "of_int (n * m) * 2 powi ulpExponent x \<le> r"
      and "r \<le> of_int (n * m) * 2 powi ulpExponent x"
    by blast
  then have "toDouble x = Some x" unfolding g by simp
  then show ?thesis unfolding x_def .
qed

lemma toDouble_halves:
  "toDouble (1 / 2) = Some (1 / 2)" "toDouble (15 / 2) = Some (15 / 2)"
  using toDouble_half_of_int [of 1] toDouble_half_of_int [of 15] by simp_all

lemmas farith_defs = fadd_def fsub_def fmul_def fdiv_def

lemma round_bounded:
  assumes "\<bar>x :: real\<bar> \<le> 2 ^ 52"
  shows "\<bar>round x\<bar> \<le> 2 ^ 52"
proof -
  have "round x \<le> round (of_int (2 ^ 52) :: real)"
    using assms by (intro round_mono) simp
  moreover have "round (of_int (- (2 ^ 52)) :: real) \<le> round x"
    using assms by (intro round_mono) simp
  ultimately show ?thesis unfolding round_of_int by simp
qed

lemma computeServerTime_drift0:
  assumes d: "te_drift (current f) = 0"
    and od: "isDouble (te_offset (current f))"
    and ob: "\<bar>te_offset (current f)\<bar> \<le> 2 ^ 52"
    and lb: "\<bar>te_lastUpdate (current f)\<bar> \<le> 2 ^ 1022"
    and cb: "\<bar>c\<bar> < 2 ^ 52"
  shows "computeServerTime f (of_int c) = Some (of_int (c + round (te_offset (current f))))"
proof -
  have cr: "\<bar>of_int c :: real\<bar> \<le> 2 ^ 52"
  proof -
    from cb have "\<bar>c\<bar> \<le> 2 ^ 52" by simp
    then have "(of_int \<bar>c\<bar> :: real) \<le> of_int (2 ^ 52)" by (simp only: of_int_le_iff)
    then show ?thesis by simp
  qed
  have "(2 :: real) ^ 52 + 2 ^ 1022 \<le> 2 ^ 1023" by simp
  with cr lb have "\<bar>of_int c - te_lastUpdate (current f)\<bar> \<le> 2 ^ 1023" by linarith
  from toDouble_finite [OF this] obtain dt
    where dt: "fsub (of_int c) (te_lastUpdate (current f)) = Some dt"
    by (auto simp add: fsub_def)
  have k: "\<bar>round (te_offset (current f))\<bar> \<le> 2 ^ 52" using ob by (rule round_bounded)
  with cb have "\<bar>c + round (te_offset (current f))\<bar> < 2 ^ 53" by simp
  from toDouble_of_int [OF this]
  have s: "fadd (of_int c) (of_int (round (te_offset (current f))))
      = Some (of_int (c + round (te_offset (current f))))"
    by (simp add: fadd_def)
  show ?thesis
    using d od dt s by (simp add: computeServerTime_def fmul_def fadd_def toDouble_0 isDouble_def)
qed

lemma computeClientTime_drift0:
  assumes d: "te_drift (current f) = 0"
    and cb: "\<bar>c\<bar> < 2 ^ 52"
    and lo: "of_int c - 1 / 2 \<le> s - te_offset (current f)"
    and hi: "s - te_offset (current f) \<le> of_int c + 1 / 2"
  shows "\<exists>c'. computeClientTime f s = Some c' \<and> \<bar>c' - c\<bar> \<le> 1"
proof -
  from toDouble_half_interval [OF cb lo hi] obtain r1
    where r1: "fsub s (te_offset (current f)) = Some r1"
      and b1: "of_int c - 1 / 2 \<le> r1" "r1 \<le> of_int c + 1 / 2"
    by (auto simp add: fsub_def)
  from toDouble_half_interval [OF cb b1] obtain r2
    where r2: "fadd r1 0 = Some r2"
      and b2: "of_int c - 1 / 2 \<le> r2" "r2 \<le> of_int c + 1 / 2"
    by (auto simp add: fadd_def)
  from toDouble_half_interval [OF cb b2] obtain r3
    where r3: "fdiv r2 1 = Some r3"
      and b3: "of_int c - 1 / 2 \<le> r3" "r3 \<le> of_int c + 1 / 2"
    by (auto simp add: fdiv_def)
  have cc: "computeClientTime f s = Some (round r3)"
    using d r1 r2 r3 by (simp add: computeClientTime_def fmul_def toDouble_0 fadd_def toDouble_1)
  have "c \<le> round r3" "round r3 \<le> c + 1"
    using b3 unfolding round_def by (simp_all add: le_floor_iff floor_le_iff)
  then have "\<bar>round r3 - c\<bar> \<le> 1" by simp
  with cc show ?thesis by simp
qed

text \<open>
  Claim C3, as stated, fails: numbers are doubles, and above \<open>2\<^sup>5\<^sup>3\<close> not every integer is
  one. With offset 3 and drift 0, the client time \<open>2\<^sup>5\<^sup>3 + 2\<close> is projected to the server time
  \<open>2\<^sup>5\<^sup>3 + 4\<close> (the sum \<open>2\<^sup>5\<^sup>3 + 5\<close> is rounded), and that is projected back to \<open>2\<^sup>5\<^sup>3\<close> (the
  difference \<open>2\<^sup>5\<^sup>3 + 1\<close> is rounded): 2 away from the client time.
\<close>

theorem time_projection_counterexample:
  "computeServerTime filter_offset_3 9007199254740994 = Some 9007199254740996
   \<and> computeClientTime filter_offset_3 9007199254740996 = Some 9007199254740992"
  by (simp add: filter_offset_3_def computeServerTime_def computeClientTime_def farith_defs
      toDouble_0 toDouble_1 toDouble_numeral toDouble_large)

text \<open>
  Claim C3, amended. For a snapshot with drift 0 whose offset is a double of magnitude at
  most \<open>2\<^sup>5\<^sup>2\<close> and whose last update has magnitude at most \<open>2\<^sup>1\<^sup>0\<^sup>2\<^sup>2\<close>, and any integer client time
  \<open>c\<close> of magnitude below \<open>2\<^sup>5\<^sup>2\<close>: \<^verbatim>\<open>computeServerTime(c)\<close> is a finite number \<open>s\<close>, and
  \<^verbatim>\<open>computeClientTime(s)\<close> is a number within 1 of \<open>c\<close>. With offset 1_000_000, drift 0 and last
  update 5_000_000, \<^verbatim>\<open>computeServerTime(10_000_000)\<close> is 11_000_000 and
  \<^verbatim>\<open>computeClientTime(11_000_000)\<close> is 10_000_000.
\<close>

theorem time_projection_roundtrip:
  "(te_drift (current f) = 0 \<and> isDouble (te_offset (current f))
      \<and> \<bar>te_offset (current f)\<bar> \<le> 2 ^ 52 \<and> \<bar>te_lastUpdate (current f)\<bar> \<le> 2 ^ 1022
      \<and> \<bar>c\<bar> < 2 ^ 52 \<longrightarrow>
      (\<exists>s c'. computeServerTime f (of_int c) = Some s \<and> computeClientTime f s = Some c'
                \<and> \<bar>c' - c\<bar> \<le> 1))
   \<and> (current f = \<lparr> te_lastUpdate = 5000000, te_offset = 1000000, te_drift = 0 \<rparr> \<longrightarrow>
        computeServerTime f 10000000 = Some 11000000
        \<and> computeClientTime f 11000000 = Some 10000000)"
proof (intro conjI impI)
  assume a: "te_drift (current f) = 0 \<and> isDouble (te_offset (current f))
      \<and> \<bar>te_offset (current f)\<bar> \<le> 2 ^ 52 \<and> \<bar>te_lastUpdate (current f)\<bar> \<le> 2 ^ 1022
      \<and> \<bar>c\<bar> < 2 ^ 52"
  define o' where "o' = te_offset (current f)"
  from a have s: "computeServerTime f (of_int c) = Some (of_int (c + round o'))"
    unfolding o'_def by (intro computeServerTime_drift0) simp_all
  have "\<bar>of_int (round o') - o'\<bar> \<le> 1 / 2" by (rule of_int_round_abs_le)
  then have "of_int c - 1 / 2 \<le> of_int (c + round o') - o'"
    and "of_int (c + round o') - o' \<le> of_int c + 1 / 2"
    unfolding of_int_add by linarith+
  with a have "\<exists>c'. computeClientTime f (of_int (c + round o')) = Some c' \<and> \<bar>c' - c\<bar> \<le> 1"
    unfolding o'_def by (intro computeClientTime_drift0) simp_all
  with s show "\<exists>s c'. computeServerTime f (of_int c) = Some s \<and> computeClientTime f s = Some c'
                \<and> \<bar>c' - c\<bar> \<le> 1"
    by blast
next
  assume "current f = \<lparr> te_lastUpdate = 5000000, te_offset = 1000000, te_drift = 0 \<rparr>"
  then show "computeServerTime f 10000000 = Some 11000000"
    by (simp add: computeServerTime_def farith_defs toDouble_0 toDouble_numeral)
next
  assume "current f = \<lparr> te_lastUpdate = 5000000, te_offset = 1000000, te_drift = 0 \<rparr>"
  then show "computeClientTime f 11000000 = Some 10000000"
    by (simp add: computeClientTime_def farith_defs toDouble_0 toDouble_1 toDouble_numeral)
qed

theorem time_projection_roundtrip_witness:
  "te_drift (current filter_offset_half) = 0
   \<and> isDouble (te_offset (current filter_offset_half))
   \<and> computeServerTime filter_offset_half 7 = Some 8
   \<and> computeClientTime filter_offset_half 8 = Some 8
   \<and> computeServerTime
     (SendspinTimeFilter_new \<lparr> current := \<lparr> te_lastUpdate = 5000000, te_offset = 1000000, te_drift = 0 \<rparr> \<rparr>)
     10000000 = Some 11000000
   \<and> computeClientTime
     (SendspinTimeFilter_new \<lparr> current := \<lparr> te_lastUpdate = 5000000, te_offset = 1000000, te_drift = 0 \<rparr> \<rparr>)
     11000000 = Some 10000000"
proof -
  have h: "te_drift (current filter_offset_half) = 0"
    "isDouble (te_offset (current filter_offset_half))"
    "\<bar>te_offset (current filter_offset_half)\<bar> \<le> 2 ^ 52"
    "\<bar>te_lastUpdate (current filter_offset_half)\<bar> \<le> 2 ^ 1022"
    by (simp_all add: filter_offset_half_def isDouble_def toDouble_halves)
  have s: "computeServerTime filter_offset_half 7 = Some 8"
    by (simp add: filter_offset_half_def computeServerTime_def farith_defs toDouble_0
        toDouble_numeral toDouble_halves round_def)
  from time_projection_roundtrip [of filter_offset_half 7] h s
  obtain c' where c: "computeClientTime filter_offset_half 8 = Some c'" by auto
  have "computeClientTime filter_offset_half 8 = Some 8"
    by (simp add: filter_offset_half_def computeClientTime_def farith_defs toDouble_0 toDouble_1
        toDouble_numeral toDouble_halves round_def)
  with h s
    time_projection_roundtrip
      [of "SendspinTimeFilter_new \<lparr> current := \<lparr> te_lastUpdate = 5000000, te_offset = 1000000, te_drift = 0 \<rparr> \<rparr>" 10000000]
  show ?thesis by simp
qed

subsection \<open>Role resolution\<close>

lemmas role_defs = PLAYER_def CONTROLLER_def METADATA_def ARTWORK_def VISUALIZER_def SOURCE_def

lemma family_inj:
  "r \<in> serverSupported \<Longrightarrow> r' \<in> serverSupported \<Longrightarrow> family r = family r' \<Longrightarrow> r = r'"
  by (auto simp add: serverSupported_def role_defs family_def)

lemma strings_append: "strings (xs @ ys) = strings xs @ strings ys"
  by (induction xs rule: strings.induct) simp_all

lemma resolve_loop_closed:
  "foldl resolve_step ([], [], {}) rs =
     (rev (remdups (rev (filter (\<lambda>r. r \<in> serverSupported) (strings rs)))),
      filter (\<lambda>r. r \<notin> serverSupported \<and> \<not> startsWith_underscore r) (strings rs),
      family ` (set (strings rs) \<inter> serverSupported))"
proof (induction rs rule: rev_induct)
  case Nil
  show ?case by simp
next
  case (snoc x xs)
  show ?case
  proof (cases x)
    case (JStr role)
    have fam: "family role \<in> family ` (set (strings xs) \<inter> serverSupported) \<longleftrightarrow> role \<in> set (strings xs)"
      if "role \<in> serverSupported"
      using that family_inj by blast
    show ?thesis
      using snoc JStr fam by (auto simp add: strings_append)
  qed (simp_all add: snoc strings_append)
qed

lemma active_roles_set:
  "set (fst (resolveActiveRoles rs)) = set (strings rs) \<inter> serverSupported"
  by (auto simp add: resolveActiveRoles_def resolve_loop_closed)

text \<open>
  Claim C6, as stated, fails: the claim skips every entry whose family is already admitted,
  the code only a supported literal. After \<^verbatim>\<open>player@v1\<close> the entry \<^verbatim>\<open>player@v2\<close> is reported
  as unsupported by the code and skipped by the resolver of the specification.
\<close>

theorem role_resolution_counterexample:
  "resolveActiveRoles [JStr ''player@v1'', JStr ''player@v2''] = ([''player@v1''], [''player@v2''])
   \<and> resolveActiveRoles_spec [JStr ''player@v1'', JStr ''player@v2''] = ([''player@v1''], [])"
  by (simp add: resolveActiveRoles_def resolveActiveRoles_spec_def serverSupported_def role_defs family_def)

text \<open>
  Claim C6, amended. The resolver goes through the string entries in order. An entry whose
  exact literal is server-supported is admitted at its first occurrence and skipped later
  (its family is then already admitted): the active roles are the supported literals among
  the entries, each once, in order of first occurrence. Every other string entry that does
  not start with an underscore is emitted to the unsupported roles, whether or not its
  family is admitted. Entries that are not strings, and unknown entries starting with an
  underscore, produce nothing. No two active roles share a family.
\<close>

theorem role_resolution:
  "fst (resolveActiveRoles rs)
     = rev (remdups (rev (filter (\<lambda>r. r \<in> serverSupported) (strings rs))))
   \<and> snd (resolveActiveRoles rs)
     = filter (\<lambda>r. r \<notin> serverSupported \<and> \<not> startsWith_underscore r) (strings rs)
   \<and> set (fst (resolveActiveRoles rs)) = set (strings rs) \<inter> serverSupported
   \<and> distinct (map family (fst (resolveActiveRoles rs)))"
proof -
  let ?a = "rev (remdups (rev (filter (\<lambda>r. r \<in> serverSupported) (strings rs))))"
  have a: "fst (resolveActiveRoles rs) = ?a"
    and u: "snd (resolveActiveRoles rs)
       = filter (\<lambda>r. r \<notin> serverSupported \<and> \<not> startsWith_underscore r) (strings rs)"
    by (simp_all add: resolveActiveRoles_def resolve_loop_closed)
  have s: "set ?a = set (strings rs) \<inter> serverSupported" by auto
  have "distinct ?a" by simp
  moreover have "inj_on family (set ?a)"
    unfolding s by (rule inj_onI) (auto intro: family_inj)
  ultimately have d: "distinct (map family ?a)" by (simp add: distinct_map)
  show ?thesis using a u s d by simp
qed

theorem role_resolution_witness:
  "resolveActiveRoles [JStr ''player@v1'', JNum 3, JStr ''_x'', JStr ''player@v2'', JStr ''player@v1'',
      JStr ''metadata@v1'']
     = ([''player@v1'', ''metadata@v1''], [''player@v2''])"
proof -
  let ?rs = "[JStr ''player@v1'', JNum 3, JStr ''_x'', JStr ''player@v2'', JStr ''player@v1'',
      JStr ''metadata@v1'']"
  have "fst (resolveActiveRoles ?rs) = [''player@v1'', ''metadata@v1'']"
    using role_resolution [of ?rs] by (simp add: serverSupported_def role_defs)
  moreover have "snd (resolveActiveRoles ?rs) = [''player@v2'']"
    using role_resolution [of ?rs] by (simp add: serverSupported_def role_defs)
  ultimately show ?thesis by (simp add: prod_eq_iff)
qed

subsection \<open>Client\<close>

lemma new_filter_not_synchronized: "\<not> isSynchronized SendspinTimeFilter_new"
  by (simp add: isSynchronized_def SendspinTimeFilter_new_def SendspinTimeFilter_constructor_def)

lemma pack_source_1000000:
  "packBinaryHeaderRaw SOURCE_AUDIO_CHUNK 1000000 = Inr [12, 0, 0, 0, 0, 0, 15, 66, 64]"
  by (simp add: packBinaryHeaderRaw_def packBinaryHeader_def writeBigInt64BE_def
      SOURCE_AUDIO_CHUNK_def)

text \<open>
  Claim C8. On a connected client: with \<open>serverTimestampUs\<close> given, the call emits exactly
  the header for tag 12 and that timestamp followed by the data (and fails as the header
  packing fails when the timestamp is no signed 64-bit integer); with both timestamps absent
  it fails with the missing-timestamp error; with only \<open>captureTimestampUs\<close> given it fails
  with the not-synchronized error when the filter is not synchronized, and otherwise emits
  the frame with timestamp \<^verbatim>\<open>computeServerTime(captureTimestampUs)\<close> of the filter, the static
  delay not applied (and fails as the header packing fails when that timestamp is not a finite
  number or no signed 64-bit integer). With \<open>serverTimestampUs = 1_000_000\<close> the frame starts
  with the bytes 12, 0, 0, 0, 0, 0, 15, 66, 64.
\<close>

theorem source_audio_upload:
  assumes conn: "isConnected c"
  shows "sendSourceAudioChunk data cap (Some ts) c =
           (case packBinaryHeaderRaw SOURCE_AUDIO_CHUNK ts of
              Inl e \<Rightarrow> Inl e
            | Inr header \<Rightarrow> Inr (c \<lparr> cl_sent := cl_sent c @ [Binary (header @ data)] \<rparr>))
       \<and> sendSourceAudioChunk data None None c
           = Inl (Error ''captureTimestampUs or serverTimestampUs must be provided'')
       \<and> (\<not> isSynchronized (timeFilter c) \<longrightarrow>
            sendSourceAudioChunk data (Some captureTs) None c
              = Inl (Error ''time sync not ready; provide serverTimestampUs explicitly''))
       \<and> (isSynchronized (timeFilter c) \<longrightarrow>
            sendSourceAudioChunk data (Some captureTs) None c =
              (case computeServerTime (timeFilter c) captureTs of
                 None \<Rightarrow> Inl RangeError
               | Some serverTs \<Rightarrow>
                   (case packBinaryHeaderRaw SOURCE_AUDIO_CHUNK serverTs of
                      Inl e \<Rightarrow> Inl e
                    | Inr header \<Rightarrow>
                        Inr (c \<lparr> cl_sent := cl_sent c @ [Binary (header @ data)] \<rparr>))))
       \<and> sendSourceAudioChunk data cap (Some 1000000) c =
           Inr (c \<lparr> cl_sent := cl_sent c @ [Binary ([12, 0, 0, 0, 0, 0, 15, 66, 64] @ data)] \<rparr>)"
proof -
  have ws: "cl_ws c = Some OPEN" using conn by (simp add: isConnected_def)
  have 1: "sendSourceAudioChunk data cap (Some ts) c =
           (case packBinaryHeaderRaw SOURCE_AUDIO_CHUNK ts of
              Inl e \<Rightarrow> Inl e
            | Inr header \<Rightarrow> Inr (c \<lparr> cl_sent := cl_sent c @ [Binary (header @ data)] \<rparr>))" for ts
    using conn ws by (simp add: sendSourceAudioChunk_def client_sendBinary_def split: sum.splits)
  have 2: "sendSourceAudioChunk data None None c
           = Inl (Error ''captureTimestampUs or serverTimestampUs must be provided'')"
    using conn by (simp add: sendSourceAudioChunk_def)
  have 3: "\<not> isSynchronized (timeFilter c) \<longrightarrow>
         sendSourceAudioChunk data (Some captureTs) None c
           = Inl (Error ''time sync not ready; provide serverTimestampUs explicitly'')"
    using conn by (simp add: sendSourceAudioChunk_def)
  have 4: "isSynchronized (timeFilter c) \<longrightarrow>
         sendSourceAudioChunk data (Some captureTs) None c =
           (case computeServerTime (timeFilter c) captureTs of
              None \<Rightarrow> Inl RangeError
            | Some serverTs \<Rightarrow>
                (case packBinaryHeaderRaw SOURCE_AUDIO_CHUNK serverTs of
                   Inl e \<Rightarrow> Inl e
                 | Inr header \<Rightarrow>
                     Inr (c \<lparr> cl_sent := cl_sent c @ [Binary (header @ data)] \<rparr>)))"
    using conn ws
    by (simp add: sendSourceAudioChunk_def client_sendBinary_def computeSourceTimestamp_def
        split: sum.splits option.splits)
  have 5: "sendSourceAudioChunk data cap (Some 1000000) c =
           Inr (c \<lparr> cl_sent := cl_sent c @ [Binary ([12, 0, 0, 0, 0, 0, 15, 66, 64] @ data)] \<rparr>)"
    using 1 [of 1000000] by (simp add: pack_source_1000000)
  show ?thesis using 1 2 3 4 5 by blast
qed

theorem source_audio_upload_witness:
  "isConnected (SendspinClient_new \<lparr> cl_ws := Some OPEN, connected := True \<rparr>)
   \<and> sendSourceAudioChunk [1, 2] (Some 1000000) None
        (SendspinClient_new \<lparr> cl_ws := Some OPEN, connected := True \<rparr>)
       = Inl (Error ''time sync not ready; provide serverTimestampUs explicitly'')
   \<and> sendSourceAudioChunk [1, 2] None (Some 1000000)
        (SendspinClient_new \<lparr> cl_ws := Some OPEN, connected := True \<rparr>)
       = Inr (SendspinClient_new \<lparr> cl_ws := Some OPEN, connected := True,
                cl_sent := [Binary [12, 0, 0, 0, 0, 0, 15, 66, 64, 1, 2]] \<rparr>)"
proof -
  let ?c = "SendspinClient_new \<lparr> cl_ws := Some OPEN, connected := True \<rparr>"
  have conn: "isConnected ?c" by (simp add: isConnected_def)
  have ns: "\<not> isSynchronized (timeFilter ?c)"
    by (simp add: SendspinClient_new_def new_filter_not_synchronized)
  have e: "cl_sent ?c = []" by (simp add: SendspinClient_new_def)
  from source_audio_upload [OF conn, of "[1, 2]" None 0 1000000] ns e conn
  show ?thesis by simp
qed

text \<open>
  Claim C10. A \<^verbatim>\<open>stream/start\<close> whose player payload has channels outside 1..2 or a bit depth
  outside 16, 24, 32 (or a sample rate that is not positive) leaves \<^verbatim>\<open>handleStreamStart\<close> with
  the constructor's exception after \<open>streamActive\<close> was set: on a client with no audio format
  the stream is active, the format is still unset, no listener was notified and nothing was
  sent. Every binary frame received in that state leaves the client unchanged: an audio
  chunk is not delivered.
\<close>

theorem stream_start_not_atomic:
  assumes player: "ssm_player message = Some player"
    and bad: "ssp_sample_rate player \<le> 0 \<or> ssp_channels player < 1 \<or> ssp_channels player > 2
              \<or> ssp_bit_depth player \<notin> {16, 24, 32}"
    and unset: "currentAudioFormat c = None"
  shows "\<exists>e c'. handleStreamStart nowUs message c = (Some e, c')
           \<and> c' = c \<lparr> streamActive := True \<rparr>
           \<and> streamActive c' \<and> currentAudioFormat c' = None
           \<and> cl_notified c' = cl_notified c \<and> cl_sent c' = cl_sent c
           \<and> handleBinaryMessage frame c' = c'"
proof -
  have "\<exists>e. PCMFormat_constructor (ssp_sample_rate player) (ssp_channels player)
      (ssp_bit_depth player) = Inl e"
    using bad by (auto simp add: PCMFormat_constructor_def)
  then obtain e where e: "PCMFormat_constructor (ssp_sample_rate player) (ssp_channels player)
      (ssp_bit_depth player) = Inl e" ..
  have h: "handleStreamStart nowUs message c = (Some e, c \<lparr> streamActive := True \<rparr>)"
    using player e by (simp add: handleStreamStart_def Let_def)
  have b: "handleBinaryMessage frame (c \<lparr> streamActive := True \<rparr>) = c \<lparr> streamActive := True \<rparr>"
    using unset by (simp add: handleBinaryMessage_def handleAudioChunk_def split: sum.splits)
  show ?thesis using h b unset by simp
qed


theorem stream_start_not_atomic_witness:
  "handleStreamStart 0 bad_start (SendspinClient_new \<lparr> cl_ws := Some OPEN, connected := True \<rparr>)
     = (Some (Error ''channels must be 1 or 2''),
        SendspinClient_new \<lparr> cl_ws := Some OPEN, connected := True, streamActive := True \<rparr>)
   \<and> handleBinaryMessage [4, 0, 0, 0, 0, 0, 0, 0, 9, 1, 2, 3]
        (SendspinClient_new \<lparr> cl_ws := Some OPEN, connected := True, streamActive := True \<rparr>)
     = SendspinClient_new \<lparr> cl_ws := Some OPEN, connected := True, streamActive := True \<rparr>"
proof -
  let ?c = "SendspinClient_new \<lparr> cl_ws := Some OPEN, connected := True \<rparr>"
  have p: "ssm_player bad_start = Some \<lparr> ssp_codec = ''pcm'', ssp_sample_rate = 48000,
       ssp_channels = 6, ssp_bit_depth = 16, ssp_codec_header = None \<rparr>"
    by (simp add: bad_start_def)
  have u: "currentAudioFormat ?c = None" by (simp add: SendspinClient_new_def)
  have e: "PCMFormat_constructor 48000 6 16 = Inl (Error ''channels must be 1 or 2'')"
    by (simp add: PCMFormat_constructor_def)
  from stream_start_not_atomic [OF p _ u, of 0 "[4, 0, 0, 0, 0, 0, 0, 0, 9, 1, 2, 3]"]
  show ?thesis
    using p e by (auto simp add: handleStreamStart_def Let_def)
qed

subsection \<open>The identification view of each operation\<close>

lemma idview_fields [simp]:
  "idview (s \<lparr> clientId := a1 \<rparr>) = idview s"
  "idview (s \<lparr> clientName := a2 \<rparr>) = idview s"
  "idview (s \<lparr> roles := a3 \<rparr>) = idview s"
  "idview (s \<lparr> playerSupport := a4 \<rparr>) = idview s"
  "idview (s \<lparr> sourceSupport := a5 \<rparr>) = idview s"
  "idview (s \<lparr> artworkChannels := a6 \<rparr>) = idview s"
  "idview (s \<lparr> expectVolume := b1 \<rparr>) = idview s"
  "idview (s \<lparr> expectMute := b2 \<rparr>) = idview s"
  "idview (s \<lparr> warnedMissingVolume := b3 \<rparr>) = idview s"
  "idview (s \<lparr> warnedMissingMute := b4 \<rparr>) = idview s"
  "idview (s \<lparr> initialStateTimer := b5 \<rparr>) = idview s"
  "idview (s \<lparr> playbackState := c1 \<rparr>) = idview s"
  "idview (s \<lparr> sourceState := c2 \<rparr>) = idview s"
  "idview (s \<lparr> sourceSignal := c3 \<rparr>) = idview s"
  "idview (s \<lparr> hooksAttached := c4 \<rparr>) = idview s"
  "idview (s \<lparr> activeStream := c5 \<rparr>) = idview s"
  "idview (s \<lparr> streamFormat := c6 \<rparr>) = idview s"
  "idview (s \<lparr> lastGoodbyeReason := c7 \<rparr>) = idview s"
  "idview (s \<lparr> backpressureDrops := d1 \<rparr>) = idview s"
  "idview (s \<lparr> lastBackpressureBytes := d2 \<rparr>) = idview s"
  "idview (s \<lparr> lastBackpressureTs := d3 \<rparr>) = idview s"
  "idview (s \<lparr> backpressureEvents := d4 \<rparr>) = idview s"
  "idview (s \<lparr> connectionReason := d5 \<rparr>) = idview s"
  "idview (s \<lparr> connectionMeta := d6 \<rparr>) = idview s"
  "idview (s \<lparr> pendingRetries := d7 \<rparr>) = idview s"
  by (simp_all add: idview_def identifiedCalls_def identifiedThrows_def)

lemma idview_emit [simp]:
  "e \<noteq> HookCall OnIdentified \<Longrightarrow> e \<noteq> HookThrew OnIdentified \<Longrightarrow> idview (emit e s) = idview s"
  by (simp add: idview_def identifiedCalls_def identifiedThrows_def emit_def)

lemma idview_afterHook:
  "h \<noteq> OnIdentified \<Longrightarrow> (\<And>t. idview (rest t) = idview t) \<Longrightarrow>
   idview (afterHook ev h rest s) = idview s"
  by (simp add: afterHook_def)

lemma idview_callHook [simp]: "h \<noteq> OnIdentified \<Longrightarrow> idview (callHook ev h s) = idview s"
  by (simp add: callHook_def idview_afterHook)

lemma idview_sendJson [simp]: "idview (sendJson ev m s) = idview s"
  by (simp add: sendJson_def)

lemma idview_sendBinary [simp]: "idview (sendBinary ev buf ad s) = idview s"
  by (simp add: sendBinary_def Let_def)

lemma idview_sendFrame [simp]: "idview (sendFrame ev tag ts payload s) = idview s"
  by (simp add: sendFrame_def split: sum.splits)


lemma idview_notifyIdentifiedThen:
  assumes "\<And>t. idview (rest t) = idview t"
  shows "idview (notifyIdentifiedThen ev rest s)
           = notify_view (OnIdentified \<in> hookThrows ev) (idview s)"
proof -
  have 1: "idview (emit (HookThrew OnIdentified) (emit (HookCall OnIdentified) s))
      = (ready s, identified s, initialStateRequired s, initialStateReceived s,
         identifiedCalls s + 1, identifiedThrows s + 1, hooks s)"
    by (simp add: idview_def identifiedCalls_def identifiedThrows_def emit_def)
  have 2: "idview (emit (HookCall OnIdentified) s \<lparr> identified := True \<rparr>)
      = (ready s, True, initialStateRequired s, initialStateReceived s,
         identifiedCalls s + 1, identifiedThrows s, hooks s)"
    by (simp add: idview_def identifiedCalls_def identifiedThrows_def emit_def)
  show ?thesis
    by (simp add: notifyIdentifiedThen_def afterHook_def assms 1 2) (simp add: idview_def)
qed

lemma idview_maybeNotifyIdentified:
  "idview (maybeNotifyIdentified ev s) = notify_view (OnIdentified \<in> hookThrows ev) (idview s)"
  by (simp add: maybeNotifyIdentified_def idview_notifyIdentifiedThen)

lemma idview_sendServerHello [simp]: "idview (sendServerHello ev s) = idview s"
  by (simp add: sendServerHello_def)

lemma idview_sendStreamStart [simp]: "idview (sendStreamStart ev f s) = idview s"
  by (simp add: sendStreamStart_def Let_def)

lemma idview_sendStreamFormat [simp]: "idview (sendStreamFormat ev s) = idview s"
  by (simp add: sendStreamFormat_def)

lemma idview_sendStreamClear [simp]: "idview (sendStreamClear ev rs s) = idview s"
  by (simp add: sendStreamClear_def)

lemma idview_sendStreamEnd [simp]: "idview (sendStreamEnd ev rs s) = idview s"
  by (simp add: sendStreamEnd_def)

lemma idview_ensureStreamStarted [simp]: "idview (ensureStreamStarted ev s) = idview s"
  by (simp add: ensureStreamStarted_def)

lemma idview_sendPcmAudioFrame [simp]: "idview (sendPcmAudioFrame ev frame s) = idview s"
  by (simp add: sendPcmAudioFrame_def Let_def)

lemma idview_pcmRetry [simp]: "idview (pcmRetry ev s) = idview s"
  by (simp add: pcmRetry_def Let_def split: list.splits)

lemma idview_sendGroupUpdate [simp]: "idview (sendGroupUpdate ev st g n s) = idview s"
  by (simp add: sendGroupUpdate_def)

lemma idview_sendServerCommand [simp]: "idview (sendServerCommand ev c p s) = idview s"
  by (simp add: sendServerCommand_def Let_def)

lemma idview_sendMetadata [simp]: "idview (sendMetadata ev m s) = idview s"
  by (simp add: sendMetadata_def)

lemma idview_sendControllerState [simp]: "idview (sendControllerState ev c s) = idview s"
  by (simp add: sendControllerState_def)

lemma idview_sendArtworkStreamStart [simp]: "idview (sendArtworkStreamStart ev chans s) = idview s"
  by (simp add: sendArtworkStreamStart_def)

lemma idview_sendArtwork [simp]: "idview (sendArtwork ev ch img s) = idview s"
  by (simp add: sendArtwork_def)

lemma idview_sendVisualizerStreamStart [simp]: "idview (sendVisualizerStreamStart ev c s) = idview s"
  by (simp add: sendVisualizerStreamStart_def)

lemma idview_sendVisualizerFrame [simp]: "idview (sendVisualizerFrame ev d ts s) = idview s"
  by (simp add: sendVisualizerFrame_def Let_def)

lemma idview_applyPreferredStreamFormat [simp]: "idview (applyPreferredStreamFormat s) = idview s"
  by (simp add: applyPreferredStreamFormat_def Let_def split: option.splits)

lemma idview_startInitialStateTimeout [simp]: "idview (startInitialStateTimeout s) = idview s"
  by (simp add: startInitialStateTimeout_def)

lemma idview_initialStateTimeout [simp]: "idview (initialStateTimeout s) = idview s"
  by (simp add: initialStateTimeout_def)

lemma idview_destroy [simp]: "idview (destroy ev s) = idview s"
  by (simp add: destroy_def)

lemma idview_handleBinary [simp]: "idview (handleBinary ev buf s) = idview s"
  by (simp add: handleBinary_def split: sum.splits)

lemma idview_handleClientTime [simp]: "idview (handleClientTime ev p s) = idview s"
  by (simp add: handleClientTime_def)

lemma idview_handleClientCommand [simp]: "idview (handleClientCommand ev p s) = idview s"
  by (simp add: handleClientCommand_def Let_def idview_afterHook)

lemma idview_handleClientGoodbye [simp]: "idview (handleClientGoodbye ev p s) = idview s"
  by (simp add: handleClientGoodbye_def Let_def idview_afterHook split: option.splits)

lemma idview_applyPlayerFormatRequest [simp]: "idview (applyPlayerFormatRequest r s) = idview s"
  by (simp add: applyPlayerFormatRequest_def)

lemma idview_applyArtworkFormatRequest [simp]: "idview (applyArtworkFormatRequest ev r s) = idview s"
  by (simp add: applyArtworkFormatRequest_def Let_def split: option.splits json.splits)

lemma idview_handleStreamRequestFormat [simp]:
  "idview (handleStreamRequestFormat ev p s) = idview s"
  by (simp add: handleStreamRequestFormat_def Let_def idview_afterHook split: option.splits)

lemma idview_handleClientState_update [simp]:
  "idview (handleClientState_update ev p s) = idview s"
  by (simp add: handleClientState_update_def Let_def idview_afterHook)



lemma idview_ready_required:
  "idview (x \<lparr> initialStateRequired := q, ready := True \<rparr>)
      = (True, identified x, q, initialStateReceived x, identifiedCalls x, identifiedThrows x,
         hooks x)"
  by (simp add: idview_def identifiedCalls_def identifiedThrows_def)

lemma idview_applyPreferred_ready:
  "idview (applyPreferredStreamFormat x \<lparr> ready := True \<rparr>)
      = idview (x \<lparr> ready := True \<rparr>)"
  by (simp add: applyPreferredStreamFormat_def Let_def idview_def identifiedCalls_def
      identifiedThrows_def split: option.splits)

text \<open>The end of \<open>handleHello\<close>: the session is ready; the identification is attempted unless
  the \<open>onUnsupportedRoles\<close> hook has thrown.\<close>

lemma idview_hello_tail:
  assumes "idview s7 = v"
  shows "idview (if u \<noteq> [] then afterHook ev OnUnsupportedRoles (maybeNotifyIdentified ev) s7
                 else maybeNotifyIdentified ev s7)
           = (if u \<noteq> [] \<and> OnUnsupportedRoles \<in> hooks s7 \<and> OnUnsupportedRoles \<in> hookThrows ev
              then v else notify_view (OnIdentified \<in> hookThrows ev) v)"
  using assms by (auto simp add: afterHook_def idview_maybeNotifyIdentified)

lemma idview_handleHello_finish:
  "idview (handleHello_finish ev u a vol mut s)
     = (if u \<noteq> [] \<and> OnUnsupportedRoles \<in> hooks s \<and> OnUnsupportedRoles \<in> hookThrows ev
        then (True, identified s, PLAYER \<in> set (roles s), initialStateReceived s,
              identifiedCalls s, identifiedThrows s, hooks s)
        else notify_view (OnIdentified \<in> hookThrows ev)
               (True, identified s, PLAYER \<in> set (roles s), initialStateReceived s,
                identifiedCalls s, identifiedThrows s, hooks s))"
proof -
  let ?v = "(True, identified s, PLAYER \<in> set (roles s), initialStateReceived s,
              identifiedCalls s, identifiedThrows s, hooks s)"
  have tail: "idview (if u \<noteq> [] then afterHook ev OnUnsupportedRoles (maybeNotifyIdentified ev) s7
                 else maybeNotifyIdentified ev s7)
           = (if u \<noteq> [] \<and> OnUnsupportedRoles \<in> hooks s \<and> OnUnsupportedRoles \<in> hookThrows ev
              then ?v else notify_view (OnIdentified \<in> hookThrows ev) ?v)"
    if "idview s7 = ?v" for s7
  proof -
    from that have "hooks s7 = hooks s" by (simp add: idview_def)
    with idview_hello_tail [OF that, of u ev] show ?thesis by simp
  qed
  show ?thesis
    unfolding handleHello_finish_def Let_def
    by (rule tail)
       (simp add: idview_applyPreferred_ready idview_ready_required,
        simp add: idview_def identifiedCalls_def identifiedThrows_def)
qed

lemma ready_handleHello_finish: "ready (handleHello_finish ev u a vol mut s)"
proof -
  have "fst (idview (handleHello_finish ev u a vol mut s))"
    by (simp add: idview_handleHello_finish)
  then show ?thesis by (simp add: idview_def)
qed




subsection \<open>Hello handshake\<close>

lemma closes_append: "closes (a @ b) = closes a @ closes b"
  by (induction a rule: closes.induct) simp_all

lemma closes_emit: "closes (effects (emit e s)) = closes (effects s) @ closes [e]"
  by (simp add: emit_def closes_append)

lemma closes_afterHook:
  "(\<And>t. closes (effects (rest t)) = closes (effects t)) \<Longrightarrow>
   closes (effects (afterHook ev h rest s)) = closes (effects s)"
  by (simp add: afterHook_def closes_emit)

lemma closes_callHook: "closes (effects (callHook ev h s)) = closes (effects s)"
  by (simp add: callHook_def closes_afterHook)

lemma closes_sendJson: "closes (effects (sendJson ev m s)) = closes (effects s)"
  by (simp add: sendJson_def closes_emit)

lemma closes_maybeNotifyIdentified:
  "closes (effects (maybeNotifyIdentified ev s)) = closes (effects s)"
  by (simp add: maybeNotifyIdentified_def notifyIdentifiedThen_def closes_afterHook)

lemma closes_sendServerHello: "closes (effects (sendServerHello ev s)) = closes (effects s)"
  by (simp add: sendServerHello_def closes_sendJson)

lemma closes_startInitialStateTimeout:
  "closes (effects (startInitialStateTimeout s)) = closes (effects s)"
  by (simp add: startInitialStateTimeout_def closes_emit)

lemma closes_sendGroupUpdate:
  "closes (effects (sendGroupUpdate ev st g n s)) = closes (effects s)"
  by (simp add: sendGroupUpdate_def closes_sendJson)

lemma effects_applyPreferredStreamFormat:
  "effects (applyPreferredStreamFormat s) = effects s"
  by (simp add: applyPreferredStreamFormat_def Let_def split: option.splits)

lemma closes_closeWith:
  "closes (effects (closeWith reason s)) = closes (effects s) @ [Some (1008, reason)]"
  by (simp add: closeWith_def closes_emit)

lemma closes_handleHello_finish:
  "closes (effects (handleHello_finish ev u a vol mut s)) = closes (effects s)"
  by (simp add: handleHello_finish_def Let_def closes_afterHook
      closes_maybeNotifyIdentified closes_sendServerHello closes_startInitialStateTimeout
      closes_sendGroupUpdate effects_applyPreferredStreamFormat)

lemma closes_handleHello_accept:
  "closes (effects (handleHello_accept ev u p a src s)) = closes (effects s)"
  by (simp add: handleHello_accept_def Let_def closes_emit closes_handleHello_finish
      split: option.splits)

lemma closedWith_closeWith:
  "effects s0 = effects s \<Longrightarrow> closedWith R s (closeWith R' s0) \<longleftrightarrow> R = R'"
  by (auto simp add: closedWith_def closes_closeWith)

lemma closedWith_accept:
  "effects s0 = effects s \<Longrightarrow> \<not> closedWith R s (handleHello_accept ev u p a src s0)"
  by (simp add: closedWith_def closes_handleHello_accept)

lemma ready_closeWith: "ready (closeWith R s) = ready s"
  by (simp add: closeWith_def emit_def)

lemma closes_accept_same:
  "effects s0 = effects s \<Longrightarrow>
   closes (effects (handleHello_accept ev u p a src s0)) = closes (effects s)"
  by (simp add: closes_handleHello_accept)

text \<open>The branches of \<open>handleHello\<close>, one lemma each.\<close>

lemma handleHello_version:
  "hello_version payload \<noteq> Some 1 \<Longrightarrow>
   handleHello ev payload s = closeWith ''invalid protocol version'' s"
  by (simp add: handleHello_def)

lemma handleHello_client_id:
  "hello_version payload = Some 1 \<Longrightarrow> hello_client_id payload = [] \<Longrightarrow>
   handleHello ev payload s = closeWith ''missing client_id'' s"
  by (simp add: handleHello_def)

lemma handleHello_supported_roles:
  "hello_version payload = Some 1 \<Longrightarrow> hello_client_id payload \<noteq> [] \<Longrightarrow>
   hello_supported_roles payload = [] \<Longrightarrow>
   handleHello ev payload s =
     closeWith ''missing supported_roles''
       (s \<lparr> clientId := Some (hello_client_id payload), clientName := hello_name payload \<rparr>)"
  by (simp add: handleHello_def Let_def)

lemma handleHello_capabilities:
  assumes "hello_version payload = Some 1" "hello_client_id payload \<noteq> []"
    "hello_supported_roles payload \<noteq> []"
  shows "handleHello ev payload s =
     (if missingSupport payload PLAYER ''player@v1_support'' ''player_support''
        then closeWith ''missing player support'' (helloIdentity payload s)
      else if missingSupport payload ARTWORK ''artwork@v1_support'' ''artwork_support''
        then closeWith ''missing artwork support'' (helloIdentity payload s)
      else if missingSupport payload VISUALIZER ''visualizer@v1_support'' ''visualizer_support''
        then closeWith ''missing visualizer support'' (helloIdentity payload s)
      else if missingSupport payload SOURCE ''source@v1_support'' ''source_support''
        then closeWith ''missing source support'' (helloIdentity payload s)
      else handleHello_accept ev (snd (resolveActiveRoles (hello_supported_roles payload)))
             (hello_support payload ''player@v1_support'' ''player_support'')
             (hello_support payload ''artwork@v1_support'' ''artwork_support'')
             (hello_support payload ''source@v1_support'' ''source_support'')
             (helloIdentity payload s))"
  using assms by (simp add: handleHello_def Let_def missingSupport_def helloIdentity_def)

lemma effects_helloIdentity: "effects (helloIdentity payload s) = effects s"
  by (simp add: helloIdentity_def)

lemma ready_helloIdentity: "ready (helloIdentity payload s) = ready s"
  by (simp add: helloIdentity_def)

text \<open>Before the session is ready, a text message of type \<^verbatim>\<open>client/hello\<close> is handled by
  \<open>handleHello\<close>, and any other text closes the socket.\<close>

lemma handleText_await_hello:
  "\<not> ready s \<Longrightarrow> get_prop msg ''type'' = Some (JStr ''client/hello'') \<Longrightarrow>
   handleText ev (Some msg) s = handleHello ev (get_prop msg ''payload'') s"
  by (cases msg) (simp_all add: handleText_def Let_def)

lemma handleText_await_other:
  "\<not> ready s \<Longrightarrow> msg \<noteq> JNull \<Longrightarrow> get_prop msg ''type'' \<noteq> Some (JStr ''client/hello'') \<Longrightarrow>
   handleText ev (Some msg) s = closeWith ''expected client/hello first'' s"
  by (simp add: handleText_def Let_def)

text \<open>The checks of \<open>handleHello\<close> in terms of what it extracts from the payload.\<close>

lemma hello_checks:
  "(closedWith ''invalid protocol version'' s (handleHello ev payload s)
      \<longleftrightarrow> hello_version payload \<noteq> Some 1)
   \<and> (hello_version payload = Some 1 \<longrightarrow>
        (closedWith ''missing client_id'' s (handleHello ev payload s)
           \<longleftrightarrow> hello_client_id payload = []))
   \<and> (hello_version payload = Some 1 \<and> hello_client_id payload \<noteq> [] \<longrightarrow>
        (closedWith ''missing supported_roles'' s (handleHello ev payload s)
           \<longleftrightarrow> hello_supported_roles payload = []))
   \<and> (hello_version payload = Some 1 \<and> hello_client_id payload \<noteq> []
        \<and> hello_supported_roles payload \<noteq> [] \<longrightarrow>
        (closedWith ''missing player support'' s (handleHello ev payload s)
           \<longleftrightarrow> missingSupport payload PLAYER ''player@v1_support'' ''player_support'')
        \<and> (\<not> missingSupport payload PLAYER ''player@v1_support'' ''player_support'' \<longrightarrow>
             (closedWith ''missing artwork support'' s (handleHello ev payload s)
                \<longleftrightarrow> missingSupport payload ARTWORK ''artwork@v1_support'' ''artwork_support''))
        \<and> (\<not> missingSupport payload PLAYER ''player@v1_support'' ''player_support''
             \<and> \<not> missingSupport payload ARTWORK ''artwork@v1_support'' ''artwork_support'' \<longrightarrow>
             (closedWith ''missing visualizer support'' s (handleHello ev payload s)
                \<longleftrightarrow> missingSupport payload VISUALIZER ''visualizer@v1_support''
                       ''visualizer_support''))
        \<and> (\<not> missingSupport payload PLAYER ''player@v1_support'' ''player_support''
             \<and> \<not> missingSupport payload ARTWORK ''artwork@v1_support'' ''artwork_support''
             \<and> \<not> missingSupport payload VISUALIZER ''visualizer@v1_support'' ''visualizer_support''
             \<longrightarrow>
             (closedWith ''missing source support'' s (handleHello ev payload s)
                \<longleftrightarrow> missingSupport payload SOURCE ''source@v1_support'' ''source_support''))
        \<and> (\<not> missingSupport payload PLAYER ''player@v1_support'' ''player_support''
             \<and> \<not> missingSupport payload ARTWORK ''artwork@v1_support'' ''artwork_support''
             \<and> \<not> missingSupport payload VISUALIZER ''visualizer@v1_support'' ''visualizer_support''
             \<and> \<not> missingSupport payload SOURCE ''source@v1_support'' ''source_support''
             \<longrightarrow> closes (effects (handleHello ev payload s)) = closes (effects s)))
   \<and> (\<not> ready s \<and> closes (effects (handleHello ev payload s)) \<noteq> closes (effects s)
        \<longrightarrow> \<not> ready (handleHello ev payload s))"
proof (cases "hello_version payload = Some 1")
  case False
  then show ?thesis
    by (simp add: handleHello_version closedWith_closeWith ready_closeWith)
next
  case v: True
  show ?thesis
  proof (cases "hello_client_id payload = []")
    case True
    with v show ?thesis
      by (simp add: handleHello_client_id closedWith_closeWith ready_closeWith)
  next
    case c: False
    show ?thesis
    proof (cases "hello_supported_roles payload = []")
      case True
      with v c show ?thesis
        by (simp add: handleHello_supported_roles closedWith_closeWith ready_closeWith)
    next
      case r: False
      show ?thesis
        using v c r
        by (simp add: handleHello_capabilities closedWith_closeWith closedWith_accept
            ready_closeWith effects_helloIdentity ready_helloIdentity closes_accept_same)
    qed
  qed
qed

text \<open>What \<open>handleHello\<close> extracts, in terms of the payload.\<close>

lemma trim_empty_iff: "trim v = [] \<longleftrightarrow> list_all isWhiteSpace v"
proof
  assume "list_all isWhiteSpace v"
  then have "\<forall>x\<in>set v. isWhiteSpace x" by (simp add: list_all_iff)
  then show "trim v = []" by (auto simp add: trim_def dest: set_dropWhileD)
next
  assume t: "trim v = []"
  show "list_all isWhiteSpace v"
  proof (rule ccontr)
    assume "\<not> list_all isWhiteSpace v"
    then have ne: "dropWhile isWhiteSpace v \<noteq> []" by (simp add: list_all_iff dropWhile_eq_Nil_conv)
    then have "\<not> isWhiteSpace (hd (dropWhile isWhiteSpace v))" by (rule hd_dropWhile)
    moreover from t have "\<forall>x\<in>set (dropWhile isWhiteSpace v). isWhiteSpace x"
      by (simp add: trim_def dropWhile_eq_Nil_conv)
    ultimately show False using ne by (metis hd_in_set)
  qed
qed

lemma version_iff: "hello_version payload = Some 1 \<longleftrightarrow> versionIsOne payload"
  by (simp add: hello_version_def versionIsOne_def split: option.splits json.splits)

lemma client_id_iff: "hello_client_id payload = [] \<longleftrightarrow> clientIdBlank payload"
  by (simp add: hello_client_id_def clientIdBlank_def trim_empty_iff split: option.splits json.splits)

lemma supported_roles_iff: "hello_supported_roles payload = [] \<longleftrightarrow> noSupportedRoles payload"
  by (simp add: hello_supported_roles_def noSupportedRoles_def split: option.splits json.splits)

lemma strings_member: "r \<in> set (strings xs) \<longleftrightarrow> JStr r \<in> set xs"
  by (induction xs rule: strings.induct) auto

lemma admitted_iff:
  "role \<in> serverSupported \<Longrightarrow>
   role \<in> set (fst (resolveActiveRoles (hello_supported_roles payload))) \<longleftrightarrow> offersRole payload role"
  by (simp add: active_roles_set strings_member hello_supported_roles_def offersRole_def
      split: option.splits json.splits)

lemma block_iff: "\<not> truthy (hello_support payload key legacy) \<longleftrightarrow> lacksBlock payload key legacy"
proof -
  have "\<not> truthy (case nullish a (nullish b None) of None \<Rightarrow> JNull | Some v \<Rightarrow> v)
      \<longleftrightarrow> (if isNullish a then \<not> truthy_opt b else \<not> truthy_opt a)" for a b
    by (cases "(a, nullish b None)" rule: nullish.cases; cases "(b, None :: json option)" rule: nullish.cases)
       simp_all
  then show ?thesis by (simp add: hello_support_def lacksBlock_def)
qed

lemma missingSupport_iff:
  "role \<in> serverSupported \<Longrightarrow>
   missingSupport payload role key legacy \<longleftrightarrow> offersRole payload role \<and> lacksBlock payload key legacy"
  by (simp add: missingSupport_def admitted_iff block_iff)

lemma roles_supported:
  "PLAYER \<in> serverSupported" "ARTWORK \<in> serverSupported" "VISUALIZER \<in> serverSupported"
  "SOURCE \<in> serverSupported"
  by (simp_all add: serverSupported_def)

text \<open>The example hellos, and what becomes of them.\<close>

lemma trim_c1: "trim '' c1 '' = ''c1''" "trim ''c1'' = ''c1''"
  by (simp_all add: trim_def isWhiteSpace_def)

lemma hello_no_roles_fields:
  "hello_version (Some hello_no_roles) = Some 1"
  "hello_client_id (Some hello_no_roles) = ''c1''"
  "hello_supported_roles (Some hello_no_roles) = []"
  by (simp_all add: hello_no_roles_def hello_version_def hello_client_id_def
      hello_supported_roles_def trim_c1)

lemma hello_player_no_support_fields:
  "hello_version (Some hello_player_no_support) = Some 1"
  "hello_client_id (Some hello_player_no_support) = ''c1''"
  "hello_supported_roles (Some hello_player_no_support) = [JStr ''player@v1'']"
  "hello_support (Some hello_player_no_support) ''player@v1_support'' ''player_support'' = JNull"
  by (simp_all add: hello_player_no_support_def hello_version_def hello_client_id_def
      hello_supported_roles_def hello_support_def trim_c1)

lemma hello_controller_fields:
  "hello_version (Some hello_controller) = Some 1"
  "hello_client_id (Some hello_controller) = ''c1''"
  "hello_name (Some hello_controller) = None"
  "hello_supported_roles (Some hello_controller) = [JStr ''controller@v1'']"
  "hello_support (Some hello_controller) ''player@v1_support'' ''player_support'' = JNull"
  "hello_support (Some hello_controller) ''artwork@v1_support'' ''artwork_support'' = JNull"
  "hello_support (Some hello_controller) ''visualizer@v1_support'' ''visualizer_support'' = JNull"
  "hello_support (Some hello_controller) ''source@v1_support'' ''source_support'' = JNull"
  by (simp_all add: hello_controller_def hello_version_def hello_client_id_def hello_name_def
      hello_supported_roles_def hello_support_def trim_c1)

lemma resolve_player: "resolveActiveRoles [JStr ''player@v1''] = ([''player@v1''], [])"
  by (simp add: resolveActiveRoles_def serverSupported_def role_defs family_def)

lemma resolve_controller: "resolveActiveRoles [JStr ''controller@v1''] = ([''controller@v1''], [])"
  by (simp add: resolveActiveRoles_def serverSupported_def role_defs family_def)

lemma missing_player_example:
  "missingSupport (Some hello_player_no_support) PLAYER ''player@v1_support'' ''player_support''"
  by (simp add: missingSupport_def hello_player_no_support_fields resolve_player PLAYER_def)

lemma session0_fields: "\<not> ready session0" "effects session0 = []"
  by (simp_all add: session0_def SendspinSession_new_def)

lemma rejected_player_hello:
  "handleHello ev (Some hello_player_no_support) s
     = closeWith ''missing player support'' (helloIdentity (Some hello_player_no_support) s)"
  using missing_player_example
  by (simp add: handleHello_capabilities hello_player_no_support_fields)

lemma accepted_controller_hello:
  "handleHello ev (Some hello_controller) s
     = handleHello_finish ev [] JNull False False
         (helloIdentity (Some hello_controller) s \<lparr> playerSupport := JObj [], sourceSupport := JNull \<rparr>)"
proof -
  have nm: "\<not> missingSupport (Some hello_controller) PLAYER ''player@v1_support'' ''player_support''"
    "\<not> missingSupport (Some hello_controller) ARTWORK ''artwork@v1_support'' ''artwork_support''"
    "\<not> missingSupport (Some hello_controller) VISUALIZER ''visualizer@v1_support'' ''visualizer_support''"
    "\<not> missingSupport (Some hello_controller) SOURCE ''source@v1_support'' ''source_support''"
    by (simp_all add: missingSupport_def hello_controller_fields resolve_controller role_defs)
  have "handleHello ev (Some hello_controller) s
      = handleHello_accept ev [] JNull JNull JNull (helloIdentity (Some hello_controller) s)"
    using nm by (simp add: handleHello_capabilities hello_controller_fields resolve_controller)
  also have "\<dots> = handleHello_finish ev [] JNull False False
         (helloIdentity (Some hello_controller) s \<lparr> playerSupport := JObj [], sourceSupport := JNull \<rparr>)"
    by (simp add: handleHello_accept_def Let_def includes_or_empty_def)
  finally show ?thesis .
qed

text \<open>
  Claim C5, as stated, fails in its last part: the session keeps no record of the close. A
  hello that is rejected for a missing player block leaves the session waiting for a hello,
  and a valid hello that arrives next on the closing socket makes the session ready.
\<close>

theorem hello_validation_counterexample:
  "closes (effects (run [(ev_open, HandleText (Some msg_hello_player_no_support))] session0))
     = [Some (1008, ''missing player support'')]
   \<and> \<not> ready (run [(ev_open, HandleText (Some msg_hello_player_no_support))] session0)
   \<and> ready (run [(ev_open, HandleText (Some msg_hello_player_no_support)),
                  (ev_closing, HandleText (Some msg_hello_controller))] session0)"
proof -
  define s1 where "s1 = closeWith ''missing player support''
      (helloIdentity (Some hello_player_no_support) session0)"
  have 1: "handleText ev_open (Some msg_hello_player_no_support) session0 = s1"
    using session0_fields(1)
    by (simp add: handleText_await_hello msg_hello_player_no_support_def rejected_player_hello
        s1_def)
  have c: "closes (effects s1) = [Some (1008, ''missing player support'')]"
    by (simp add: s1_def closes_closeWith effects_helloIdentity session0_fields)
  have nr: "\<not> ready s1"
    by (simp add: s1_def ready_closeWith ready_helloIdentity session0_fields)
  have 2: "handleText ev_closing (Some msg_hello_controller) s1
      = handleHello_finish ev_closing [] JNull False False
         (helloIdentity (Some hello_controller) s1 \<lparr> playerSupport := JObj [], sourceSupport := JNull \<rparr>)"
    using nr
    by (simp add: handleText_await_hello msg_hello_controller_def accepted_controller_hello)
  show ?thesis
    by (simp add: 1 2 c nr ready_handleHello_finish)
qed

text \<open>
  Claim C5, amended. A \<^verbatim>\<open>client/hello\<close> payload handled by \<open>handleHello\<close> closes the socket
  with code 1008 and reason "invalid protocol version" iff its version is not the number 1;
  otherwise with "missing client_id" iff its client id is not a string with a character
  other than white space; otherwise with "missing supported_roles" iff its supported roles
  are not a non-empty array; otherwise with "missing player support", "missing artwork
  support", "missing visualizer support", "missing source support", checked in this order,
  iff the array holds the role literal of that family and the capability block of the role
  (under the canonical key or, when that is missing or null, under the legacy key) is missing
  or falsy; otherwise it does not close the socket. A hello that closes the socket of a
  session that is not ready returns with the session still not ready.
\<close>

theorem hello_validation:
  "(closedWith ''invalid protocol version'' s (handleHello ev payload s)
      \<longleftrightarrow> \<not> versionIsOne payload)
   \<and> (versionIsOne payload \<longrightarrow>
        (closedWith ''missing client_id'' s (handleHello ev payload s)
           \<longleftrightarrow> clientIdBlank payload))
   \<and> (versionIsOne payload \<and> \<not> clientIdBlank payload \<longrightarrow>
        (closedWith ''missing supported_roles'' s (handleHello ev payload s)
           \<longleftrightarrow> noSupportedRoles payload))
   \<and> (versionIsOne payload \<and> \<not> clientIdBlank payload \<and> \<not> noSupportedRoles payload \<longrightarrow>
        (closedWith ''missing player support'' s (handleHello ev payload s)
           \<longleftrightarrow> offersRole payload PLAYER
                \<and> lacksBlock payload ''player@v1_support'' ''player_support'')
        \<and> (\<not> (offersRole payload PLAYER
                \<and> lacksBlock payload ''player@v1_support'' ''player_support'') \<longrightarrow>
             (closedWith ''missing artwork support'' s (handleHello ev payload s)
                \<longleftrightarrow> offersRole payload ARTWORK
                     \<and> lacksBlock payload ''artwork@v1_support'' ''artwork_support''))
        \<and> (\<not> (offersRole payload PLAYER
                \<and> lacksBlock payload ''player@v1_support'' ''player_support'')
             \<and> \<not> (offersRole payload ARTWORK
                    \<and> lacksBlock payload ''artwork@v1_support'' ''artwork_support'') \<longrightarrow>
             (closedWith ''missing visualizer support'' s (handleHello ev payload s)
                \<longleftrightarrow> offersRole payload VISUALIZER
                     \<and> lacksBlock payload ''visualizer@v1_support'' ''visualizer_support''))
        \<and> (\<not> (offersRole payload PLAYER
                \<and> lacksBlock payload ''player@v1_support'' ''player_support'')
             \<and> \<not> (offersRole payload ARTWORK
                    \<and> lacksBlock payload ''artwork@v1_support'' ''artwork_support'')
             \<and> \<not> (offersRole payload VISUALIZER
                    \<and> lacksBlock payload ''visualizer@v1_support'' ''visualizer_support'') \<longrightarrow>
             (closedWith ''missing source support'' s (handleHello ev payload s)
                \<longleftrightarrow> offersRole payload SOURCE
                     \<and> lacksBlock payload ''source@v1_support'' ''source_support''))
        \<and> (\<not> (offersRole payload PLAYER
                \<and> lacksBlock payload ''player@v1_support'' ''player_support'')
             \<and> \<not> (offersRole payload ARTWORK
                    \<and> lacksBlock payload ''artwork@v1_support'' ''artwork_support'')
             \<and> \<not> (offersRole payload VISUALIZER
                    \<and> lacksBlock payload ''visualizer@v1_support'' ''visualizer_support'')
             \<and> \<not> (offersRole payload SOURCE
                    \<and> lacksBlock payload ''source@v1_support'' ''source_support'') \<longrightarrow>
             closes (effects (handleHello ev payload s)) = closes (effects s)))
   \<and> (\<not> ready s \<and> closes (effects (handleHello ev payload s)) \<noteq> closes (effects s)
        \<longrightarrow> \<not> ready (handleHello ev payload s))"
  using hello_checks [of s ev payload]
  unfolding version_iff client_id_iff supported_roles_iff
    missingSupport_iff [OF roles_supported(1)] missingSupport_iff [OF roles_supported(2)]
    missingSupport_iff [OF roles_supported(3)] missingSupport_iff [OF roles_supported(4)]
  .

theorem hello_validation_witness:
  "closedWith ''invalid protocol version'' session0
     (handleHello ev_open (Some hello_version_2) session0)
   \<and> closedWith ''invalid protocol version'' session0
     (handleHello ev_open (Some hello_version_text) session0)
   \<and> closedWith ''missing client_id'' session0
     (handleHello ev_open (Some hello_blank_id) session0)
   \<and> closedWith ''missing supported_roles'' session0
     (handleHello ev_open (Some hello_no_roles) session0)
   \<and> closedWith ''missing player support'' session0
     (handleHello ev_open (Some hello_player_no_support) session0)
   \<and> closedWith ''missing artwork support'' session0
     (handleHello ev_open (Some hello_artwork_no_support) session0)
   \<and> closedWith ''missing visualizer support'' session0
     (handleHello ev_open (Some hello_visualizer_no_support) session0)
   \<and> closedWith ''missing source support'' session0
     (handleHello ev_open (Some hello_source_no_support) session0)
   \<and> closes (effects (handleHello ev_open (Some hello_player_legacy) session0)) = []
   \<and> \<not> ready (handleHello ev_open (Some hello_player_no_support) session0)"
proof -
  note defs = versionIsOne_def clientIdBlank_def noSupportedRoles_def offersRole_def
    lacksBlock_def isWhiteSpace_def role_defs
  have 1: "closedWith ''invalid protocol version'' session0
     (handleHello ev_open (Some hello_version_2) session0)"
    using hello_validation [of session0 ev_open "Some hello_version_2"]
    by (simp add: defs hello_version_2_def)
  have 2: "closedWith ''invalid protocol version'' session0
     (handleHello ev_open (Some hello_version_text) session0)"
    using hello_validation [of session0 ev_open "Some hello_version_text"]
    by (simp add: defs hello_version_text_def)
  have 3: "closedWith ''missing client_id'' session0
     (handleHello ev_open (Some hello_blank_id) session0)"
    using hello_validation [of session0 ev_open "Some hello_blank_id"]
    by (simp add: defs hello_blank_id_def)
  have 4: "closedWith ''missing supported_roles'' session0
     (handleHello ev_open (Some hello_no_roles) session0)"
    using hello_validation [of session0 ev_open "Some hello_no_roles"]
    by (simp add: defs hello_no_roles_def)
  have 5: "closedWith ''missing player support'' session0
     (handleHello ev_open (Some hello_player_no_support) session0)"
    using hello_validation [of session0 ev_open "Some hello_player_no_support"]
    by (simp add: defs hello_player_no_support_def)
  have 6: "closedWith ''missing artwork support'' session0
     (handleHello ev_open (Some hello_artwork_no_support) session0)"
    using hello_validation [of session0 ev_open "Some hello_artwork_no_support"]
    by (simp add: defs hello_artwork_no_support_def)
  have 7: "closedWith ''missing visualizer support'' session0
     (handleHello ev_open (Some hello_visualizer_no_support) session0)"
    using hello_validation [of session0 ev_open "Some hello_visualizer_no_support"]
    by (simp add: defs hello_visualizer_no_support_def)
  have 8: "closedWith ''missing source support'' session0
     (handleHello ev_open (Some hello_source_no_support) session0)"
    using hello_validation [of session0 ev_open "Some hello_source_no_support"]
    by (simp add: defs hello_source_no_support_def)
  have 9: "closes (effects (handleHello ev_open (Some hello_player_legacy) session0)) = []"
    using hello_validation [of session0 ev_open "Some hello_player_legacy"]
    by (simp add: defs hello_player_legacy_def session0_fields)
  from 5 have "closes (effects (handleHello ev_open (Some hello_player_no_support) session0))
      \<noteq> closes (effects session0)"
    by (simp add: closedWith_def)
  then have 10: "\<not> ready (handleHello ev_open (Some hello_player_no_support) session0)"
    using hello_validation [of session0 ev_open "Some hello_player_no_support"] session0_fields
    by blast
  from 1 2 3 4 5 6 7 8 9 10 show ?thesis by blast
qed

lemma getSession_loop_skip:
  "\<forall>x\<in>set others. clientId x \<noteq> Some cid \<Longrightarrow>
   getSession_loop (others @ rest) cid p f = getSession_loop rest cid p f"
  by (induction others) simp_all

lemma getSession_last:
  assumes "\<forall>x\<in>set others. clientId x \<noteq> Some cid" and "clientId s' = Some cid"
  shows "getSession (others @ [s']) cid = Some s'"
  using assms by (simp add: getSession_def getSession_loop_skip)

lemma clientId_closeWith: "clientId (closeWith R s) = clientId s"
  by (simp add: closeWith_def emit_def)

lemma roles_closeWith: "roles (closeWith R s) = roles s"
  by (simp add: closeWith_def emit_def)

text \<open>
  Claim C9. A hello that is rejected at the supported-roles check leaves its trimmed client
  id in the session; a hello rejected at a capability check leaves its client id and the
  roles resolved from it. The session is not ready in either case, and a lookup by that
  client id in a registry that holds the session (and no other session with that id)
  returns the rejected session.
\<close>

theorem rejected_hello_not_atomic:
  assumes nr: "\<not> ready s"
    and v: "hello_version payload = Some 1"
    and c: "hello_client_id payload \<noteq> []"
    and others: "\<forall>x\<in>set others. clientId x \<noteq> Some (hello_client_id payload)"
  shows "(hello_supported_roles payload = [] \<longrightarrow>
           (let s' = handleHello ev payload s
            in closedWith ''missing supported_roles'' s s'
               \<and> clientId s' = Some (hello_client_id payload)
               \<and> \<not> ready s'
               \<and> getSession (others @ [s']) (hello_client_id payload) = Some s'))
       \<and> (hello_supported_roles payload \<noteq> []
           \<and> (missingSupport payload PLAYER ''player@v1_support'' ''player_support''
                \<or> missingSupport payload ARTWORK ''artwork@v1_support'' ''artwork_support''
                \<or> missingSupport payload VISUALIZER ''visualizer@v1_support'' ''visualizer_support''
                \<or> missingSupport payload SOURCE ''source@v1_support'' ''source_support'') \<longrightarrow>
           (let s' = handleHello ev payload s
            in closes (effects s') \<noteq> closes (effects s)
               \<and> clientId s' = Some (hello_client_id payload)
               \<and> roles s' = fst (resolveActiveRoles (hello_supported_roles payload))
               \<and> \<not> ready s'
               \<and> getSession (others @ [s']) (hello_client_id payload) = Some s'))"
proof (intro conjI impI)
  assume r: "hello_supported_roles payload = []"
  let ?s' = "handleHello ev payload s"
  have eq: "?s' = closeWith ''missing supported_roles''
       (s \<lparr> clientId := Some (hello_client_id payload), clientName := hello_name payload \<rparr>)"
    using v c r by (rule handleHello_supported_roles)
  have id: "clientId ?s' = Some (hello_client_id payload)"
    by (simp add: eq clientId_closeWith)
  have "closedWith ''missing supported_roles'' s ?s'"
    by (simp add: eq closedWith_closeWith)
  moreover have "\<not> ready ?s'" using nr by (simp add: eq ready_closeWith)
  moreover have "getSession (others @ [?s']) (hello_client_id payload) = Some ?s'"
    using others id by (rule getSession_last)
  ultimately show "let s' = ?s' in closedWith ''missing supported_roles'' s s'
               \<and> clientId s' = Some (hello_client_id payload)
               \<and> \<not> ready s'
               \<and> getSession (others @ [s']) (hello_client_id payload) = Some s'"
    using id by (simp add: Let_def)
next
  assume a: "hello_supported_roles payload \<noteq> []
           \<and> (missingSupport payload PLAYER ''player@v1_support'' ''player_support''
                \<or> missingSupport payload ARTWORK ''artwork@v1_support'' ''artwork_support''
                \<or> missingSupport payload VISUALIZER ''visualizer@v1_support'' ''visualizer_support''
                \<or> missingSupport payload SOURCE ''source@v1_support'' ''source_support'')"
  let ?s' = "handleHello ev payload s"
  from a have r: "hello_supported_roles payload \<noteq> []" by simp
  from a obtain R where eq: "?s' = closeWith R (helloIdentity payload s)"
    using handleHello_capabilities [OF v c r, of ev s] by (auto split: if_splits)
  have id: "clientId ?s' = Some (hello_client_id payload)"
    by (simp add: eq clientId_closeWith helloIdentity_def)
  have "closes (effects ?s') \<noteq> closes (effects s)"
    by (simp add: eq closes_closeWith effects_helloIdentity)
  moreover have "roles ?s' = fst (resolveActiveRoles (hello_supported_roles payload))"
    by (simp add: eq roles_closeWith helloIdentity_def)
  moreover have "\<not> ready ?s'" using nr by (simp add: eq ready_closeWith ready_helloIdentity)
  moreover have "getSession (others @ [?s']) (hello_client_id payload) = Some ?s'"
    using others id by (rule getSession_last)
  ultimately show "let s' = ?s' in closes (effects s') \<noteq> closes (effects s)
               \<and> clientId s' = Some (hello_client_id payload)
               \<and> roles s' = fst (resolveActiveRoles (hello_supported_roles payload))
               \<and> \<not> ready s'
               \<and> getSession (others @ [s']) (hello_client_id payload) = Some s'"
    using id by (simp add: Let_def)
qed

theorem rejected_hello_not_atomic_witness:
  "clientId (handleHello ev_open (Some hello_no_roles) session0) = Some ''c1''
   \<and> \<not> ready (handleHello ev_open (Some hello_no_roles) session0)
   \<and> getSession [session0, handleHello ev_open (Some hello_no_roles) session0] ''c1''
       = Some (handleHello ev_open (Some hello_no_roles) session0)
   \<and> roles (handleHello ev_open (Some hello_player_no_support) session0) = [''player@v1'']
   \<and> clientId (handleHello ev_open (Some hello_player_no_support) session0) = Some ''c1''
   \<and> \<not> ready (handleHello ev_open (Some hello_player_no_support) session0)
   \<and> getSession [session0, handleHello ev_open (Some hello_player_no_support) session0] ''c1''
       = Some (handleHello ev_open (Some hello_player_no_support) session0)"
proof -
  have o: "\<forall>x\<in>set [session0]. clientId x \<noteq> Some ''c1''"
    by (simp add: session0_def SendspinSession_new_def)
  have nr: "\<not> ready session0" by (rule session0_fields)
  from rejected_hello_not_atomic [of session0 "Some hello_no_roles" "[session0]" ev_open]
  have 1: "clientId (handleHello ev_open (Some hello_no_roles) session0) = Some ''c1''
   \<and> \<not> ready (handleHello ev_open (Some hello_no_roles) session0)
   \<and> getSession [session0, handleHello ev_open (Some hello_no_roles) session0] ''c1''
       = Some (handleHello ev_open (Some hello_no_roles) session0)"
    using o nr by (simp add: hello_no_roles_fields Let_def)
  from rejected_hello_not_atomic [of session0 "Some hello_player_no_support" "[session0]" ev_open]
  have 2: "roles (handleHello ev_open (Some hello_player_no_support) session0) = [''player@v1'']
   \<and> clientId (handleHello ev_open (Some hello_player_no_support) session0) = Some ''c1''
   \<and> \<not> ready (handleHello ev_open (Some hello_player_no_support) session0)
   \<and> getSession [session0, handleHello ev_open (Some hello_player_no_support) session0] ''c1''
       = Some (handleHello ev_open (Some hello_player_no_support) session0)"
    using o nr missing_player_example
    by (simp add: hello_player_no_support_fields Let_def resolve_player)
  from 1 2 show ?thesis by simp
qed

subsection \<open>Identification\<close>



































subsection \<open>Backpressure\<close>

lemma binaryWrites_append: "binaryWrites (a @ b) = binaryWrites a @ binaryWrites b"
  by (induction a rule: binaryWrites.induct) simp_all

lemma binaryWrites_emit:
  "binaryWrites (effects (emit e s)) = binaryWrites (effects s) @ binaryWrites [e]"
  by (simp add: emit_def binaryWrites_append)

lemma binaryWrites_sendJson: "binaryWrites (effects (sendJson ev m s)) = binaryWrites (effects s)"
  by (simp add: sendJson_def binaryWrites_emit)

lemma binaryWrites_ensureStreamStarted:
  "binaryWrites (effects (ensureStreamStarted ev s)) = binaryWrites (effects s)"
  by (simp add: ensureStreamStarted_def sendStreamFormat_def binaryWrites_sendJson)

lemma timers_append: "timers (a @ b) = timers a @ timers b"
  by (induction a rule: timers.induct) simp_all

lemma timers_emit: "timers (effects (emit e s)) = timers (effects s) @ timers [e]"
  by (simp add: emit_def timers_append)

lemma timers_sendJson: "timers (effects (sendJson ev m s)) = timers (effects s)"
  by (simp add: sendJson_def timers_emit)

lemma timers_ensureStreamStarted:
  "timers (effects (ensureStreamStarted ev s)) = timers (effects s)"
  by (simp add: ensureStreamStarted_def sendStreamFormat_def timers_sendJson)

lemma pendingRetries_ensureStreamStarted:
  "pendingRetries (ensureStreamStarted ev s) = pendingRetries s"
  by (simp add: ensureStreamStarted_def sendStreamFormat_def sendJson_def emit_def)

lemma sendFrame_written:
  assumes "readyState ev = OPEN" "packBinaryHeaderRaw tag ts = Inr h"
  shows "binaryWrites (effects (sendFrame ev tag ts payload s))
           = binaryWrites (effects s) @ [h @ payload]"
  using assms by (simp add: sendFrame_def sendBinary_def Let_def binaryWrites_emit)

lemma sendFrame_timers: "timers (effects (sendFrame ev tag ts payload s)) = timers (effects s)"
  by (simp add: sendFrame_def sendBinary_def Let_def timers_emit split: sum.splits)

lemma sendFrame_pendingRetries: "pendingRetries (sendFrame ev tag ts payload s) = pendingRetries s"
  by (simp add: sendFrame_def sendBinary_def Let_def emit_def split: sum.splits)

lemma pack_audio_1000000:
  "packBinaryHeaderRaw AUDIO_CHUNK 1000000 = Inr [4, 0, 0, 0, 0, 0, 15, 66, 64]"
  by (simp add: packBinaryHeaderRaw_def packBinaryHeader_def writeBigInt64BE_def AUDIO_CHUNK_def)

text \<open>
  Claim C2, as stated, fails: with 600 KiB buffered, a PCM frame is deferred by
  \<open>sendPcmAudioFrame\<close> and then written by the timer, the buffered amount still above the
  threshold and nobody having asked for \<open>allowDrop\<close>.
\<close>

theorem backpressure_counterexample:
  "maxBufferedSend < bufferedAmount ev_busy
   \<and> binaryWrites
        (effects (run [(ev_busy, SendPcmAudioFrame frame_example), (ev_busy, PcmRetry)] session0))
       = [[4, 0, 0, 0, 0, 0, 15, 66, 64, 1, 2, 3]]"
proof -
  have busy: "maxBufferedSend < bufferedAmount ev_busy" and opn: "readyState ev_busy = OPEN"
    by (simp_all add: ev_busy_def maxBufferedSend_def)
  have s1: "sendPcmAudioFrame ev_busy frame_example session0
      = emit (SetTimeout 5) (session0 \<lparr> pendingRetries := [frame_example] \<rparr>)"
    using busy opn
    by (simp add: sendPcmAudioFrame_def Let_def ensureStreamStarted_def sendStreamFormat_def
        session0_def SendspinSession_new_def)
  have s2: "binaryWrites (effects (pcmRetry ev_busy
        (emit (SetTimeout 5) (session0 \<lparr> pendingRetries := [frame_example] \<rparr>))))
      = [[4, 0, 0, 0, 0, 0, 15, 66, 64, 1, 2, 3]]"
    using opn
    by (simp add: pcmRetry_def Let_def emit_def frame_example_def sendFrame_written
        pack_audio_1000000 session0_def SendspinSession_new_def)
  show ?thesis using busy by (simp add: s1 s2)
qed

text \<open>
  Claim C2, amended. The threshold \<open>MAX_BUFFERED\<close> is 512 KiB. With the socket open and more
  than \<open>MAX_BUFFERED\<close> bytes buffered, a frame given to \<open>sendBinary\<close> with \<open>allowDrop\<close> is not
  written and not queued (the call does nothing to the outside), and the drop counter goes up
  by one; \<open>sendPcmAudioFrame\<close> writes no binary frame and sets one timer of 5 ms for the frame.
  With the socket open and at most \<open>MAX_BUFFERED\<close> bytes buffered, \<open>sendPcmAudioFrame\<close> writes
  the frame, header and data, at once and sets no timer. The timer's body checks the socket
  only: when the socket is not open it does nothing and the frame is gone; when the socket is
  open it writes the frame, header and data, whatever the buffered amount.
\<close>

theorem backpressure_amended:
  "maxBufferedSend = 512 * 1024
   \<and> (readyState ev = OPEN \<and> bufferedAmount ev > maxBufferedSend \<longrightarrow>
        effects (sendBinary ev buf True s) = effects s
        \<and> backpressureDrops (sendBinary ev buf True s) = backpressureDrops s + 1
        \<and> pendingRetries (sendBinary ev buf True s) = pendingRetries s
        \<and> binaryWrites (effects (sendPcmAudioFrame ev frame s)) = binaryWrites (effects s)
        \<and> timers (effects (sendPcmAudioFrame ev frame s)) = timers (effects s) @ [5]
        \<and> pendingRetries (sendPcmAudioFrame ev frame s) = pendingRetries s @ [frame])
   \<and> (readyState ev = OPEN \<and> bufferedAmount ev \<le> maxBufferedSend
        \<and> packBinaryHeaderRaw AUDIO_CHUNK
             (case frame_timestampUs frame of None \<Rightarrow> serverNowUs ev | Some t \<Rightarrow> t) = Inr h \<longrightarrow>
        binaryWrites (effects (sendPcmAudioFrame ev frame s))
          = binaryWrites (effects s) @ [h @ frame_data frame]
        \<and> timers (effects (sendPcmAudioFrame ev frame s)) = timers (effects s)
        \<and> pendingRetries (sendPcmAudioFrame ev frame s) = pendingRetries s)
   \<and> (pendingRetries s = frame # rest \<and> readyState ev \<noteq> OPEN \<longrightarrow>
        effects (pcmRetry ev s) = effects s \<and> pendingRetries (pcmRetry ev s) = rest)
   \<and> (pendingRetries s = frame # rest \<and> readyState ev = OPEN
        \<and> packBinaryHeaderRaw AUDIO_CHUNK
             (case frame_timestampUs frame of None \<Rightarrow> serverNowUs ev | Some t \<Rightarrow> t) = Inr h \<longrightarrow>
        binaryWrites (effects (pcmRetry ev s)) = binaryWrites (effects s) @ [h @ frame_data frame]
        \<and> pendingRetries (pcmRetry ev s) = rest)"
proof -
  have m: "maxBufferedSend = 512 * 1024" by (simp add: maxBufferedSend_def)
  have a: "readyState ev = OPEN \<and> bufferedAmount ev > maxBufferedSend \<longrightarrow>
        effects (sendBinary ev buf True s) = effects s
        \<and> backpressureDrops (sendBinary ev buf True s) = backpressureDrops s + 1
        \<and> pendingRetries (sendBinary ev buf True s) = pendingRetries s"
    by (simp add: sendBinary_def Let_def)
  have b: "readyState ev = OPEN \<and> bufferedAmount ev > maxBufferedSend \<longrightarrow>
        binaryWrites (effects (sendPcmAudioFrame ev frame s)) = binaryWrites (effects s)
        \<and> timers (effects (sendPcmAudioFrame ev frame s)) = timers (effects s) @ [5]
        \<and> pendingRetries (sendPcmAudioFrame ev frame s) = pendingRetries s @ [frame]"
    by (simp add: sendPcmAudioFrame_def Let_def binaryWrites_emit timers_emit
        binaryWrites_ensureStreamStarted timers_ensureStreamStarted)
       (simp add: emit_def pendingRetries_ensureStreamStarted)
  have c: "readyState ev = OPEN \<and> bufferedAmount ev \<le> maxBufferedSend
        \<and> packBinaryHeaderRaw AUDIO_CHUNK
             (case frame_timestampUs frame of None \<Rightarrow> serverNowUs ev | Some t \<Rightarrow> t) = Inr h \<longrightarrow>
        binaryWrites (effects (sendPcmAudioFrame ev frame s))
          = binaryWrites (effects s) @ [h @ frame_data frame]
        \<and> timers (effects (sendPcmAudioFrame ev frame s)) = timers (effects s)
        \<and> pendingRetries (sendPcmAudioFrame ev frame s) = pendingRetries s"
    by (simp add: sendPcmAudioFrame_def Let_def not_less [symmetric] sendFrame_written
        sendFrame_timers sendFrame_pendingRetries binaryWrites_ensureStreamStarted
        timers_ensureStreamStarted pendingRetries_ensureStreamStarted)
  have d: "pendingRetries s = frame # rest \<and> readyState ev \<noteq> OPEN \<longrightarrow>
        effects (pcmRetry ev s) = effects s \<and> pendingRetries (pcmRetry ev s) = rest"
    by (simp add: pcmRetry_def Let_def)
  have e: "pendingRetries s = frame # rest \<and> readyState ev = OPEN
        \<and> packBinaryHeaderRaw AUDIO_CHUNK
             (case frame_timestampUs frame of None \<Rightarrow> serverNowUs ev | Some t \<Rightarrow> t) = Inr h \<longrightarrow>
        binaryWrites (effects (pcmRetry ev s)) = binaryWrites (effects s) @ [h @ frame_data frame]
        \<and> pendingRetries (pcmRetry ev s) = rest"
    by (simp add: pcmRetry_def Let_def sendFrame_written sendFrame_pendingRetries)
  from m a b c d e show ?thesis by blast
qed

theorem backpressure_amended_witness:
  "readyState ev_busy = OPEN \<and> maxBufferedSend < bufferedAmount ev_busy
   \<and> readyState ev_open = OPEN \<and> bufferedAmount ev_open \<le> maxBufferedSend
   \<and> readyState ev_closing \<noteq> OPEN
   \<and> backpressureDrops (sendBinary ev_busy [1] True session0) = 1
   \<and> effects (sendBinary ev_busy [1] True session0) = []
   \<and> binaryWrites (effects (sendPcmAudioFrame ev_busy frame_example session0)) = []
   \<and> timers (effects (sendPcmAudioFrame ev_busy frame_example session0)) = [5]
   \<and> pendingRetries (sendPcmAudioFrame ev_busy frame_example session0) = [frame_example]
   \<and> binaryWrites (effects (sendPcmAudioFrame ev_open frame_example session0))
       = [[4, 0, 0, 0, 0, 0, 15, 66, 64, 1, 2, 3]]
   \<and> effects (pcmRetry ev_closing (session0 \<lparr> pendingRetries := [frame_example] \<rparr>)) = []
   \<and> pendingRetries (pcmRetry ev_closing (session0 \<lparr> pendingRetries := [frame_example] \<rparr>)) = []
   \<and> binaryWrites (effects (pcmRetry ev_busy (session0 \<lparr> pendingRetries := [frame_example] \<rparr>)))
       = [[4, 0, 0, 0, 0, 0, 15, 66, 64, 1, 2, 3]]"
proof -
  have busy: "maxBufferedSend < bufferedAmount ev_busy" and opn: "readyState ev_busy = OPEN"
    by (simp_all add: ev_busy_def maxBufferedSend_def)
  have idle: "bufferedAmount ev_open \<le> maxBufferedSend" and opn': "readyState ev_open = OPEN"
    by (simp_all add: ev_open_def maxBufferedSend_def)
  have cl: "readyState ev_closing \<noteq> OPEN" by (simp add: ev_closing_def)
  have z: "effects session0 = []" "backpressureDrops session0 = 0" "pendingRetries session0 = []"
    by (simp_all add: session0_def SendspinSession_new_def)
  have p: "packBinaryHeaderRaw AUDIO_CHUNK
             (case frame_timestampUs frame_example of None \<Rightarrow> serverNowUs ev | Some t \<Rightarrow> t)
           = Inr [4, 0, 0, 0, 0, 0, 15, 66, 64]" for ev
    by (simp add: frame_example_def pack_audio_1000000)
  from backpressure_amended [of ev_busy "[1]" session0 frame_example]
  have 1: "backpressureDrops (sendBinary ev_busy [1] True session0) = 1
   \<and> effects (sendBinary ev_busy [1] True session0) = []
   \<and> binaryWrites (effects (sendPcmAudioFrame ev_busy frame_example session0)) = []
   \<and> timers (effects (sendPcmAudioFrame ev_busy frame_example session0)) = [5]
   \<and> pendingRetries (sendPcmAudioFrame ev_busy frame_example session0) = [frame_example]"
    using z opn busy by simp
  from backpressure_amended [of ev_open _ session0 frame_example "[4, 0, 0, 0, 0, 0, 15, 66, 64]"]
  have 2: "binaryWrites (effects (sendPcmAudioFrame ev_open frame_example session0))
       = [[4, 0, 0, 0, 0, 0, 15, 66, 64, 1, 2, 3]]"
    using z opn' idle p [of ev_open] by (simp add: frame_example_def)
  from backpressure_amended [of ev_closing _ "session0 \<lparr> pendingRetries := [frame_example] \<rparr>"
      frame_example _ "[]"]
  have 3: "effects (pcmRetry ev_closing (session0 \<lparr> pendingRetries := [frame_example] \<rparr>)) = []
   \<and> pendingRetries (pcmRetry ev_closing (session0 \<lparr> pendingRetries := [frame_example] \<rparr>)) = []"
    using z cl by simp
  from backpressure_amended [of ev_busy _ "session0 \<lparr> pendingRetries := [frame_example] \<rparr>"
      frame_example "[4, 0, 0, 0, 0, 0, 15, 66, 64]" "[]"]
  have 4: "binaryWrites (effects (pcmRetry ev_busy (session0 \<lparr> pendingRetries := [frame_example] \<rparr>)))
       = [[4, 0, 0, 0, 0, 0, 15, 66, 64, 1, 2, 3]]"
    using z opn p [of ev_busy] by (simp add: frame_example_def)
  from 1 2 3 4 opn busy opn' idle cl show ?thesis by simp
qed

end
